theory Spec2Isabelle
  imports Main "HOL-Library.Word"
begin

unbundle bit_operations_syntax

section \<open>Results of fallible code\<close>

text \<open>
  A C++ call either returns, or it does not return normally: an unchecked read or write
  outside a buffer and a remainder by zero (undefined behaviour), \<open>std::vector::at\<close>
  out of range (an exception), \<open>DebugAssertIndex\<close>, \<open>DebugCrash\<close> and
  \<open>DebugUnhandledReturnMsg\<close> (an abort). Each of these is a value \<open>Inl e\<close> of the
  model; \<open>Inr v\<close> is the normal return.
\<close>

datatype error =
    OutOfBounds
  | OutOfRange
  | DivisionByZero
  | AssertFailed
  | Unhandled
  | MissingMif string

section \<open>LevelData.cpp: decoding the FLOR, MAP1 and MAP2 layers\<close>

subsection \<open>Voxel definitions and the level under construction\<close>

text \<open>
  Doubles are opaque: no function of this development computes with one.
\<close>

typedecl double

datatype ChasmType = Dry | Lava | Wet
datatype WallType = Solid | LevelUp | LevelDown | Menu
datatype DoorType = Swinging | Sliding | Raising
datatype Facing = PositiveX | NegativeX | PositiveZ | NegativeZ
datatype WorldType = City | Interior | Wilderness

text \<open>
  Modelled from the spec: \<open>VoxelData\<close> (VoxelData.h is not under src), the tagged variant
  of section 3 of the specification, one constructor for each \<open>VoxelData::make...\<close>
  call of LevelData.cpp, with the arguments in the order of the call.
\<close>

datatype VoxelData =
    Wall int int int "int option" WallType
  | Floor int
  | Ceiling int
  | Raised int int int double double double double
  | Diagonal int bool
  | TransparentWall int bool
  | Edge int double bool bool Facing
  | Chasm int bool bool bool bool ChasmType
  | Door int DoorType

text \<open>
  The accessors of \<open>INFFile\<close> that the three readers call. A pointer that may be null is
  an option; \<open>getMenuIndex\<close> returns \<open>-1\<close> for a texture that is no *MENU.
\<close>

record INFFile =
  getDryChasmIndex :: "int option"
  getLavaChasmIndex :: "int option"
  getWetChasmIndex :: "int option"
  getMenuIndex :: "int \<Rightarrow> int"
  getLevelUpIndex :: "int option"
  getLevelDownIndex :: "int option"

text \<open>
  What the readers take from files that are not under src: the .INF file, the three chasm
  texture IDs of \<open>MIFFile\<close>, the conversion \<open>static_cast<double>(n) / MIFFile::ARENA_UNITS\<close>
  and the raised-platform builder, whose body is floating-point arithmetic on tables of
  the executable.
\<close>

record DecodeEnv =
  inf :: INFFile
  DRY_CHASM :: int
  LAVA_CHASM :: int
  WET_CHASM :: int
  arenaUnits :: "int \<Rightarrow> double"
  makeRaisedVoxelData :: "16 word \<Rightarrow> 8 word \<Rightarrow> VoxelData"

type_synonym AdjacentFaces = "bool \<times> bool \<times> bool \<times> bool"

text \<open>
  The members of \<open>LevelData\<close> that the readers change. \<open>voxelData\<close> is the definition
  list of the voxel grid and \<open>voxels\<close> its array of IDs.
\<close>

record LevelData =
  voxelData :: "VoxelData list"
  voxels :: "int \<times> int \<times> int \<Rightarrow> 16 word"
  floorDataMappings :: "(16 word \<times> int) list"
  chasmDataMappings :: "(16 word \<times> AdjacentFaces \<times> int) list"
  wallDataMappings :: "(16 word \<times> int) list"
  map2DataMappings :: "(16 word \<times> int) list"
  flatsLists :: "(int \<times> (int \<times> int) list) list"

text \<open>
  Modelled from the spec: \<open>VoxelGrid::addVoxelData\<close> (VoxelGrid.cpp is not under src). The
  grid owns the list of definitions that its IDs index into: a new definition goes to the
  end of the list and its position is returned.
\<close>

definition addVoxelData :: "VoxelData \<Rightarrow> LevelData \<Rightarrow> int \<times> LevelData" where
  "addVoxelData d s = (int (length (voxelData s)), s\<lparr>voxelData := voxelData s @ [d]\<rparr>)"

text \<open>
  Modelled from the spec: \<open>VoxelGrid::setVoxel\<close> and \<open>getVoxelDef\<close>. \<open>LevelData::setVoxel\<close>
  takes the ID as a \<open>uint16_t\<close>, so the \<open>int\<close> index is truncated to 16 bits.
\<close>

definition setVoxel :: "int \<Rightarrow> int \<Rightarrow> int \<Rightarrow> int \<Rightarrow> LevelData \<Rightarrow> LevelData" where
  "setVoxel x y z voxelID s = s\<lparr>voxels := (voxels s)((x, y, z) := word_of_int voxelID)\<rparr>"

definition getVoxelDef :: "LevelData \<Rightarrow> 16 word \<Rightarrow> VoxelData option" where
  "getVoxelDef s voxelID =
     (if unat voxelID < length (voxelData s) then Some (voxelData s ! unat voxelID) else None)"

fun addPosition :: "int \<Rightarrow> int \<times> int \<Rightarrow> (int \<times> (int \<times> int) list) list \<Rightarrow> (int \<times> (int \<times> int) list) list" where
  "addPosition flatIndex flatPosition [] = [(flatIndex, [flatPosition])]"
| "addPosition flatIndex flatPosition (flatDef # rest) =
     (if fst flatDef = flatIndex then (fst flatDef, snd flatDef @ [flatPosition]) # rest
      else flatDef # addPosition flatIndex flatPosition rest)"

definition addFlatInstance :: "int \<Rightarrow> int \<times> int \<Rightarrow> LevelData \<Rightarrow> LevelData" where
  "addFlatInstance flatIndex flatPosition s =
     s\<lparr>flatsLists := addPosition flatIndex flatPosition (flatsLists s)\<rparr>"

subsection \<open>Reading a two-byte voxel\<close>

text \<open>
  \<open>Bytes::getLE16\<close> on the buffer of \<open>uint16_t\<close> seen as bytes, on a little-endian host:
  the value at an even byte offset is the element at half the offset. The pointer has no
  bounds check, so a read outside the buffer is undefined behaviour.
\<close>

definition getLE16 :: "16 word list \<Rightarrow> int \<Rightarrow> error + 16 word" where
  "getLE16 buf index =
     (if 0 \<le> index \<and> even index \<and> index div 2 < int (length buf)
      then Inr (buf ! nat (index div 2)) else Inl OutOfBounds)"

text \<open>The lambdas \<open>getFlorVoxel\<close>, \<open>getMap1Voxel\<close> and \<open>getMap2Voxel\<close> of the readers
  are the same function: the layer is read in reverse order.\<close>

definition getLayerVoxel :: "16 word list \<Rightarrow> int \<Rightarrow> int \<Rightarrow> int \<Rightarrow> int \<Rightarrow> error + 16 word" where
  "getLayerVoxel layer gridWidth gridDepth x z =
     getLE16 layer ((((gridDepth - 1) - z) * 2) + ((((gridWidth - 1) - x) * 2) * gridDepth))"

text \<open>A \<open>for (int i = 0; i < n; i++)\<close> loop whose body may fail, over the list of its
  counter values.\<close>

fun forEach :: "('a \<Rightarrow> 's \<Rightarrow> error + 's) \<Rightarrow> 'a list \<Rightarrow> 's \<Rightarrow> error + 's" where
  "forEach body [] s = Inr s"
| "forEach body (i # rest) s =
     (case body i s of Inl e \<Rightarrow> Inl e | Inr s' \<Rightarrow> forEach body rest s')"

subsection \<open>readFLOR\<close>

definition getFloorTextureID :: "16 word \<Rightarrow> int" where
  "getFloorTextureID voxel = uint (drop_bit 8 (voxel AND 0xFF00))"


definition isChasm :: "DecodeEnv \<Rightarrow> int \<Rightarrow> bool" where
  "isChasm env textureID =
     (textureID = DRY_CHASM env \<or> textureID = LAVA_CHASM env \<or> textureID = WET_CHASM env)"

definition getFlorDataIndex :: "16 word \<Rightarrow> int \<Rightarrow> LevelData \<Rightarrow> int \<times> LevelData" where
  "getFlorDataIndex florVoxel floorTextureID s =
     (case find (\<lambda>pair. fst pair = florVoxel) (floorDataMappings s) of
        Some pair \<Rightarrow> (snd pair, s)
      | None \<Rightarrow>
          (let (index, s') = addVoxelData (Floor floorTextureID) s
           in (index, s'\<lparr>floorDataMappings := floorDataMappings s' @ [(florVoxel, index)]\<rparr>)))"

definition getChasmDataIndex ::
  "16 word \<Rightarrow> (INFFile \<Rightarrow> AdjacentFaces \<Rightarrow> VoxelData) \<Rightarrow> DecodeEnv \<Rightarrow> AdjacentFaces \<Rightarrow> LevelData
     \<Rightarrow> int \<times> LevelData" where
  "getChasmDataIndex florVoxel chasmFunc env adjacentFaces s =
     (case find (\<lambda>tuple. fst tuple = florVoxel \<and> fst (snd tuple) = adjacentFaces)
             (chasmDataMappings s) of
        Some tuple \<Rightarrow> (snd (snd tuple), s)
      | None \<Rightarrow>
          (let (index, s') = addVoxelData (chasmFunc (inf env) adjacentFaces) s
           in (index, s'\<lparr>chasmDataMappings :=
                 chasmDataMappings s' @ [(florVoxel, adjacentFaces, index)]\<rparr>)))"

definition makeDryChasmVoxelData :: "INFFile \<Rightarrow> AdjacentFaces \<Rightarrow> VoxelData" where
  "makeDryChasmVoxelData i adjacentFaces =
     (let dryChasmID = (case getDryChasmIndex i of Some v \<Rightarrow> v | None \<Rightarrow> 0);
          (f0, f1, f2, f3) = adjacentFaces
      in Chasm dryChasmID f0 f1 f2 f3 Dry)"

definition makeLavaChasmVoxelData :: "INFFile \<Rightarrow> AdjacentFaces \<Rightarrow> VoxelData" where
  "makeLavaChasmVoxelData i adjacentFaces =
     (let lavaChasmID = (case getLavaChasmIndex i of Some v \<Rightarrow> v | None \<Rightarrow> 0);
          (f0, f1, f2, f3) = adjacentFaces
      in Chasm lavaChasmID f0 f1 f2 f3 Lava)"

definition makeWetChasmVoxelData :: "INFFile \<Rightarrow> AdjacentFaces \<Rightarrow> VoxelData" where
  "makeWetChasmVoxelData i adjacentFaces =
     (let wetChasmID = (case getWetChasmIndex i of Some v \<Rightarrow> v | None \<Rightarrow> 0);
          (f0, f1, f2, f3) = adjacentFaces
      in Chasm wetChasmID f0 f1 f2 f3 Wet)"

text \<open>
  The index that the loop body of \<open>readFLOR\<close> passes to \<open>setVoxel\<close> for a chasm voxel:
  the chain of tests on the texture ID, in the order of the source. The chain has no last
  \<open>else\<close>: \<open>None\<close> is the path on which nothing is written.
\<close>

definition chasmDataIndex ::
  "DecodeEnv \<Rightarrow> 16 word \<Rightarrow> AdjacentFaces \<Rightarrow> LevelData \<Rightarrow> int option \<times> LevelData" where
  "chasmDataIndex env florVoxel adjacentFaces s =
     (let floorTextureID = getFloorTextureID florVoxel in
      if floorTextureID = DRY_CHASM env then
        (let (dataIndex, s') = getChasmDataIndex florVoxel makeDryChasmVoxelData env adjacentFaces s
         in (Some dataIndex, s'))
      else if floorTextureID = LAVA_CHASM env then
        (let (dataIndex, s') = getChasmDataIndex florVoxel makeLavaChasmVoxelData env adjacentFaces s
         in (Some dataIndex, s'))
      else if floorTextureID = WET_CHASM env then
        (let (dataIndex, s') = getChasmDataIndex florVoxel makeWetChasmVoxelData env adjacentFaces s
         in (Some dataIndex, s'))
      else (None, s))"





subsection \<open>readMAP2\<close>

definition getMap2VoxelHeight :: "16 word \<Rightarrow> int" where
  "getMap2VoxelHeight map2Voxel =
     (if map2Voxel AND 0x80 = 0x80 then 2
      else if map2Voxel AND 0x8000 = 0x8000 then 3
      else if map2Voxel AND 0x8080 = 0x8080 then 4
      else 1)"

definition getMap2DataIndex :: "16 word \<Rightarrow> LevelData \<Rightarrow> int \<times> LevelData" where
  "getMap2DataIndex map2Voxel s =
     (case find (\<lambda>pair. fst pair = map2Voxel) (map2DataMappings s) of
        Some pair \<Rightarrow> (snd pair, s)
      | None \<Rightarrow>
          (let textureIndex = uint (map2Voxel AND 0x007F) - 1;
               (index, s') = addVoxelData (Wall textureIndex textureIndex textureIndex None Solid) s
           in (index, s'\<lparr>map2DataMappings := map2DataMappings s' @ [(map2Voxel, index)]\<rparr>)))"

text \<open>The loop \<open>for (int y = 2; y < (height + 2); y++)\<close>.\<close>

function writeStories :: "int \<Rightarrow> int \<Rightarrow> int \<Rightarrow> int \<Rightarrow> int \<Rightarrow> LevelData \<Rightarrow> LevelData" where
  "writeStories x z dataIndex height y s =
     (if y < height + 2 then writeStories x z dataIndex height (y + 1) (setVoxel x y z dataIndex s)
      else s)"
  by pat_completeness auto
termination
  by (relation "measure (\<lambda>(x, z, dataIndex, height, y, s). nat (height + 2 - y))") auto

declare writeStories.simps [simp del]

definition map2Cell ::
  "16 word list \<Rightarrow> int \<Rightarrow> int \<Rightarrow> int \<Rightarrow> int \<Rightarrow> LevelData \<Rightarrow> error + LevelData" where
  "map2Cell map2Buf gridWidth gridDepth x z s =
     (case getLayerVoxel map2Buf gridWidth gridDepth x z of
        Inl e \<Rightarrow> Inl e
      | Inr map2Voxel \<Rightarrow>
          (if map2Voxel \<noteq> 0 then
             (let height = getMap2VoxelHeight map2Voxel;
                  (dataIndex, s') = getMap2DataIndex map2Voxel s
              in Inr (writeStories x z dataIndex height 2 s'))
           else Inr s))"

definition readMAP2 :: "16 word list \<Rightarrow> int \<Rightarrow> int \<Rightarrow> LevelData \<Rightarrow> error + LevelData" where
  "readMAP2 map2Buf gridWidth gridDepth s =
     forEach (\<lambda>x. forEach (\<lambda>z. map2Cell map2Buf gridWidth gridDepth x z) [0..gridDepth - 1])
       [0..gridWidth - 1] s"

subsection \<open>readMAP1\<close>

text \<open>The lambda \<open>findWallMapping\<close>: the first pair of \<open>wallDataMappings\<close> with the
  given voxel, or \<open>None\<close> for the end iterator.\<close>

definition findWallMapping :: "16 word \<Rightarrow> LevelData \<Rightarrow> (16 word \<times> int) option" where
  "findWallMapping map1Voxel s = find (\<lambda>pair. fst pair = map1Voxel) (wallDataMappings s)"

definition getDataIndex ::
  "16 word \<Rightarrow> (16 word \<Rightarrow> error + VoxelData) \<Rightarrow> LevelData \<Rightarrow> error + (int \<times> LevelData)" where
  "getDataIndex map1Voxel func s =
     (case findWallMapping map1Voxel s of
        Some wallIter \<Rightarrow> Inr (snd wallIter, s)
      | None \<Rightarrow>
          (case func map1Voxel of
             Inl e \<Rightarrow> Inl e
           | Inr d \<Rightarrow>
               (let (index, s') = addVoxelData d s
                in Inr (index, s'\<lparr>wallDataMappings := wallDataMappings s' @ [(map1Voxel, index)]\<rparr>))))"

text \<open>The lambda \<open>matchesIndex\<close> and the solid wall of \<open>getWallDataIndex\<close>.\<close>

definition matchesIndex :: "int \<Rightarrow> int option \<Rightarrow> bool" where
  "matchesIndex textureIndex index = (case index of None \<Rightarrow> False | Some i \<Rightarrow> i = textureIndex)"

definition makeWallVoxelData :: "INFFile \<Rightarrow> 8 word \<Rightarrow> VoxelData" where
  "makeWallVoxelData i mostSigByte =
     (let textureIndex = uint mostSigByte - 1;
          menuIndex = getMenuIndex i textureIndex;
          isMenu = (menuIndex \<noteq> - 1);
          type = (if matchesIndex textureIndex (getLevelUpIndex i) then LevelUp
                  else if matchesIndex textureIndex (getLevelDownIndex i) then LevelDown
                  else if isMenu then Menu
                  else Solid)
      in Wall textureIndex textureIndex textureIndex (if isMenu then Some menuIndex else None) type)"

definition getWallDataIndex :: "DecodeEnv \<Rightarrow> 16 word \<Rightarrow> 8 word \<Rightarrow> LevelData \<Rightarrow> int \<times> LevelData" where
  "getWallDataIndex env map1Voxel mostSigByte s =
     (case findWallMapping map1Voxel s of
        Some wallIter \<Rightarrow> (snd wallIter, s)
      | None \<Rightarrow>
          (let (index, s') = addVoxelData (makeWallVoxelData (inf env) mostSigByte) s
           in (index, s'\<lparr>wallDataMappings := wallDataMappings s' @ [(map1Voxel, index)]\<rparr>)))"

text \<open>The coordinates \<open>x\<close> and \<open>z\<close> of the source only go into a warning of the log.\<close>

definition getRaisedDataIndex :: "DecodeEnv \<Rightarrow> 16 word \<Rightarrow> 8 word \<Rightarrow> LevelData \<Rightarrow> int \<times> LevelData" where
  "getRaisedDataIndex env map1Voxel mostSigByte s =
     (case findWallMapping map1Voxel s of
        Some wallIter \<Rightarrow> (snd wallIter, s)
      | None \<Rightarrow>
          (let (index, s') = addVoxelData (makeRaisedVoxelData env map1Voxel mostSigByte) s
           in (index, s'\<lparr>wallDataMappings := wallDataMappings s' @ [(map1Voxel, index)]\<rparr>)))"

definition makeType9VoxelData :: "16 word \<Rightarrow> error + VoxelData" where
  "makeType9VoxelData map1Voxel =
     (let textureIndex = uint (map1Voxel AND 0x00FF) - 1;
          collider = (map1Voxel AND 0x0100 = 0)
      in Inr (TransparentWall textureIndex collider))"

definition makeTypeAVoxelData :: "DecodeEnv \<Rightarrow> WorldType \<Rightarrow> 16 word \<Rightarrow> int \<Rightarrow> VoxelData" where
  "makeTypeAVoxelData env worldType map1Voxel textureIndex =
     (let baseOffset = uint (drop_bit 9 (map1Voxel AND 0x0E00));
          fullOffset = (if worldType = Interior then baseOffset * 8 else (baseOffset * 32) - 8);
          yOffset = arenaUnits env fullOffset;
          collider = (map1Voxel AND 0x0100 \<noteq> 0);
          flipped = collider;
          orientation = uint (drop_bit 4 (map1Voxel AND 0x00C0));
          facing = (if orientation = 0x0 then PositiveX
                    else if orientation = 0x4 then NegativeZ
                    else if orientation = 0x8 then NegativeX
                    else PositiveZ)
      in Edge textureIndex yOffset collider flipped facing)"

definition getTypeADataIndex ::
  "DecodeEnv \<Rightarrow> WorldType \<Rightarrow> 16 word \<Rightarrow> int \<Rightarrow> LevelData \<Rightarrow> int \<times> LevelData" where
  "getTypeADataIndex env worldType map1Voxel textureIndex s =
     (case findWallMapping map1Voxel s of
        Some wallIter \<Rightarrow> (snd wallIter, s)
      | None \<Rightarrow>
          (let (index, s') = addVoxelData (makeTypeAVoxelData env worldType map1Voxel textureIndex) s
           in (index, s'\<lparr>wallDataMappings := wallDataMappings s' @ [(map1Voxel, index)]\<rparr>)))"

text \<open>A door of the fourth type ends in \<open>DebugUnhandledReturnMsg\<close>.\<close>

definition makeTypeBVoxelData :: "16 word \<Rightarrow> error + VoxelData" where
  "makeTypeBVoxelData map1Voxel =
     (let textureIndex = uint (map1Voxel AND 0x003F) - 1;
          type = uint (drop_bit 4 (map1Voxel AND 0x00C0))
      in if type = 0x0 then Inr (Door textureIndex Swinging)
         else if type = 0x4 then Inr (Door textureIndex Sliding)
         else if type = 0x8 then Inr (Door textureIndex Raising)
         else Inl Unhandled)"

definition makeTypeDVoxelData :: "16 word \<Rightarrow> error + VoxelData" where
  "makeTypeDVoxelData map1Voxel =
     (let textureIndex = uint (map1Voxel AND 0x00FF) - 1;
          isRightDiag = (map1Voxel AND 0x0100 = 0)
      in Inr (Diagonal textureIndex isRightDiag))"

text \<open>
  The index that the loop body of \<open>readMAP1\<close> passes to \<open>setVoxel\<close> for a voxel, or
  \<open>None\<close> on the paths that write no voxel: the empty voxel, the object of type 0x8, the
  edge with no texture, the types 0xC, 0xE and 0xF.
\<close>

definition map1DataIndex ::
  "DecodeEnv \<Rightarrow> WorldType \<Rightarrow> 16 word \<Rightarrow> LevelData \<Rightarrow> error + (int option \<times> LevelData)" where
  "map1DataIndex env worldType map1Voxel s =
     (if map1Voxel AND 0x8000 = 0 then
        (if map1Voxel \<noteq> 0 then
           (let mostSigByte = (ucast (drop_bit 8 (map1Voxel AND 0x7F00)) :: 8 word);
                leastSigByte = (ucast (map1Voxel AND 0x007F) :: 8 word)
            in if mostSigByte = leastSigByte then
                 (let (dataIndex, s') = getWallDataIndex env map1Voxel mostSigByte s
                  in Inr (Some dataIndex, s'))
               else
                 (let (dataIndex, s') = getRaisedDataIndex env map1Voxel mostSigByte s
                  in Inr (Some dataIndex, s')))
         else Inr (None, s))
      else
        (let mostSigNibble = (ucast (drop_bit 12 (map1Voxel AND 0xF000)) :: 8 word)
         in if mostSigNibble = 0x8 then Inr (None, s)
            else if mostSigNibble = 0x9 then
              (case getDataIndex map1Voxel makeType9VoxelData s of
                 Inl e \<Rightarrow> Inl e | Inr (dataIndex, s') \<Rightarrow> Inr (Some dataIndex, s'))
            else if mostSigNibble = 0xA then
              (let textureIndex = uint (map1Voxel AND 0x003F) - 1
               in if textureIndex \<ge> 0 then
                    (let (dataIndex, s') = getTypeADataIndex env worldType map1Voxel textureIndex s
                     in Inr (Some dataIndex, s'))
                  else Inr (None, s))
            else if mostSigNibble = 0xB then
              (case getDataIndex map1Voxel makeTypeBVoxelData s of
                 Inl e \<Rightarrow> Inl e | Inr (dataIndex, s') \<Rightarrow> Inr (Some dataIndex, s'))
            else if mostSigNibble = 0xC then Inr (None, s)
            else if mostSigNibble = 0xD then
              (case getDataIndex map1Voxel makeTypeDVoxelData s of
                 Inl e \<Rightarrow> Inl e | Inr (dataIndex, s') \<Rightarrow> Inr (Some dataIndex, s'))
            else Inr (None, s)))"

text \<open>The body of the two loops of \<open>readMAP1\<close>: the voxel is written at level 1, and an
  object of type 0x8 with a nonzero lower byte is added to the flats.\<close>

definition map1Cell ::
  "DecodeEnv \<Rightarrow> WorldType \<Rightarrow> 16 word list \<Rightarrow> int \<Rightarrow> int \<Rightarrow> int \<Rightarrow> int \<Rightarrow> LevelData
     \<Rightarrow> error + LevelData" where
  "map1Cell env worldType map1 gridWidth gridDepth x z s =
     (case getLayerVoxel map1 gridWidth gridDepth x z of
        Inl e \<Rightarrow> Inl e
      | Inr map1Voxel \<Rightarrow>
     (case map1DataIndex env worldType map1Voxel s of
        Inl e \<Rightarrow> Inl e
      | Inr (written, s1) \<Rightarrow>
          (let s2 = (case written of None \<Rightarrow> s1 | Some dataIndex \<Rightarrow> setVoxel x 1 z dataIndex s1);
               flatIndex = uint (ucast (map1Voxel AND 0x00FF) :: 8 word)
           in Inr (if map1Voxel AND 0x8000 \<noteq> 0
                      \<and> (ucast (drop_bit 12 (map1Voxel AND 0xF000)) :: 8 word) = 0x8
                      \<and> flatIndex > 0
                   then addFlatInstance flatIndex (x, z) s2 else s2))))"

definition readMAP1 ::
  "DecodeEnv \<Rightarrow> WorldType \<Rightarrow> 16 word list \<Rightarrow> int \<Rightarrow> int \<Rightarrow> LevelData \<Rightarrow> error + LevelData" where
  "readMAP1 env worldType map1 gridWidth gridDepth s =
     forEach (\<lambda>x. forEach (\<lambda>z. map1Cell env worldType map1 gridWidth gridDepth x z)
       [0..gridDepth - 1]) [0..gridWidth - 1] s"

text \<open>A level as its constructor leaves it: no definition, every voxel 0, no mapping.\<close>

definition emptyLevel :: LevelData where
  "emptyLevel = \<lparr>voxelData = [], voxels = (\<lambda>_. 0), floorDataMappings = [],
     chasmDataMappings = [], wallDataMappings = [], map2DataMappings = [], flatsLists = []\<rparr>"

section \<open>ExteriorLevelData.cpp: cities, building names, palace graphics, wilderness\<close>

subsection \<open>Collaborators that are not under src\<close>

text \<open>
  \<open>ArenaRandom\<close> (Math/Random.h is not under src) is a parameter: \<open>'r\<close> is the type of its
  state, \<open>srand seed\<close> the state after construction or \<open>srand\<close> with that seed, and
  \<open>next\<close> returns the value drawn, an \<open>int\<close> in the expressions of the source, with the
  state after the draw.
\<close>

record 'r ArenaRandom =
  srand :: "32 word \<Rightarrow> 'r"
  "next" :: "'r \<Rightarrow> int \<times> 'r"

text \<open>A generator that replays a list of draws and then draws zeros, to run the model
  on chosen draws.\<close>

definition replayRandom :: "(32 word \<Rightarrow> int list) \<Rightarrow> int list ArenaRandom" where
  "replayRandom script =
     \<lparr>srand = script, next = (\<lambda>r. case r of [] \<Rightarrow> (0, []) | v # rest \<Rightarrow> (v, rest))\<rparr>"

text \<open>The operator \<open>%\<close> of C++ on \<open>int\<close> truncates towards zero; with a zero divisor
  it is undefined.\<close>

definition truncMod :: "int \<Rightarrow> int \<Rightarrow> int" where
  "truncMod a b = sgn a * (\<bar>a\<bar> mod \<bar>b\<bar>)"

definition remainder :: "int \<Rightarrow> int \<Rightarrow> error + int" where
  "remainder a b = (if b = 0 then Inl DivisionByZero else Inr (truncMod a b))"

text \<open>\<open>std::vector::at\<close> and \<open>std::array::at\<close>: an index that is negative as an \<open>int\<close>
  is out of range as a \<open>size_t\<close>.\<close>

definition at :: "'a list \<Rightarrow> int \<Rightarrow> error + 'a" where
  "at xs i = (if 0 \<le> i \<and> i < int (length xs) then Inr (xs ! nat i) else Inl OutOfRange)"

text \<open>
  A loop that may run forever returns an option: \<open>None\<close> is the run that never returns,
  \<open>Some (Inl e)\<close> the run that fails and \<open>Some (Inr v)\<close> the normal return. A counted
  loop around such a body:
\<close>

fun forEachP ::
  "('a \<Rightarrow> 's \<Rightarrow> (error + 's) option) \<Rightarrow> 'a list \<Rightarrow> 's \<Rightarrow> (error + 's) option" where
  "forEachP body [] s = Some (Inr s)"
| "forEachP body (i # rest) s =
     (case body i s of
        None \<Rightarrow> None
      | Some (Inl e) \<Rightarrow> Some (Inl e)
      | Some (Inr s') \<Rightarrow> forEachP body rest s')"

subsection \<open>generateCity\<close>

datatype BlockType =
  Empty | Reserved | Equipment | MagesGuild | NobleHouse | Temple | Tavern | Spacer | Houses

text \<open>\<open>static_cast<int>(block)\<close>.\<close>

fun blockTypeToInt :: "BlockType \<Rightarrow> int" where
  "blockTypeToInt Empty = 0"
| "blockTypeToInt Reserved = 1"
| "blockTypeToInt Equipment = 2"
| "blockTypeToInt MagesGuild = 3"
| "blockTypeToInt NobleHouse = 4"
| "blockTypeToInt Temple = 5"
| "blockTypeToInt Tavern = 6"
| "blockTypeToInt Spacer = 7"
| "blockTypeToInt Houses = 8"

text \<open>The functions of \<open>MIFUtils\<close> that \<open>generateCity\<close> calls, and a block template:
  its dimensions and the three layers of its first level.\<close>

record MIFUtils =
  getCityBlockCode :: "int \<Rightarrow> string"
  getCityBlockRotation :: "int \<Rightarrow> string"
  getCityBlockRotationCount :: int
  getCityBlockVariations :: "int \<Rightarrow> int"
  makeCityBlockMifName :: "string \<Rightarrow> int \<Rightarrow> string \<Rightarrow> string"

record MIFFile =
  mifWidth :: int
  mifDepth :: int
  mifFlor :: "16 word list"
  mifMap1 :: "16 word list"
  mifMap2 :: "16 word list"

text \<open>The lambda \<open>placeBlock\<close>: draw until the plan is empty at the index drawn.\<close>

partial_function (option) placeBlock ::
  "'r ArenaRandom \<Rightarrow> int \<Rightarrow> BlockType \<Rightarrow> BlockType list \<times> 'r
     \<Rightarrow> (error + BlockType list \<times> 'r) option" where
  "placeBlock rnd citySize blockType st =
     (let (plan, r) = st; (v, r') = next rnd r in
      case remainder v citySize of
        Inl e \<Rightarrow> Some (Inl e)
      | Inr planIndex \<Rightarrow>
          (case at plan planIndex of
             Inl e \<Rightarrow> Some (Inl e)
           | Inr b \<Rightarrow>
               if b \<noteq> Empty then placeBlock rnd citySize blockType (plan, r')
               else Some (Inr (plan[nat planIndex := blockType], r'))))"

declare placeBlock.simps [code]

text \<open>The loop over \<open>reservedBlocks\<close>: the block is a \<open>uint8_t\<close>, compared with the size
  of the plan.\<close>

fun setReservedBlocks :: "8 word list \<Rightarrow> BlockType list \<Rightarrow> BlockType list" where
  "setReservedBlocks [] plan = plan"
| "setReservedBlocks (block # rest) plan =
     setReservedBlocks rest
       (if unat block < length plan then plan[unat block := Reserved] else plan)"

text \<open>The lambda on \<open>randVal\<close>, a \<open>uint32_t\<close>.\<close>

definition randomBlockType :: "int \<Rightarrow> BlockType" where
  "randomBlockType v =
     (let randVal = uint (word_of_int v :: 32 word) in
      if randVal \<le> 0x7333 then Houses
      else if randVal \<le> 0xA666 then BlockType.Tavern
      else if randVal \<le> 0xCCCC then BlockType.Equipment
      else if randVal \<le> 0xE666 then BlockType.Temple
      else NobleHouse)"

text \<open>The loop \<open>for (int remainingBlocks = emptyBlocksInPlan; remainingBlocks > 0;
  remainingBlocks--)\<close>, on the number of rounds that remain.\<close>

fun fillPlan ::
  "'r ArenaRandom \<Rightarrow> int \<Rightarrow> nat \<Rightarrow> BlockType list \<times> 'r \<Rightarrow> (error + BlockType list \<times> 'r) option" where
  "fillPlan rnd citySize 0 st = Some (Inr st)"
| "fillPlan rnd citySize (Suc remainingBlocks) st =
     (let (plan, r) = st; (randVal, r') = next rnd r in
      case placeBlock rnd citySize (randomBlockType randVal) (plan, r') of
        None \<Rightarrow> None
      | Some (Inl e) \<Rightarrow> Some (Inl e)
      | Some (Inr st') \<Rightarrow> fillPlan rnd citySize remainingBlocks st')"

text \<open>The first half of \<open>generateCity\<close>: the plan of the city.\<close>

definition cityPlan ::
  "'r ArenaRandom \<Rightarrow> int \<Rightarrow> 8 word list \<Rightarrow> 'r \<Rightarrow> (error + BlockType list \<times> 'r) option" where
  "cityPlan rnd cityDim reservedBlocks r =
     (let citySize = cityDim * cityDim;
          plan = setReservedBlocks reservedBlocks (replicate (nat citySize) Empty)
      in case forEachP (placeBlock rnd citySize)
                [BlockType.Equipment, MagesGuild, NobleHouse, BlockType.Temple,
                 BlockType.Tavern, Spacer] (plan, r) of
           None \<Rightarrow> None
         | Some (Inl e) \<Rightarrow> Some (Inl e)
         | Some (Inr (plan', r')) \<Rightarrow>
             fillPlan rnd citySize (count_list plan' Empty) (plan', r'))"

text \<open>\<open>std::max(random.next() % variationCount, 1)\<close>, on the value drawn.\<close>

definition cityBlockVariation :: "int \<Rightarrow> int \<Rightarrow> error + int" where
  "cityBlockVariation v variationCount =
     (case remainder v variationCount of Inl e \<Rightarrow> Inl e | Inr m \<Rightarrow> Inr (max m 1))"

text \<open>The name of the template of a block: its code, a rotation and a variation, drawn
  in this order.\<close>

definition cityBlockMifName ::
  "MIFUtils \<Rightarrow> 'r ArenaRandom \<Rightarrow> BlockType \<Rightarrow> 'r \<Rightarrow> error + (string \<times> 'r)" where
  "cityBlockMifName utils rnd block r =
     (let blockIndex = blockTypeToInt block - 2;
          blockCode = getCityBlockCode utils blockIndex;
          (v1, r1) = next rnd r
      in case remainder v1 (getCityBlockRotationCount utils) of
           Inl e \<Rightarrow> Inl e
         | Inr rotationIndex \<Rightarrow>
             (let rotation = getCityBlockRotation utils rotationIndex;
                  variationCount = getCityBlockVariations utils blockIndex;
                  (v2, r2) = next rnd r1
              in case cityBlockVariation v2 variationCount of
                   Inl e \<Rightarrow> Inl e
                 | Inr variation \<Rightarrow>
                     Inr (makeCityBlockMifName utils blockCode variation rotation, r2)))"

text \<open>The lambda \<open>writeRow\<close>: \<open>std::copy\<close> of \<open>width\<close> elements, undefined when a range
  leaves its vector.\<close>

definition writeRow :: "int \<Rightarrow> int \<Rightarrow> int \<Rightarrow> 16 word list \<Rightarrow> 16 word list \<Rightarrow> error + 16 word list" where
  "writeRow width srcIndex dstIndex src dst =
     (if 0 \<le> width \<and> 0 \<le> srcIndex \<and> srcIndex + width \<le> int (length src)
         \<and> 0 \<le> dstIndex \<and> dstIndex + width \<le> int (length dst)
      then Inr (take (nat dstIndex) dst @ take (nat width) (drop (nat srcIndex) src)
                  @ drop (nat (dstIndex + width)) dst)
      else Inl OutOfBounds)"

type_synonym Layers = "16 word list \<times> 16 word list \<times> 16 word list"

text \<open>The body of the loop over the rows of a template, and the loop.\<close>

definition copyBlockRow :: "MIFFile \<Rightarrow> int \<Rightarrow> int \<Rightarrow> int \<Rightarrow> int \<Rightarrow> Layers \<Rightarrow> error + Layers" where
  "copyBlockRow blockMif xOffset zOffset gridDepth z dst =
     (let (dstFlor, dstMap1, dstMap2) = dst;
          srcIndex = z * mifWidth blockMif;
          dstIndex = xOffset + ((z + zOffset) * gridDepth)
      in case writeRow (mifWidth blockMif) srcIndex dstIndex (mifFlor blockMif) dstFlor of
           Inl e \<Rightarrow> Inl e
         | Inr dstFlor' \<Rightarrow>
      (case writeRow (mifWidth blockMif) srcIndex dstIndex (mifMap1 blockMif) dstMap1 of
           Inl e \<Rightarrow> Inl e
         | Inr dstMap1' \<Rightarrow>
      (case writeRow (mifWidth blockMif) srcIndex dstIndex (mifMap2 blockMif) dstMap2 of
           Inl e \<Rightarrow> Inl e
         | Inr dstMap2' \<Rightarrow> Inr (dstFlor', dstMap1', dstMap2'))))"

definition copyBlock :: "MIFFile \<Rightarrow> int \<Rightarrow> int \<Rightarrow> int \<Rightarrow> Layers \<Rightarrow> error + Layers" where
  "copyBlock blockMif xOffset zOffset gridDepth dst =
     forEach (copyBlockRow blockMif xOffset zOffset gridDepth) [0..mifDepth blockMif - 1] dst"

text \<open>The state of the loop over the plan: the two counters, the generator and the three
  destination layers.\<close>

record 'r CityBuild =
  xDim :: int
  yDim :: int
  random :: 'r
  layers :: Layers

text \<open>The body of the loop over the plan. A template that is not among the city block
  templates ends in \<open>DebugCrash\<close>.\<close>

definition buildBlock ::
  "MIFUtils \<Rightarrow> 'r ArenaRandom \<Rightarrow> (string \<rightharpoonup> MIFFile) \<Rightarrow> int \<Rightarrow> int \<Rightarrow> int \<times> int
     \<Rightarrow> BlockType \<Rightarrow> 'r CityBuild \<Rightarrow> error + 'r CityBuild" where
  "buildBlock utils rnd cityBlockMifs cityDim gridDepth startPosition block st =
     (case (if block \<noteq> Reserved then
              (case cityBlockMifName utils rnd block (random st) of
                 Inl e \<Rightarrow> Inl e
               | Inr (blockMifName, r') \<Rightarrow>
                   (case cityBlockMifs blockMifName of
                      None \<Rightarrow> Inl (MissingMif blockMifName)
                    | Some blockMif \<Rightarrow>
                        (let xOffset = fst startPosition + (xDim st * 20);
                             zOffset = snd startPosition + (yDim st * 20)
                         in case copyBlock blockMif xOffset zOffset gridDepth (layers st) of
                              Inl e \<Rightarrow> Inl e
                            | Inr dst \<Rightarrow> Inr (st\<lparr>random := r', layers := dst\<rparr>))))
            else Inr st) of
        Inl e \<Rightarrow> Inl e
      | Inr st' \<Rightarrow>
          (let x = xDim st' + 1
           in Inr (if x = cityDim then st'\<lparr>xDim := 0, yDim := yDim st' + 1\<rparr>
                   else st'\<lparr>xDim := x\<rparr>)))"

text \<open>\<open>generateCity\<close>. The argument \<open>citySeed\<close> of the source only gives the local city
  point, which is not used. The plan is a local variable of the source; the model returns
  it with the generator and the layers.\<close>

definition generateCity ::
  "MIFUtils \<Rightarrow> 'r ArenaRandom \<Rightarrow> (string \<rightharpoonup> MIFFile) \<Rightarrow> 32 word \<Rightarrow> int \<Rightarrow> int \<Rightarrow> 8 word list
     \<Rightarrow> int \<times> int \<Rightarrow> 'r \<Rightarrow> Layers \<Rightarrow> (error + BlockType list \<times> 'r \<times> Layers) option" where
  "generateCity utils rnd cityBlockMifs citySeed cityDim gridDepth reservedBlocks startPosition
       r dst =
     (case cityPlan rnd cityDim reservedBlocks r of
        None \<Rightarrow> None
      | Some (Inl e) \<Rightarrow> Some (Inl e)
      | Some (Inr (plan, r')) \<Rightarrow>
          (case forEach (buildBlock utils rnd cityBlockMifs cityDim gridDepth startPosition) plan
                  \<lparr>xDim = 0, yDim = 0, random = r', layers = dst\<rparr> of
             Inl e \<Rightarrow> Some (Inl e)
           | Inr st \<Rightarrow> Some (Inr (plan, random st, layers st))))"

subsection \<open>generateBuildingNames\<close>

text \<open>
  Modelled from the spec: the menu types of \<open>VoxelDefinition::WallData::MenuType\<close> that
  the name generators name (tavern, equipment store, temple); \<open>OtherMenu\<close> stands for
  every other value of the enumeration.
\<close>

datatype MenuType = Tavern | Equipment | Temple | OtherMenu

text \<open>The name tables \<open>exeData.cityGen\<close> and the fields of the city definition that the
  generator reads.\<close>

record CityGen =
  tavernPrefixes :: "string list"
  tavernSuffixes :: "string list"
  tavernMarineSuffixes :: "string list"
  equipmentPrefixes :: "string list"
  equipmentSuffixes :: "string list"
  templePrefixes :: "string list"
  temple1Suffixes :: "string list"
  temple2Suffixes :: "string list"
  temple3Suffixes :: "string list"

record MainQuestTempleOverride =
  modelIndex :: int
  suffixIndex :: int
  menuNamesIndex :: int

record CityDefinition =
  coastal :: bool
  hasMainQuestTempleOverride :: bool
  mainQuestTempleOverride :: MainQuestTempleOverride

text \<open>
  What the generators take from code that is not under src: the name tables, the
  function \<open>VoxelDefinition::WallData::getMenuType\<close>, and the substitution of the
  variables \<open>%ct\<close>, \<open>%ef\<close> and \<open>%n\<close> in the name of an equipment store at the voxel
  \<open>(x, z)\<close>, which calls \<open>MiscAssets::generateNpcName\<close> and \<open>String::split\<close>.
\<close>

record NameEnv =
  cityGen :: CityGen
  getMenuType :: "int \<Rightarrow> bool \<Rightarrow> MenuType"
  substituteVariables :: "string \<Rightarrow> int \<Rightarrow> int \<Rightarrow> string"

type_synonym MenuNames = "((int \<times> int) \<times> string) list"

text \<open>The lambda \<open>matchesTargetType\<close>: the voxel of level 1 is a wall, a *MENU, and of
  the menu type looked for. An ID with no definition fails the index assertion of the
  grid.\<close>

definition matchesTargetType ::
  "NameEnv \<Rightarrow> LevelData \<Rightarrow> bool \<Rightarrow> MenuType \<Rightarrow> int \<Rightarrow> int \<Rightarrow> error + bool" where
  "matchesTargetType env level isCity menuType x z =
     (case getVoxelDef level (voxels level (x, 1, z)) of
        None \<Rightarrow> Inl AssertFailed
      | Some voxelDef \<Rightarrow>
          Inr (case voxelDef of
                 Wall sideID floorID ceilingID menuID type \<Rightarrow>
                   type = Menu
                   \<and> (case menuID of None \<Rightarrow> False
                       | Some menuID' \<Rightarrow> getMenuType env menuID' isCity = menuType)
               | _ \<Rightarrow> False))"

definition createTavernName :: "NameEnv \<Rightarrow> bool \<Rightarrow> int \<Rightarrow> int \<Rightarrow> error + string" where
  "createTavernName env isCoastal m n =
     (case at (tavernPrefixes (cityGen env)) m of
        Inl e \<Rightarrow> Inl e
      | Inr prefix \<Rightarrow>
          (case at (if isCoastal then tavernMarineSuffixes (cityGen env)
                    else tavernSuffixes (cityGen env)) n of
             Inl e \<Rightarrow> Inl e
           | Inr suffix \<Rightarrow> Inr (prefix @ '' '' @ suffix)))"

definition createEquipmentName :: "NameEnv \<Rightarrow> int \<Rightarrow> int \<Rightarrow> int \<Rightarrow> int \<Rightarrow> error + string" where
  "createEquipmentName env m n x z =
     (case at (equipmentPrefixes (cityGen env)) m of
        Inl e \<Rightarrow> Inl e
      | Inr prefix \<Rightarrow>
          (case at (equipmentSuffixes (cityGen env)) n of
             Inl e \<Rightarrow> Inl e
           | Inr suffix \<Rightarrow> Inr (substituteVariables env (prefix @ '' '' @ suffix) x z)))"

definition createTempleName :: "NameEnv \<Rightarrow> int \<Rightarrow> int \<Rightarrow> error + string" where
  "createTempleName env model n =
     (case (if model = 0 then at (temple1Suffixes (cityGen env)) n
            else if model = 1 then at (temple2Suffixes (cityGen env)) n
            else at (temple3Suffixes (cityGen env)) n) of
        Inl e \<Rightarrow> Inl e
      | Inr templeSuffix \<Rightarrow>
          (case at (templePrefixes (cityGen env)) model of
             Inl e \<Rightarrow> Inl e
           | Inr prefix \<Rightarrow> Inr (prefix @ templeSuffix)))"

text \<open>
  The bodies of the three \<open>do ... while (hashInSeen(hash))\<close> loops: two draws, the two
  indices and the hash \<open>(m << 8) + n\<close>.
\<close>

type_synonym Draw = "int \<times> int \<times> int"

definition drawTavern :: "'r ArenaRandom \<Rightarrow> 'r \<Rightarrow> error + (Draw \<times> 'r)" where
  "drawTavern rnd r =
     (let (v1, r1) = next rnd r; m = truncMod v1 23;
          (v2, r2) = next rnd r1; n = truncMod v2 23
      in Inr ((m, n, (m * 256) + n), r2))"

definition drawEquipment :: "'r ArenaRandom \<Rightarrow> 'r \<Rightarrow> error + (Draw \<times> 'r)" where
  "drawEquipment rnd r =
     (let (v1, r1) = next rnd r; m = truncMod v1 20;
          (v2, r2) = next rnd r1; n = truncMod v2 10
      in Inr ((m, n, (m * 256) + n), r2))"

definition ModelVars :: "int list" where
  "ModelVars = [5, 9, 10]"

definition drawTemple :: "'r ArenaRandom \<Rightarrow> 'r \<Rightarrow> error + (Draw \<times> 'r)" where
  "drawTemple rnd r =
     (let (v1, r1) = next rnd r; model = truncMod v1 3
      in case at ModelVars model of
           Inl e \<Rightarrow> Inl e
         | Inr vars \<Rightarrow>
             (let (v2, r2) = next rnd r1; n = truncMod v2 vars
              in Inr ((model, n, (model * 256) + n), r2)))"

definition hashInSeen :: "int list \<Rightarrow> int \<Rightarrow> bool" where
  "hashInSeen seen hash = (hash \<in> set seen)"

text \<open>The \<open>do ... while (hashInSeen(hash))\<close> loop around one of the three bodies.\<close>

partial_function (option) drawUnseen ::
  "('r \<Rightarrow> error + (Draw \<times> 'r)) \<Rightarrow> int list \<Rightarrow> 'r \<Rightarrow> (error + (Draw \<times> 'r)) option" where
  "drawUnseen draw seen r =
     (case draw r of
        Inl e \<Rightarrow> Some (Inl e)
      | Inr (d, r') \<Rightarrow>
          if hashInSeen seen (snd (snd d)) then drawUnseen draw seen r'
          else Some (Inr (d, r')))"

declare drawUnseen.simps [code]

text \<open>The loop body and the name that belong to a menu type.\<close>

definition drawFor :: "'r ArenaRandom \<Rightarrow> MenuType \<Rightarrow> 'r \<Rightarrow> error + (Draw \<times> 'r)" where
  "drawFor rnd menuType =
     (if menuType = MenuType.Tavern then drawTavern rnd
      else if menuType = MenuType.Equipment then drawEquipment rnd
      else drawTemple rnd)"

definition createName ::
  "NameEnv \<Rightarrow> CityDefinition \<Rightarrow> MenuType \<Rightarrow> int \<Rightarrow> int \<Rightarrow> int \<Rightarrow> int \<Rightarrow> error + string" where
  "createName env cityDef menuType m n x z =
     (if menuType = MenuType.Tavern then createTavernName env (coastal cityDef) m n
      else if menuType = MenuType.Equipment then createEquipmentName env m n x z
      else createTempleName env m n)"

text \<open>The state of one call of the lambda \<open>generateNames\<close>: the names of the level, the
  hashes seen and the generator.\<close>

record 'r NameScan =
  menuNames :: MenuNames
  seen :: "int list"
  nameRandom :: 'r

text \<open>The lambda \<open>tryGenerateBlockName\<close>.\<close>

definition tryGenerateBlockName ::
  "NameEnv \<Rightarrow> 'r ArenaRandom \<Rightarrow> CityDefinition \<Rightarrow> LevelData \<Rightarrow> bool \<Rightarrow> MenuType \<Rightarrow> int \<Rightarrow> int
     \<Rightarrow> 'r NameScan \<Rightarrow> (error + 'r NameScan) option" where
  "tryGenerateBlockName env rnd cityDef level isCity menuType x z st =
     (case matchesTargetType env level isCity menuType x z of
        Inl e \<Rightarrow> Some (Inl e)
      | Inr matches \<Rightarrow>
          if matches then
            (case drawUnseen (drawFor rnd menuType) (seen st) (nameRandom st) of
               None \<Rightarrow> None
             | Some (Inl e) \<Rightarrow> Some (Inl e)
             | Some (Inr ((m, n, hash), r')) \<Rightarrow>
                 (case createName env cityDef menuType m n x z of
                    Inl e \<Rightarrow> Some (Inl e)
                  | Inr name \<Rightarrow>
                      Some (Inr (st\<lparr>menuNames := menuNames st @ [((x, z), name)],
                                   seen := seen st @ [hash],
                                   nameRandom := r'\<rparr>))))
          else Some (Inr st))"

text \<open>The two loops of \<open>generateNames\<close>, from the top-right corner of the map: \<open>x\<close> and
  \<open>z\<close> run downwards.\<close>

definition scanBlockNames ::
  "NameEnv \<Rightarrow> 'r ArenaRandom \<Rightarrow> CityDefinition \<Rightarrow> LevelData \<Rightarrow> bool \<Rightarrow> int \<Rightarrow> int \<Rightarrow> MenuType
     \<Rightarrow> 'r NameScan \<Rightarrow> (error + 'r NameScan) option" where
  "scanBlockNames env rnd cityDef level isCity gridWidth gridDepth menuType st =
     forEachP (\<lambda>x. forEachP (tryGenerateBlockName env rnd cityDef level isCity menuType x)
                     (rev [0..gridDepth - 1]))
       (rev [0..gridWidth - 1]) st"

text \<open>The lambda \<open>generateNames\<close>: the generator is seeded again for the equipment stores
  and the temples, the list \<open>seen\<close> starts empty, and the temple of the main quest
  replaces a name of the list.\<close>

definition generateNames ::
  "NameEnv \<Rightarrow> 'r ArenaRandom \<Rightarrow> CityDefinition \<Rightarrow> LevelData \<Rightarrow> int \<times> int \<Rightarrow> bool \<Rightarrow> int \<Rightarrow> int
     \<Rightarrow> MenuType \<Rightarrow> MenuNames \<times> 'r \<Rightarrow> (error + MenuNames \<times> 'r) option" where
  "generateNames env rnd cityDef level localCityPoint isCity gridWidth gridDepth menuType st =
     (let (names, r) = st;
          r0 = (if menuType = MenuType.Equipment \<or> menuType = MenuType.Temple
                then srand rnd (word_of_int ((fst localCityPoint * 65536) + snd localCityPoint))
                else r)
      in case scanBlockNames env rnd cityDef level isCity gridWidth gridDepth menuType
                \<lparr>menuNames = names, seen = [], nameRandom = r0\<rparr> of
           None \<Rightarrow> None
         | Some (Inl e) \<Rightarrow> Some (Inl e)
         | Some (Inr st') \<Rightarrow>
             if menuType = MenuType.Temple \<and> hasMainQuestTempleOverride cityDef then
               (let override = mainQuestTempleOverride cityDef;
                    i = menuNamesIndex override
                in if 0 \<le> i \<and> i < int (length (menuNames st')) then
                     (case createTempleName env (modelIndex override) (suffixIndex override) of
                        Inl e \<Rightarrow> Some (Inl e)
                      | Inr name \<Rightarrow>
                          Some (Inr ((menuNames st')[nat i := (fst (menuNames st' ! nat i), name)],
                                     nameRandom st')))
                   else Some (Inl AssertFailed))
             else Some (Inr (menuNames st', nameRandom st')))"

definition generateBuildingNames ::
  "NameEnv \<Rightarrow> 'r ArenaRandom \<Rightarrow> CityDefinition \<Rightarrow> LevelData \<Rightarrow> int \<times> int \<Rightarrow> bool \<Rightarrow> int \<Rightarrow> int
     \<Rightarrow> MenuNames \<times> 'r \<Rightarrow> (error + MenuNames \<times> 'r) option" where
  "generateBuildingNames env rnd cityDef level localCityPoint isCity gridWidth gridDepth st =
     forEachP (generateNames env rnd cityDef level localCityPoint isCity gridWidth gridDepth)
       [MenuType.Tavern, MenuType.Equipment, MenuType.Temple] st"

subsection \<open>generateWildChunkBuildingNames\<close>

text \<open>
  Modelled from the spec: \<open>RMDFile::WIDTH\<close> and \<open>RMDFile::DEPTH\<close> (RMDFile.h is not under
  src), the sides of a wilderness chunk of 64 by 64 voxels.
\<close>

definition RMDFile_WIDTH :: int where
  "RMDFile_WIDTH = 64"

definition RMDFile_DEPTH :: int where
  "RMDFile_DEPTH = 64"

definition wildChunkSeed :: "int \<Rightarrow> int \<Rightarrow> 32 word" where
  "wildChunkSeed wildX wildY = word_of_int ((wildY * 65536) + wildX)"

definition wildDstPoint :: "int \<Rightarrow> int \<Rightarrow> int \<Rightarrow> int \<Rightarrow> int \<times> int" where
  "wildDstPoint wildX wildY x z =
     (let relativeOrigin = (((RMDFile_DEPTH - 1) - wildX) * RMDFile_DEPTH,
                            ((RMDFile_WIDTH - 1) - wildY) * RMDFile_WIDTH)
      in (snd relativeOrigin + (RMDFile_WIDTH - 1 - x),
          fst relativeOrigin + (RMDFile_DEPTH - 1 - z)))"

text \<open>The name of a *MENU voxel of the wilderness, from the generator of the voxel.\<close>

definition wildBlockName :: "NameEnv \<Rightarrow> 'r ArenaRandom \<Rightarrow> MenuType \<Rightarrow> 'r \<Rightarrow> error + string" where
  "wildBlockName env rnd menuType r =
     (if menuType = MenuType.Tavern then
        (let (v1, r1) = next rnd r; m = truncMod v1 23;
             (v2, r2) = next rnd r1; n = truncMod v2 23
         in createTavernName env False m n)
      else
        (let (v1, r1) = next rnd r; model = truncMod v1 3
         in case at ModelVars model of
              Inl e \<Rightarrow> Inl e
            | Inr vars \<Rightarrow>
                (let (v2, r2) = next rnd r1; n = truncMod v2 vars
                 in createTempleName env model n)))"

text \<open>The lambda \<open>tryGenerateBlockName\<close> of the wilderness: a new generator, made from
  the seed of the chunk, for each voxel.\<close>

definition tryGenerateWildBlockName ::
  "NameEnv \<Rightarrow> 'r ArenaRandom \<Rightarrow> LevelData \<Rightarrow> int \<Rightarrow> int \<Rightarrow> MenuType \<Rightarrow> int \<Rightarrow> int \<Rightarrow> MenuNames
     \<Rightarrow> error + MenuNames" where
  "tryGenerateWildBlockName env rnd level wildX wildY menuType x z names =
     (let r = srand rnd (wildChunkSeed wildX wildY);
          dstPoint = wildDstPoint wildX wildY x z
      in case matchesTargetType env level False menuType (fst dstPoint) (snd dstPoint) of
           Inl e \<Rightarrow> Inl e
         | Inr matches \<Rightarrow>
             if matches then
               (case wildBlockName env rnd menuType r of
                  Inl e \<Rightarrow> Inl e
                | Inr name \<Rightarrow> Inr (names @ [(dstPoint, name)]))
             else Inr names)"

definition generateWildNames ::
  "NameEnv \<Rightarrow> 'r ArenaRandom \<Rightarrow> LevelData \<Rightarrow> int \<Rightarrow> int \<Rightarrow> MenuType \<Rightarrow> MenuNames \<Rightarrow> error + MenuNames" where
  "generateWildNames env rnd level wildX wildY menuType names =
     forEach (\<lambda>x. forEach (tryGenerateWildBlockName env rnd level wildX wildY menuType x)
                    [0..RMDFile_WIDTH - 1])
       [0..RMDFile_DEPTH - 1] names"

definition generateWildChunkBuildingNames ::
  "NameEnv \<Rightarrow> 'r ArenaRandom \<Rightarrow> LevelData \<Rightarrow> MenuNames \<Rightarrow> error + MenuNames" where
  "generateWildChunkBuildingNames env rnd level names =
     forEach (\<lambda>y. forEach (\<lambda>x names'.
                 case generateWildNames env rnd level x y MenuType.Tavern names' of
                   Inl e \<Rightarrow> Inl e
                 | Inr names'' \<Rightarrow> generateWildNames env rnd level x y MenuType.Temple names'')
               [0..63])
       [0..63] names"

subsection \<open>revisePalaceGraphics\<close>

text \<open>The lambdas \<open>getMap1Voxel\<close> and \<open>setMap1Voxel\<close>: here the layer is read and written
  in its own order, and the write asserts its index.\<close>

definition getMap1Voxel :: "16 word list \<Rightarrow> int \<Rightarrow> int \<Rightarrow> int \<Rightarrow> error + 16 word" where
  "getMap1Voxel map1 gridDepth x z = getLE16 map1 ((z * 2) + ((x * 2) * gridDepth))"

definition setMap1Voxel :: "int \<Rightarrow> int \<Rightarrow> int \<Rightarrow> 16 word \<Rightarrow> 16 word list \<Rightarrow> error + 16 word list" where
  "setMap1Voxel gridDepth x z voxel map1 =
     (let index = z + (x * gridDepth)
      in if 0 \<le> index \<and> index < int (length map1) then Inr (map1[nat index := voxel])
         else Inl AssertFailed)"

datatype Side = Side_None | North | South | East | West

record SearchResult =
  side :: Side
  offset :: int

definition mostSigNibble :: "16 word \<Rightarrow> 8 word" where
  "mostSigNibble voxel = ucast (drop_bit 12 (voxel AND 0xF000))"

definition isPalaceBlock :: "16 word list \<Rightarrow> int \<Rightarrow> int \<Rightarrow> int \<Rightarrow> error + bool" where
  "isPalaceBlock map1 gridDepth x z =
     (case getMap1Voxel map1 gridDepth x z of
        Inl e \<Rightarrow> Inl e | Inr voxel \<Rightarrow> Inr (mostSigNibble voxel = 0x9))"

definition isGateBlock :: "16 word list \<Rightarrow> int \<Rightarrow> int \<Rightarrow> int \<Rightarrow> error + bool" where
  "isGateBlock map1 gridDepth x z =
     (case getMap1Voxel map1 gridDepth x z of
        Inl e \<Rightarrow> Inl e | Inr voxel \<Rightarrow> Inr (mostSigNibble voxel = 0xA))"

text \<open>The loop over the north and south edges, on the values of \<open>z\<close> that remain, and
  the loop over the east and west edges, on the values of \<open>x\<close> that remain. \<open>None\<close> is
  the loop that ends with no block found.\<close>

fun searchNorthSouth ::
  "16 word list \<Rightarrow> int \<Rightarrow> int \<Rightarrow> int list \<Rightarrow> error + SearchResult option" where
  "searchNorthSouth map1 gridWidth gridDepth [] = Inr None"
| "searchNorthSouth map1 gridWidth gridDepth (z # rest) =
     (let northX = 0; southX = gridWidth - 1
      in case isPalaceBlock map1 gridDepth northX z of
           Inl e \<Rightarrow> Inl e
         | Inr north \<Rightarrow>
             if north then Inr (Some \<lparr>side = North, offset = z\<rparr>)
             else (case isPalaceBlock map1 gridDepth southX z of
                     Inl e \<Rightarrow> Inl e
                   | Inr south \<Rightarrow>
                       if south then Inr (Some \<lparr>side = South, offset = z\<rparr>)
                       else searchNorthSouth map1 gridWidth gridDepth rest))"

fun searchEastWest ::
  "16 word list \<Rightarrow> int \<Rightarrow> int \<Rightarrow> int list \<Rightarrow> error + SearchResult option" where
  "searchEastWest map1 gridWidth gridDepth [] = Inr None"
| "searchEastWest map1 gridWidth gridDepth (x # rest) =
     (let eastZ = 0; westZ = gridDepth - 1
      in case isPalaceBlock map1 gridDepth x eastZ of
           Inl e \<Rightarrow> Inl e
         | Inr east \<Rightarrow>
             if east then Inr (Some \<lparr>side = East, offset = x\<rparr>)
             else (case isPalaceBlock map1 gridDepth x westZ of
                     Inl e \<Rightarrow> Inl e
                   | Inr west \<Rightarrow>
                       if west then Inr (Some \<lparr>side = West, offset = x\<rparr>)
                       else searchEastWest map1 gridWidth gridDepth rest))"

definition searchPalace :: "16 word list \<Rightarrow> int \<Rightarrow> int \<Rightarrow> error + SearchResult" where
  "searchPalace map1 gridWidth gridDepth =
     (case searchNorthSouth map1 gridWidth gridDepth [1..gridDepth - 2] of
        Inl e \<Rightarrow> Inl e
      | Inr (Some result) \<Rightarrow> Inr result
      | Inr None \<Rightarrow>
          (case searchEastWest map1 gridWidth gridDepth [1..gridWidth - 2] of
             Inl e \<Rightarrow> Inl e
           | Inr (Some result) \<Rightarrow> Inr result
           | Inr None \<Rightarrow> Inr \<lparr>side = Side_None, offset = 0\<rparr>))"

definition MAX_GATE_DIST :: int where
  "MAX_GATE_DIST = 8"

definition NO_GATE :: int where
  "NO_GATE = - 1"

text \<open>The \<open>while\<close> loop of \<open>getGateDistance\<close>, from its counter \<open>i\<close> and its position.\<close>

function gateDistanceLoop ::
  "16 word list \<Rightarrow> int \<Rightarrow> int \<times> int \<Rightarrow> int \<Rightarrow> int \<times> int \<Rightarrow> error + int" where
  "gateDistanceLoop map1 gridDepth dir i position =
     (if i < MAX_GATE_DIST then
        (case isGateBlock map1 gridDepth (fst position) (snd position) of
           Inl e \<Rightarrow> Inl e
         | Inr gate \<Rightarrow>
             if \<not> gate then
               gateDistanceLoop map1 gridDepth dir (i + 1)
                 (fst position + fst dir, snd position + snd dir)
             else Inr i)
      else Inr i)"
  by pat_completeness auto
termination
  by (relation "measure (\<lambda>(map1, gridDepth, dir, i, position). nat (MAX_GATE_DIST - i))") auto

declare gateDistanceLoop.simps [simp del]

definition getGateDistance :: "16 word list \<Rightarrow> int \<Rightarrow> int \<times> int \<Rightarrow> int \<times> int \<Rightarrow> error + int" where
  "getGateDistance map1 gridDepth palaceVoxel dir =
     (case gateDistanceLoop map1 gridDepth dir 0 palaceVoxel of
        Inl e \<Rightarrow> Inl e
      | Inr i \<Rightarrow> Inr (if i < MAX_GATE_DIST then i else NO_GATE))"

text \<open>The values that the four branches on the side set: the first palace voxel, the
  step to the second, the direction of the gate and the three voxel IDs.\<close>

record PalaceRevision =
  firstPalaceVoxel :: "int \<times> int"
  palaceStep :: "int \<times> int"
  gateDir :: "int \<times> int"
  firstPalaceVoxelID :: "16 word"
  secondPalaceVoxelID :: "16 word"
  gateVoxelID :: "16 word"

definition palaceRevision :: "int \<Rightarrow> int \<Rightarrow> SearchResult \<Rightarrow> PalaceRevision" where
  "palaceRevision gridWidth gridDepth result =
     (let northSouthPalaceStep = (0, - 1); eastWestPalaceStep = (- 1, 0)
      in if side result = North then
           \<lparr>firstPalaceVoxel = (gridWidth - 1, offset result), palaceStep = northSouthPalaceStep,
            gateDir = (- 1, 0), firstPalaceVoxelID = 0xA5B5, secondPalaceVoxelID = 0xA5B4,
            gateVoxelID = 0xA1B3\<rparr>
         else if side result = South then
           \<lparr>firstPalaceVoxel = (0, offset result), palaceStep = northSouthPalaceStep,
            gateDir = (1, 0), firstPalaceVoxelID = 0xA534, secondPalaceVoxelID = 0xA535,
            gateVoxelID = 0xA133\<rparr>
         else if side result = East then
           \<lparr>firstPalaceVoxel = (offset result, gridDepth - 1), palaceStep = eastWestPalaceStep,
            gateDir = (0, - 1), firstPalaceVoxelID = 0xA574, secondPalaceVoxelID = 0xA575,
            gateVoxelID = 0xA173\<rparr>
         else
           \<lparr>firstPalaceVoxel = (offset result, 0), palaceStep = eastWestPalaceStep,
            gateDir = (0, 1), firstPalaceVoxelID = 0xA5F5, secondPalaceVoxelID = 0xA5F4,
            gateVoxelID = 0xA1F3\<rparr>)"

definition revisePalaceGraphics :: "16 word list \<Rightarrow> int \<Rightarrow> int \<Rightarrow> error + 16 word list" where
  "revisePalaceGraphics map1 gridWidth gridDepth =
     (case searchPalace map1 gridWidth gridDepth of
        Inl e \<Rightarrow> Inl e
      | Inr result \<Rightarrow>
          if side result \<noteq> Side_None then
            (let p = palaceRevision gridWidth gridDepth result;
                 first = firstPalaceVoxel p;
                 second = (fst first + fst (palaceStep p), snd first + snd (palaceStep p))
             in case getGateDistance map1 gridDepth first (gateDir p) of
                  Inl e \<Rightarrow> Inl e
                | Inr gateDist \<Rightarrow>
                    (let firstGateVoxel = (fst first + (fst (gateDir p) * gateDist),
                                           snd first + (snd (gateDir p) * gateDist));
                         secondGateVoxel = (fst firstGateVoxel + fst (palaceStep p),
                                            snd firstGateVoxel + snd (palaceStep p))
                     in case setMap1Voxel gridDepth (fst first) (snd first)
                               (firstPalaceVoxelID p) map1 of
                          Inl e \<Rightarrow> Inl e
                        | Inr map1a \<Rightarrow>
                     (case setMap1Voxel gridDepth (fst second) (snd second)
                               (secondPalaceVoxelID p) map1a of
                          Inl e \<Rightarrow> Inl e
                        | Inr map1b \<Rightarrow>
                            if gateDist \<noteq> NO_GATE then
                              (case setMap1Voxel gridDepth (fst firstGateVoxel)
                                      (snd firstGateVoxel) (gateVoxelID p) map1b of
                                 Inl e \<Rightarrow> Inl e
                               | Inr map1c \<Rightarrow>
                                   setMap1Voxel gridDepth (fst secondGateVoxel)
                                     (snd secondGateVoxel) (gateVoxelID p) map1c)
                            else Inr map1b)))
          else Inr map1)"

subsection \<open>generateWildernessIndices\<close>

text \<open>The block lists \<open>ExeData::Wilderness\<close>.\<close>

record Wilderness =
  normalBlocks :: "8 word list"
  villageBlocks :: "8 word list"
  dungeonBlocks :: "8 word list"
  tavernBlocks :: "8 word list"
  templeBlocks :: "8 word list"

text \<open>
  Modelled from the spec: \<open>Buffer2D\<close> (components/utilities/Buffer2D.h is not under src),
  the grid of 64 by 64 template IDs of section 4.5: a width, a height and the elements
  row by row, the element \<open>(x, y)\<close> at \<open>x + y * width\<close>, with the coordinates asserted.
\<close>

record 'a Buffer2D =
  bufWidth :: int
  bufHeight :: int
  bufData :: "'a list"

definition bufGet :: "'a Buffer2D \<Rightarrow> int \<Rightarrow> int \<Rightarrow> error + 'a" where
  "bufGet b x y =
     (if 0 \<le> x \<and> 0 \<le> y \<and> x < bufWidth b \<and> y < bufHeight b
         \<and> x + (y * bufWidth b) < int (length (bufData b))
      then Inr (bufData b ! nat (x + (y * bufWidth b))) else Inl AssertFailed)"

definition bufSet :: "int \<Rightarrow> int \<Rightarrow> 'a \<Rightarrow> 'a Buffer2D \<Rightarrow> error + 'a Buffer2D" where
  "bufSet x y v b =
     (if 0 \<le> x \<and> 0 \<le> y \<and> x < bufWidth b \<and> y < bufHeight b
         \<and> x + (y * bufWidth b) < int (length (bufData b))
      then Inr (b\<lparr>bufData := (bufData b)[nat (x + (y * bufWidth b)) := v]\<rparr>)
      else Inl AssertFailed)"

text \<open>The lambda that chooses the block list, on the value drawn.\<close>

definition wildBlockList :: "Wilderness \<Rightarrow> int \<Rightarrow> 8 word list" where
  "wildBlockList wildData v =
     (let normalVal = 0x6666; villageVal = 0x4000; dungeonVal = 0x2666; tavernVal = 0x1999;
          randVal = v
      in if randVal < normalVal then normalBlocks wildData
         else (let randVal = randVal - normalVal
               in if randVal < villageVal then villageBlocks wildData
                  else (let randVal = randVal - villageVal
                        in if randVal < dungeonVal then dungeonBlocks wildData
                           else (let randVal = randVal - dungeonVal
                                 in if randVal < tavernVal then tavernBlocks wildData
                                    else templeBlocks wildData))))"

text \<open>The generator function of \<open>std::generate\<close>: a block list, then an index into it,
  the remainder of an \<open>int\<close> in 0 .. 255 by the size of the list.\<close>

definition nextWildIndex :: "'r ArenaRandom \<Rightarrow> Wilderness \<Rightarrow> 'r \<Rightarrow> error + (8 word \<times> 'r)" where
  "nextWildIndex rnd wildData r =
     (let (v1, r1) = next rnd r;
          blockList = wildBlockList wildData v1;
          (v2, r2) = next rnd r1
      in if length blockList = 0 then Inl DivisionByZero
         else Inr (blockList ! (nat (v2 AND 0xFF) mod length blockList), r2))"

text \<open>\<open>std::generate\<close> over the elements that remain.\<close>

fun generateIndices ::
  "'r ArenaRandom \<Rightarrow> Wilderness \<Rightarrow> nat \<Rightarrow> 'r \<Rightarrow> error + (8 word list \<times> 'r)" where
  "generateIndices rnd wildData 0 r = Inr ([], r)"
| "generateIndices rnd wildData (Suc n) r =
     (case nextWildIndex rnd wildData r of
        Inl e \<Rightarrow> Inl e
      | Inr (v, r') \<Rightarrow>
          (case generateIndices rnd wildData n r' of
             Inl e \<Rightarrow> Inl e
           | Inr (vs, r'') \<Rightarrow> Inr (v # vs, r'')))"

definition generateWildernessIndices ::
  "'r ArenaRandom \<Rightarrow> 32 word \<Rightarrow> Wilderness \<Rightarrow> error + 8 word Buffer2D" where
  "generateWildernessIndices rnd wildSeed wildData =
     (let wildWidth = 64; wildHeight = 64
      in case generateIndices rnd wildData (nat (wildWidth * wildHeight)) (srand rnd wildSeed) of
           Inl e \<Rightarrow> Inl e
         | Inr (cells, r) \<Rightarrow>
             (let indices = \<lparr>bufWidth = wildWidth, bufHeight = wildHeight, bufData = cells\<rparr>;
                  cityX = (wildWidth div 2) - 1;
                  cityY = (wildHeight div 2) - 1
              in case bufSet cityX cityY 1 indices of
                   Inl e \<Rightarrow> Inl e
                 | Inr indices1 \<Rightarrow>
              (case bufSet (cityX + 1) cityY 2 indices1 of
                   Inl e \<Rightarrow> Inl e
                 | Inr indices2 \<Rightarrow>
              (case bufSet cityX (cityY + 1) 3 indices2 of
                   Inl e \<Rightarrow> Inl e
                 | Inr indices3 \<Rightarrow> bufSet (cityX + 1) (cityY + 1) 4 indices3))))"

subsection \<open>Predicates of the statements\<close>

text \<open>\<open>names'\<close> is \<open>names\<close> with entries added at its end, each with a name that
  satisfies \<open>P\<close>.\<close>

definition addedNames :: "(string \<Rightarrow> bool) \<Rightarrow> MenuNames \<Rightarrow> MenuNames \<Rightarrow> bool" where
  "addedNames P names names' = (\<exists>added. names' = names @ added \<and> (\<forall>entry \<in> set added. P (snd entry)))"



text \<open>Two plans of one length with the same reserved cells.\<close>

definition sameReserved :: "BlockType list \<Rightarrow> BlockType list \<Rightarrow> bool" where
  "sameReserved plan plan' =
     (length plan' = length plan
      \<and> (\<forall>i < length plan. (plan' ! i = Reserved) = (plan ! i = Reserved)))"

text \<open>The indices, in a layer with rows of \<open>gridDepth\<close> voxels, of the 20 by 20 voxels of
  the plan cell \<open>(xd, yd)\<close>; and three layers that kept their lengths and their voxels at
  the index \<open>j\<close>.\<close>

definition footprint :: "int \<times> int \<Rightarrow> int \<Rightarrow> int \<Rightarrow> int \<Rightarrow> int set" where
  "footprint startPosition gridDepth xd yd =
     {fst startPosition + (xd * 20) + i + ((z + (snd startPosition + (yd * 20))) * gridDepth)
        | i z. 0 \<le> i \<and> i < 20 \<and> 0 \<le> z \<and> z < 20}"

definition unchangedAt :: "nat \<Rightarrow> Layers \<Rightarrow> Layers \<Rightarrow> bool" where
  "unchangedAt j dst dst' =
     (length (fst dst') = length (fst dst)
      \<and> length (fst (snd dst')) = length (fst (snd dst))
      \<and> length (snd (snd dst')) = length (snd (snd dst))
      \<and> (j < length (fst dst) \<longrightarrow> fst dst' ! j = fst dst ! j)
      \<and> (j < length (fst (snd dst)) \<longrightarrow> fst (snd dst') ! j = fst (snd dst) ! j)
      \<and> (j < length (snd (snd dst)) \<longrightarrow> snd (snd dst') ! j = snd (snd dst) ! j))"

text \<open>A template whose three layers hold its \<open>width * depth\<close> voxels.\<close>

definition wellFormedMif :: "MIFFile \<Rightarrow> bool" where
  "wellFormedMif mif =
     (0 \<le> mifWidth mif \<and> mifWidth mif \<le> 20 \<and> mifDepth mif \<le> 20
      \<and> mifWidth mif * mifDepth mif \<le> int (length (mifFlor mif))
      \<and> mifWidth mif * mifDepth mif \<le> int (length (mifMap1 mif))
      \<and> mifWidth mif * mifDepth mif \<le> int (length (mifMap2 mif)))"

text \<open>Each of the three layers holds at least \<open>n\<close> voxels.\<close>

definition layersOfSize :: "int \<Rightarrow> Layers \<Rightarrow> bool" where
  "layersOfSize n dst =
     (n \<le> int (length (fst dst)) \<and> n \<le> int (length (fst (snd dst)))
      \<and> n \<le> int (length (snd (snd dst))))"

subsection \<open>The voxel data mappings as caches\<close>

text \<open>
  The four caches of \<open>LevelData\<close> (\<open>floorDataMappings\<close>, \<open>chasmDataMappings\<close>,
  \<open>wallDataMappings\<close>, \<open>map2DataMappings\<close>) seen as one partial map: a key is the raw voxel
  of the layer, for a chasm together with its adjacent faces, and \<open>cachedIndex\<close> is the
  \<open>std::find_if\<close> of the four lookup functions.
\<close>

datatype CacheKey =
    FloorKey "16 word"
  | ChasmKey "16 word" AdjacentFaces
  | WallKey "16 word"
  | Map2Key "16 word"

fun cachedIndex :: "LevelData \<Rightarrow> CacheKey \<Rightarrow> int option" where
  "cachedIndex s (FloorKey florVoxel) =
     map_option snd (find (\<lambda>pair. fst pair = florVoxel) (floorDataMappings s))"
| "cachedIndex s (ChasmKey florVoxel adjacentFaces) =
     map_option (\<lambda>tuple. snd (snd tuple))
       (find (\<lambda>tuple. fst tuple = florVoxel \<and> fst (snd tuple) = adjacentFaces)
          (chasmDataMappings s))"
| "cachedIndex s (WallKey map1Voxel) = map_option snd (findWallMapping map1Voxel s)"
| "cachedIndex s (Map2Key map2Voxel) =
     map_option snd (find (\<lambda>pair. fst pair = map2Voxel) (map2DataMappings s))"

text \<open>
  What a cache lookup with key \<open>key\<close> and definition \<open>d\<close> may do to the level: return the
  cached index and change nothing, or append \<open>d\<close> to the definitions, return its position and
  record it under \<open>key\<close> alone.
\<close>

definition insertIfAbsent ::
  "CacheKey \<Rightarrow> VoxelData \<Rightarrow> LevelData \<Rightarrow> int \<Rightarrow> LevelData \<Rightarrow> bool" where
  "insertIfAbsent key d s index s' =
     (case cachedIndex s key of
        Some cached \<Rightarrow> index = cached \<and> s' = s
      | None \<Rightarrow>
          index = int (length (voxelData s)) \<and> voxelData s' = voxelData s @ [d]
          \<and> cachedIndex s' = (cachedIndex s)(key \<mapsto> index)
          \<and> voxels s' = voxels s \<and> flatsLists s' = flatsLists s)"

text \<open>
  The calls that the bodies of the three readers make into the caches: \<open>readFLOR\<close> with a
  FLOR voxel and the adjacent faces it computed, \<open>readMAP1\<close> with a MAP1 voxel and
  \<open>readMAP2\<close> with a MAP2 voxel. \<open>lookups\<close> runs a sequence of them, in any order, on one
  level and collects the indices.
\<close>

datatype Lookup =
    FlorLookup "16 word" AdjacentFaces
  | Map1Lookup "16 word"
  | Map2Lookup "16 word"

fun lookup ::
  "DecodeEnv \<Rightarrow> WorldType \<Rightarrow> Lookup \<Rightarrow> LevelData \<Rightarrow> error + (int option \<times> LevelData)" where
  "lookup env worldType (FlorLookup florVoxel adjacentFaces) s =
     (if \<not> isChasm env (getFloorTextureID florVoxel) then
        (let (dataIndex, s') = getFlorDataIndex florVoxel (getFloorTextureID florVoxel) s
         in Inr (Some dataIndex, s'))
      else Inr (chasmDataIndex env florVoxel adjacentFaces s))"
| "lookup env worldType (Map1Lookup map1Voxel) s = map1DataIndex env worldType map1Voxel s"
| "lookup env worldType (Map2Lookup map2Voxel) s =
     (let (dataIndex, s') = getMap2DataIndex map2Voxel s in Inr (Some dataIndex, s'))"

fun lookups ::
  "DecodeEnv \<Rightarrow> WorldType \<Rightarrow> Lookup list \<Rightarrow> LevelData \<Rightarrow> error + (int option list \<times> LevelData)" where
  "lookups env worldType [] s = Inr ([], s)"
| "lookups env worldType (request # requests) s =
     (case lookup env worldType request s of
        Inl e \<Rightarrow> Inl e
      | Inr (index, s1) \<Rightarrow>
          (case lookups env worldType requests s1 of
             Inl e \<Rightarrow> Inl e
           | Inr (indices, s') \<Rightarrow> Inr (index # indices, s')))"

text \<open>
  The cache key of a call, and the definition that the source builds for a key:
  \<open>map1VoxelData\<close> follows the dispatch of \<open>readMAP1\<close> to the \<open>make...VoxelData\<close> lambdas, and is
  \<open>None\<close> for the voxels that get no definition (air, flats, unhandled types).
\<close>

fun keyOf :: "DecodeEnv \<Rightarrow> Lookup \<Rightarrow> CacheKey" where
  "keyOf env (FlorLookup florVoxel adjacentFaces) =
     (if isChasm env (getFloorTextureID florVoxel) then ChasmKey florVoxel adjacentFaces
      else FloorKey florVoxel)"
| "keyOf env (Map1Lookup map1Voxel) = WallKey map1Voxel"
| "keyOf env (Map2Lookup map2Voxel) = Map2Key map2Voxel"

definition map1VoxelData :: "DecodeEnv \<Rightarrow> WorldType \<Rightarrow> 16 word \<Rightarrow> VoxelData option" where
  "map1VoxelData env worldType map1Voxel =
     (if map1Voxel AND 0x8000 = 0 then
        (if map1Voxel \<noteq> 0 then
           (let mostSigByte = (ucast (drop_bit 8 (map1Voxel AND 0x7F00)) :: 8 word);
                leastSigByte = (ucast (map1Voxel AND 0x007F) :: 8 word)
            in if mostSigByte = leastSigByte then Some (makeWallVoxelData (inf env) mostSigByte)
               else Some (makeRaisedVoxelData env map1Voxel mostSigByte))
         else None)
      else
        (let mostSigNibble = (ucast (drop_bit 12 (map1Voxel AND 0xF000)) :: 8 word)
         in if mostSigNibble = 0x8 then None
            else if mostSigNibble = 0x9 then
              (case makeType9VoxelData map1Voxel of Inl e \<Rightarrow> None | Inr d \<Rightarrow> Some d)
            else if mostSigNibble = 0xA then
              (let textureIndex = uint (map1Voxel AND 0x003F) - 1
               in if textureIndex \<ge> 0
                  then Some (makeTypeAVoxelData env worldType map1Voxel textureIndex) else None)
            else if mostSigNibble = 0xB then
              (case makeTypeBVoxelData map1Voxel of Inl e \<Rightarrow> None | Inr d \<Rightarrow> Some d)
            else if mostSigNibble = 0xC then None
            else if mostSigNibble = 0xD then
              (case makeTypeDVoxelData map1Voxel of Inl e \<Rightarrow> None | Inr d \<Rightarrow> Some d)
            else None))"

fun keyDef :: "DecodeEnv \<Rightarrow> WorldType \<Rightarrow> CacheKey \<Rightarrow> VoxelData option" where
  "keyDef env worldType (FloorKey florVoxel) = Some (Floor (getFloorTextureID florVoxel))"
| "keyDef env worldType (ChasmKey florVoxel adjacentFaces) =
     (if getFloorTextureID florVoxel = DRY_CHASM env
      then Some (makeDryChasmVoxelData (inf env) adjacentFaces)
      else if getFloorTextureID florVoxel = LAVA_CHASM env
      then Some (makeLavaChasmVoxelData (inf env) adjacentFaces)
      else if getFloorTextureID florVoxel = WET_CHASM env
      then Some (makeWetChasmVoxelData (inf env) adjacentFaces)
      else None)"
| "keyDef env worldType (WallKey map1Voxel) = map1VoxelData env worldType map1Voxel"
| "keyDef env worldType (Map2Key map2Voxel) =
     Some (Wall (uint (map2Voxel AND 0x007F) - 1) (uint (map2Voxel AND 0x007F) - 1)
             (uint (map2Voxel AND 0x007F) - 1) None Solid)"

text \<open>
  Every cached index is a position of the definition list that holds the definition of its
  key. The caches of a fresh level are empty.
\<close>

definition cachesValid :: "DecodeEnv \<Rightarrow> WorldType \<Rightarrow> LevelData \<Rightarrow> bool" where
  "cachesValid env worldType s =
     (\<forall>key index. cachedIndex s key = Some index \<longrightarrow>
        0 \<le> index \<and> nat index < length (voxelData s)
        \<and> keyDef env worldType key = Some (voxelData s ! nat index))"

definition stepResult ::
  "DecodeEnv \<Rightarrow> WorldType \<Rightarrow> CacheKey \<Rightarrow> LevelData \<Rightarrow> int option \<Rightarrow> LevelData \<Rightarrow> bool" where
  "stepResult env worldType key s r s' =
     (case keyDef env worldType key of
        None \<Rightarrow> r = None \<and> s' = s
      | Some d \<Rightarrow> \<exists>index. r = Some index \<and> insertIfAbsent key d s index s')"

text \<open>Definitions are only appended and cached indices are kept.\<close>

definition extends :: "LevelData \<Rightarrow> LevelData \<Rightarrow> bool" where
  "extends s s' =
     ((\<exists>added. voxelData s' = voxelData s @ added)
      \<and> (\<forall>key index. cachedIndex s key = Some index \<longrightarrow> cachedIndex s' key = Some index))"




subsection \<open>Inputs to run the model on\<close>

definition exampleWild :: Wilderness where
  "exampleWild = \<lparr>normalBlocks = [5, 6, 7], villageBlocks = [8], dungeonBlocks = [9, 10],
     tavernBlocks = [11], templeBlocks = [12]\<rparr>"

definition palaceGrid :: "16 word list" where
  "palaceGrid = [0, 0x9000, 0,  0, 0xA000, 0,  0, 0, 0,  0, 0, 0]"

definition palaceGridWide :: "16 word list" where
  "palaceGridWide = [0, 0x9123, 0,  0, 0, 0,  0, 0, 0,  0, 0, 0,
                     0, 0, 0,  0, 0, 0,  0, 0, 0,  0, 0, 0]"

definition exampleNameEnv :: NameEnv where
  "exampleNameEnv =
     \<lparr>cityGen = \<lparr>tavernPrefixes = [''The Black'', ''The Red'', ''The Golden''],
                  tavernSuffixes = [''Rat'', ''Goblin'', ''Dragon''],
                  tavernMarineSuffixes = [''Sail'', ''Anchor'', ''Kraken''],
                  equipmentPrefixes = [''Elite'', ''Trusty''],
                  equipmentSuffixes = [''Armaments'', ''Gear''],
                  templePrefixes = [''The Order of '', ''The Brotherhood of '', ''The Conclave of ''],
                  temple1Suffixes = [''Mara'', ''Arkay''],
                  temple2Suffixes = [''Mercy'', ''Hope''],
                  temple3Suffixes = [''Baal'', ''Dibella'']\<rparr>,
       getMenuType = (\<lambda>menuID isCity.
          if menuID = 0 then MenuType.Tavern else if menuID = 1 then MenuType.Equipment
          else if menuID = 2 then MenuType.Temple else OtherMenu),
       substituteVariables = (\<lambda>str x z. str)\<rparr>"

definition wildLevel :: LevelData where
  "wildLevel = emptyLevel
     \<lparr>voxelData := [Floor 0, Wall 3 3 3 (Some 0) Menu],
      voxels := (\<lambda>p. if p = (4095, 1, 4095) \<or> p = (4090, 1, 4093) then 1 else 0)\<rparr>"



definition exampleUtils :: MIFUtils where
  "exampleUtils =
     \<lparr>getCityBlockCode = (\<lambda>i. [''EQ'', ''MG'', ''NB'', ''TP'', ''TV'', ''TS'', ''BS''] ! nat i),
      getCityBlockRotation = (\<lambda>i. [''A'', ''B'', ''C'', ''D''] ! nat i),
      getCityBlockRotationCount = 4,
      getCityBlockVariations = (\<lambda>i. [13, 11, 10, 12, 15, 11, 8] ! nat i),
      makeCityBlockMifName = (\<lambda>code variation rotation.
         code @ ''BD'' @ [char_of (48 + variation div 10), char_of (48 + variation mod 10)]
           @ rotation @ ''.MIF'')\<rparr>"

definition tinyMif :: MIFFile where
  "tinyMif = \<lparr>mifWidth = 2, mifDepth = 2, mifFlor = [1, 2, 3, 4], mifMap1 = [5, 6, 7, 8],
     mifMap2 = [9, 10, 11, 12]\<rparr>"

definition cityScript :: "int list" where
  "cityScript = [0, 1, 2, 3, 5, 6,  0, 7,  0x8000, 4, 8]"

definition cityLayers :: Layers where
  "cityLayers = (replicate 3600 0, replicate 3600 0, replicate 3600 0)"

definition exampleEnv :: DecodeEnv where
  "exampleEnv = \<lparr>inf = \<lparr>getDryChasmIndex = Some 5, getLavaChasmIndex = None,
       getWetChasmIndex = Some 7, getMenuIndex = (\<lambda>_. - 1), getLevelUpIndex = None,
       getLevelDownIndex = None\<rparr>,
     DRY_CHASM = 0xC, LAVA_CHASM = 0xE, WET_CHASM = 0xD,
     arenaUnits = (\<lambda>_. undefined), makeRaisedVoxelData = (\<lambda>_ _. Ceiling 0)\<rparr>"

definition cacheRequests :: "Lookup list" where
  "cacheRequests =
     [FlorLookup 0x0300 (False, False, False, False),
      FlorLookup 0x0C00 (True, False, False, False),
      FlorLookup 0x0300 (False, False, False, False),
      FlorLookup 0x0C00 (False, False, False, False),
      FlorLookup 0x0C00 (True, False, False, False),
      Map2Lookup 0x0003,
      Map1Lookup 0x0101,
      Map2Lookup 0x0003,
      Map1Lookup 0x0101,
      Map1Lookup 0]"



section \<open>Properties of readMAP2\<close>

lemma and_8080_imp_80:
  fixes v :: "16 word"
  assumes "v AND 0x8080 = 0x8080"
  shows "v AND 0x80 = 0x80"
proof -
  have "v AND 0x80 = v AND (0x8080 AND 0x80)" by simp
  also have "\<dots> = (v AND 0x8080) AND 0x80" by (simp only: and.assoc)
  also have "\<dots> = 0x80" by (simp add: assms)
  finally show ?thesis .
qed

lemma getMap2VoxelHeight_range: "getMap2VoxelHeight v \<in> {1, 2, 3}"
  unfolding getMap2VoxelHeight_def using and_8080_imp_80 [of v] by auto

lemma writeStories_other:
  "(x', z') \<noteq> (x, z) \<or> y' < y \<or> height + 2 \<le> y'
    \<Longrightarrow> voxels (writeStories x z dataIndex height y s) (x', y', z') = voxels s (x', y', z')"
proof (induction x z dataIndex height y s rule: writeStories.induct)
  case (1 x z dataIndex height y s)
  show ?case
  proof (cases "y < height + 2")
    case True
    have "voxels (writeStories x z dataIndex height (y + 1) (setVoxel x y z dataIndex s)) (x', y', z')
          = voxels (setVoxel x y z dataIndex s) (x', y', z')"
      using "1.IH" [OF True] "1.prems" by auto
    also have "\<dots> = voxels s (x', y', z')"
      using "1.prems" True by (auto simp: setVoxel_def)
    finally show ?thesis using True by (simp add: writeStories.simps [of x z dataIndex height y s])
  next
    case False
    then show ?thesis by (simp add: writeStories.simps [of x z dataIndex height y s])
  qed
qed

lemma writeStories_written:
  "y \<le> y' \<Longrightarrow> y' < height + 2
    \<Longrightarrow> voxels (writeStories x z dataIndex height y s) (x, y', z) = word_of_int dataIndex"
proof (induction x z dataIndex height y s rule: writeStories.induct)
  case (1 x z dataIndex height y s)
  from "1.prems" have lt: "y < height + 2" by simp
  show ?case
  proof (cases "y' = y")
    case True
    have "voxels (writeStories x z dataIndex height (y + 1) (setVoxel x y z dataIndex s)) (x, y', z)
          = voxels (setVoxel x y z dataIndex s) (x, y', z)"
      using True by (intro writeStories_other) simp
    then show ?thesis
      using True lt by (simp add: writeStories.simps [of x z dataIndex height y s] setVoxel_def)
  next
    case False
    with "1.prems" have "y + 1 \<le> y'" by simp
    from "1.IH" [OF lt this "1.prems"(2)] show ?thesis
      using lt by (simp add: writeStories.simps [of x z dataIndex height y s])
  qed
qed

lemma getMap2DataIndex_voxels: "getMap2DataIndex v s = (i, s') \<Longrightarrow> voxels s' = voxels s"
  by (auto simp: getMap2DataIndex_def addVoxelData_def Let_def split: option.splits)

text \<open>
  C10. For every 16-bit MAP2 code the number of stories is 1, 2 or 3 and never 4: a code
  with both bits 0x80 and 0x8000 has two stories, since the test of 0x80 comes first.
  So the loop body of readMAP2 changes the grid at most at the levels y = 2, 3, 4 of its
  own column, and a nonzero code puts the index of its definition at the levels
  2 .. height + 1.
\<close>

theorem map2_height_never_four:
  "getMap2VoxelHeight v \<in> {1, 2, 3} \<and> getMap2VoxelHeight v \<noteq> 4
   \<and> (v AND 0x8080 = 0x8080 \<longrightarrow> getMap2VoxelHeight v = 2)
   \<and> (map2Cell map2Buf gridWidth gridDepth x z s = Inr s' \<longrightarrow>
        (\<forall>x' y' z'. voxels s' (x', y', z') \<noteq> voxels s (x', y', z')
            \<longrightarrow> x' = x \<and> z' = z \<and> y' \<in> {2, 3, 4})
      \<and> (\<forall>map2Voxel. getLayerVoxel map2Buf gridWidth gridDepth x z = Inr map2Voxel \<and> map2Voxel \<noteq> 0
            \<longrightarrow> (\<forall>y'. 2 \<le> y' \<and> y' < getMap2VoxelHeight map2Voxel + 2
                  \<longrightarrow> voxels s' (x, y', z) = word_of_int (fst (getMap2DataIndex map2Voxel s)))))"
proof -
  have range: "getMap2VoxelHeight w \<in> {1, 2, 3}" for w
    by (rule getMap2VoxelHeight_range)
  have two: "v AND 0x8080 = 0x8080 \<longrightarrow> getMap2VoxelHeight v = 2"
    using and_8080_imp_80 [of v] by (simp add: getMap2VoxelHeight_def)
  have cell: "\<forall>x' y' z'. voxels s' (x', y', z') \<noteq> voxels s (x', y', z')
            \<longrightarrow> x' = x \<and> z' = z \<and> y' \<in> {2, 3, 4}"
    if run: "map2Cell map2Buf gridWidth gridDepth x z s = Inr s'"
  proof (intro allI impI)
    fix x' y' z'
    assume diff: "voxels s' (x', y', z') \<noteq> voxels s (x', y', z')"
    from run obtain w where w: "getLayerVoxel map2Buf gridWidth gridDepth x z = Inr w"
      by (auto simp: map2Cell_def split: sum.splits)
    show "x' = x \<and> z' = z \<and> y' \<in> {2, 3, 4}"
    proof (cases "w = 0")
      case True
      with run w diff show ?thesis by (simp add: map2Cell_def)
    next
      case False
      obtain i s1 where g: "getMap2DataIndex w s = (i, s1)" by (cases "getMap2DataIndex w s")
      from run w False g have s': "s' = writeStories x z i (getMap2VoxelHeight w) 2 s1"
        by (simp add: map2Cell_def Let_def)
      have "\<not> ((x', z') \<noteq> (x, z) \<or> y' < 2 \<or> getMap2VoxelHeight w + 2 \<le> y')"
        using writeStories_other [of x' z' x z y' 2 "getMap2VoxelHeight w" i s1]
          diff getMap2DataIndex_voxels [OF g] s' by auto
      with range [of w] show ?thesis by auto
    qed
  qed
  have written: "\<forall>map2Voxel. getLayerVoxel map2Buf gridWidth gridDepth x z = Inr map2Voxel \<and> map2Voxel \<noteq> 0
            \<longrightarrow> (\<forall>y'. 2 \<le> y' \<and> y' < getMap2VoxelHeight map2Voxel + 2
                  \<longrightarrow> voxels s' (x, y', z) = word_of_int (fst (getMap2DataIndex map2Voxel s)))"
    if run: "map2Cell map2Buf gridWidth gridDepth x z s = Inr s'"
  proof (intro allI impI, elim conjE)
    fix w y'
    assume w: "getLayerVoxel map2Buf gridWidth gridDepth x z = Inr w" and nz: "w \<noteq> 0"
      and y': "2 \<le> y'" "y' < getMap2VoxelHeight w + 2"
    obtain i s1 where g: "getMap2DataIndex w s = (i, s1)" by (cases "getMap2DataIndex w s")
    from run w nz g have s': "s' = writeStories x z i (getMap2VoxelHeight w) 2 s1"
      by (simp add: map2Cell_def Let_def)
    show "voxels s' (x, y', z) = word_of_int (fst (getMap2DataIndex w s))"
      using writeStories_written [OF y', of x z i s1] s' g by simp
  qed
  from range [of v] two cell written show ?thesis by auto
qed

theorem map2_height_never_four_witness:
  "\<exists>s'. map2Cell [0x8080] 1 1 0 0 (emptyLevel\<lparr>voxelData := [Floor 0]\<rparr>) = Inr s'
     \<and> getMap2VoxelHeight 0x8080 = 2
     \<and> voxels s' (0, 2, 0) = 1 \<and> voxels s' (0, 3, 0) = 1
     \<and> (\<forall>x' y' z'. voxels s' (x', y', z') \<noteq> voxels emptyLevel (x', y', z')
          \<longrightarrow> x' = 0 \<and> z' = 0 \<and> y' \<in> {2, 3, 4})"
proof -
  let ?s = "emptyLevel\<lparr>voxelData := [Floor 0]\<rparr>"
  have v: "getLayerVoxel [0x8080] 1 1 0 0 = Inr 0x8080"
    by (simp add: getLayerVoxel_def getLE16_def)
  obtain s' where run: "map2Cell [0x8080] 1 1 0 0 ?s = Inr s'"
    by (cases "getMap2DataIndex 0x8080 ?s") (simp add: map2Cell_def v Let_def)
  have i: "fst (getMap2DataIndex 0x8080 ?s) = 1"
    by (simp add: getMap2DataIndex_def emptyLevel_def addVoxelData_def Let_def)
  note inst = map2_height_never_four [of "0x8080" "[0x8080]" 1 1 0 0 "emptyLevel\<lparr>voxelData := [Floor 0]\<rparr>" s']
  from inst have h: "getMap2VoxelHeight 0x8080 = 2" by simp
  from inst run v h i have "voxels s' (0, 2, 0) = 1 \<and> voxels s' (0, 3, 0) = 1" by simp
  moreover from inst run have "\<forall>x' y' z'. voxels s' (x', y', z') \<noteq> voxels emptyLevel (x', y', z')
          \<longrightarrow> x' = 0 \<and> z' = 0 \<and> y' \<in> {2, 3, 4}" by (simp add: emptyLevel_def)
  ultimately show ?thesis using run h by blast
qed

section \<open>Properties of generateWildernessIndices\<close>

lemma generateIndices_length:
  "generateIndices rnd wildData n r = Inr (cells, r') \<Longrightarrow> length cells = n"
  by (induction n arbitrary: r cells r') (auto split: sum.splits prod.splits)

lemma wildBlockList_cases:
  "wildBlockList wildData v \<in> {normalBlocks wildData, villageBlocks wildData,
     dungeonBlocks wildData, tavernBlocks wildData, templeBlocks wildData}"
  by (simp add: wildBlockList_def Let_def)

lemma nextWildIndex_returns:
  assumes "normalBlocks wildData \<noteq> []" "villageBlocks wildData \<noteq> []"
    "dungeonBlocks wildData \<noteq> []" "tavernBlocks wildData \<noteq> []" "templeBlocks wildData \<noteq> []"
  shows "\<exists>v r'. nextWildIndex rnd wildData r = Inr (v, r')"
proof -
  have "wildBlockList wildData (fst (next rnd r)) \<noteq> []"
    using wildBlockList_cases [of wildData "fst (next rnd r)"] assms by auto
  then show ?thesis
    by (cases "next rnd r"; cases "next rnd (snd (next rnd r))")
       (simp add: nextWildIndex_def Let_def)
qed

lemma generateIndices_returns:
  assumes "normalBlocks wildData \<noteq> []" "villageBlocks wildData \<noteq> []"
    "dungeonBlocks wildData \<noteq> []" "tavernBlocks wildData \<noteq> []" "templeBlocks wildData \<noteq> []"
  shows "\<exists>cells r'. generateIndices rnd wildData n r = Inr (cells, r')"
proof (induction n arbitrary: r)
  case 0
  show ?case by simp
next
  case (Suc n)
  obtain v r1 where 1: "nextWildIndex rnd wildData r = Inr (v, r1)"
    using nextWildIndex_returns [OF assms, of rnd r] by blast
  obtain cells r2 where 2: "generateIndices rnd wildData n r1 = Inr (cells, r2)"
    using Suc.IH by blast
  show ?case by (simp add: 1 2)
qed

lemma center_cells_of_4096:
  assumes len: "length cells = 4096"
  shows "\<exists>indices. 
     (case bufSet 31 31 1 \<lparr>bufWidth = 64, bufHeight = 64, bufData = cells\<rparr> of
        Inl e \<Rightarrow> Inl e
      | Inr indices1 \<Rightarrow>
          (case bufSet 32 31 2 indices1 of
             Inl e \<Rightarrow> Inl e
           | Inr indices2 \<Rightarrow>
               (case bufSet 31 32 3 indices2 of
                  Inl e \<Rightarrow> Inl e
                | Inr indices3 \<Rightarrow> bufSet 32 32 4 indices3))) = Inr indices
      \<and> bufGet indices 31 31 = Inr (1 :: 8 word) \<and> bufGet indices 32 31 = Inr 2
      \<and> bufGet indices 31 32 = Inr 3 \<and> bufGet indices 32 32 = Inr 4
      \<and> bufWidth indices = 64 \<and> bufHeight indices = 64 \<and> length (bufData indices) = 4096"
  using len by (simp add: bufSet_def bufGet_def)

text \<open>
  C4. For every seed (and every generator), the grid that generateWildernessIndices
  returns has the values 1, 2, 3, 4 at the cells (31, 31), (32, 31), (31, 32), (32, 32),
  whatever was drawn for them. The function returns a grid of 64 by 64 cells whenever none
  of the five block lists is empty (an empty list is a remainder by zero).
\<close>

theorem wilderness_center_cells:
  "(\<forall>indices. generateWildernessIndices rnd wildSeed wildData = Inr indices \<longrightarrow>
       bufGet indices 31 31 = Inr 1 \<and> bufGet indices 32 31 = Inr 2
     \<and> bufGet indices 31 32 = Inr 3 \<and> bufGet indices 32 32 = Inr 4
     \<and> bufWidth indices = 64 \<and> bufHeight indices = 64 \<and> length (bufData indices) = 4096)
   \<and> (normalBlocks wildData \<noteq> [] \<and> villageBlocks wildData \<noteq> [] \<and> dungeonBlocks wildData \<noteq> []
        \<and> tavernBlocks wildData \<noteq> [] \<and> templeBlocks wildData \<noteq> []
      \<longrightarrow> (\<exists>indices. generateWildernessIndices rnd wildSeed wildData = Inr indices))"
proof (rule conjI; rule allI impI; (rule impI)?)
  fix indices
  assume run: "generateWildernessIndices rnd wildSeed wildData = Inr indices"
  then obtain cells r where gen: "generateIndices rnd wildData 4096 (srand rnd wildSeed) = Inr (cells, r)"
    by (auto simp: generateWildernessIndices_def split: sum.splits)
  from generateIndices_length [OF gen] have len: "length cells = 4096" .
  from center_cells_of_4096 [OF len] obtain indices' where
    set: "(case bufSet 31 31 1 \<lparr>bufWidth = 64, bufHeight = 64, bufData = cells\<rparr> of
        Inl e \<Rightarrow> Inl e
      | Inr indices1 \<Rightarrow>
          (case bufSet 32 31 2 indices1 of
             Inl e \<Rightarrow> Inl e
           | Inr indices2 \<Rightarrow>
               (case bufSet 31 32 3 indices2 of
                  Inl e \<Rightarrow> Inl e
                | Inr indices3 \<Rightarrow> bufSet 32 32 4 indices3))) = Inr indices'"
    and cells: "bufGet indices' 31 31 = Inr 1 \<and> bufGet indices' 32 31 = Inr 2
      \<and> bufGet indices' 31 32 = Inr 3 \<and> bufGet indices' 32 32 = Inr 4
      \<and> bufWidth indices' = 64 \<and> bufHeight indices' = 64 \<and> length (bufData indices') = 4096"
    by blast
  have "generateWildernessIndices rnd wildSeed wildData = Inr indices'"
    by (simp add: generateWildernessIndices_def gen set cong: sum.case_cong)
  with run have "indices = indices'" by simp
  with cells
  show "bufGet indices 31 31 = Inr 1 \<and> bufGet indices 32 31 = Inr 2
     \<and> bufGet indices 31 32 = Inr 3 \<and> bufGet indices 32 32 = Inr 4
     \<and> bufWidth indices = 64 \<and> bufHeight indices = 64 \<and> length (bufData indices) = 4096"
    by simp
next
  assume pools: "normalBlocks wildData \<noteq> [] \<and> villageBlocks wildData \<noteq> [] \<and> dungeonBlocks wildData \<noteq> []
        \<and> tavernBlocks wildData \<noteq> [] \<and> templeBlocks wildData \<noteq> []"
  then obtain cells r where gen: "generateIndices rnd wildData 4096 (srand rnd wildSeed) = Inr (cells, r)"
    using generateIndices_returns [of wildData rnd 4096 "srand rnd wildSeed"] by blast
  from generateIndices_length [OF gen] have len: "length cells = 4096" .
  from center_cells_of_4096 [OF len] obtain indices' where
    set: "(case bufSet 31 31 1 \<lparr>bufWidth = 64, bufHeight = 64, bufData = cells\<rparr> of
        Inl e \<Rightarrow> Inl e
      | Inr indices1 \<Rightarrow>
          (case bufSet 32 31 2 indices1 of
             Inl e \<Rightarrow> Inl e
           | Inr indices2 \<Rightarrow>
               (case bufSet 31 32 3 indices2 of
                  Inl e \<Rightarrow> Inl e
                | Inr indices3 \<Rightarrow> bufSet 32 32 4 indices3))) = Inr indices'"
    by blast
  have "generateWildernessIndices rnd wildSeed wildData = Inr indices'"
    by (simp add: generateWildernessIndices_def gen set cong: sum.case_cong)
  then show "\<exists>indices. generateWildernessIndices rnd wildSeed wildData = Inr indices" ..
qed

theorem wilderness_center_cells_witness:
  "\<exists>indices. generateWildernessIndices (replayRandom (\<lambda>seed. [0x7000, 3])) 0x12345678 exampleWild
       = Inr indices
     \<and> bufGet indices 31 31 = Inr 1 \<and> bufGet indices 32 31 = Inr 2
     \<and> bufGet indices 31 32 = Inr 3 \<and> bufGet indices 32 32 = Inr 4"
  using wilderness_center_cells [of "replayRandom (\<lambda>seed. [0x7000, 3])" "0x12345678" exampleWild]
  by (auto simp: exampleWild_def)

section \<open>Properties of revisePalaceGraphics\<close>

lemma index_in_grid:
  fixes x z gridWidth gridDepth :: int
  assumes "0 \<le> x" "x < gridWidth" "0 \<le> z" "z < gridDepth"
  shows "0 \<le> z + x * gridDepth" "z + x * gridDepth < gridWidth * gridDepth"
proof -
  from assms show "0 \<le> z + x * gridDepth" by simp
  have "x * gridDepth \<le> (gridWidth - 1) * gridDepth"
    using assms by (intro mult_right_mono) auto
  also have "\<dots> = gridWidth * gridDepth - gridDepth" by (simp add: algebra_simps)
  finally show "z + x * gridDepth < gridWidth * gridDepth" using assms by simp
qed

lemma getMap1Voxel_in_grid:
  assumes "length map1 = nat (gridWidth * gridDepth)"
    and "0 \<le> x" "x < gridWidth" "0 \<le> z" "z < gridDepth"
  shows "getMap1Voxel map1 gridDepth x z = Inr (map1 ! nat (z + x * gridDepth))"
proof -
  have "(z * 2) + ((x * 2) * gridDepth) = 2 * (z + x * gridDepth)" by (simp add: algebra_simps)
  then show ?thesis
    using index_in_grid [OF assms(2-5)] assms(1)
    by (simp add: getMap1Voxel_def getLE16_def)
qed

lemma setMap1Voxel_in_grid:
  assumes "length map1 = nat (gridWidth * gridDepth)"
    and "0 \<le> x" "x < gridWidth" "0 \<le> z" "z < gridDepth"
  shows "setMap1Voxel gridDepth x z voxel map1 = Inr (map1[nat (z + x * gridDepth) := voxel])"
  using index_in_grid [OF assms(2-5)] assms(1)
  by (simp add: setMap1Voxel_def Let_def)

lemma searchNorthSouth_north:
  assumes "\<forall>z \<in> set before. isPalaceBlock map1 gridDepth 0 z = Inr False
             \<and> isPalaceBlock map1 gridDepth (gridWidth - 1) z = Inr False"
    and "isPalaceBlock map1 gridDepth 0 k = Inr True"
  shows "searchNorthSouth map1 gridWidth gridDepth (before @ k # rest)
           = Inr (Some \<lparr>side = North, offset = k\<rparr>)"
  using assms by (induction before) (simp_all add: Let_def)

lemma gateDistanceLoop_found:
  assumes "i \<le> d" "d < MAX_GATE_DIST"
    and "\<forall>j. i \<le> j \<and> j < d \<longrightarrow>
           isGateBlock map1 gridDepth (fst p + j * fst dir) (snd p + j * snd dir) = Inr False"
    and "isGateBlock map1 gridDepth (fst p + d * fst dir) (snd p + d * snd dir) = Inr True"
  shows "gateDistanceLoop map1 gridDepth dir i (fst p + i * fst dir, snd p + i * snd dir) = Inr d"
  using assms
proof (induction "nat (d - i)" arbitrary: i)
  case 0
  then have "i = d" by simp
  with 0 show ?case
    by (simp add: gateDistanceLoop.simps [of map1 gridDepth dir d])
next
  case (Suc n)
  then have lt: "i < d" by simp
  have step: "gateDistanceLoop map1 gridDepth dir (i + 1)
                (fst p + (i + 1) * fst dir, snd p + (i + 1) * snd dir) = Inr d"
    using Suc.hyps(2) lt Suc.prems by (intro Suc.hyps(1)) auto
  have no: "isGateBlock map1 gridDepth (fst p + i * fst dir) (snd p + i * snd dir) = Inr False"
    using Suc.prems(3) lt by simp
  have pos: "(fst p + i * fst dir + fst dir, snd p + i * snd dir + snd dir)
             = (fst p + (i + 1) * fst dir, snd p + (i + 1) * snd dir)"
    by (simp add: algebra_simps)
  show ?case
    using lt Suc.prems(2) no step
    by (simp add: gateDistanceLoop.simps [of map1 gridDepth dir i] pos)
qed

lemma gateDistanceLoop_none:
  assumes "i \<le> MAX_GATE_DIST"
    and "\<forall>j. i \<le> j \<and> j < MAX_GATE_DIST \<longrightarrow>
           isGateBlock map1 gridDepth (fst p + j * fst dir) (snd p + j * snd dir) = Inr False"
  shows "gateDistanceLoop map1 gridDepth dir i (fst p + i * fst dir, snd p + i * snd dir)
           = Inr MAX_GATE_DIST"
  using assms
proof (induction "nat (MAX_GATE_DIST - i)" arbitrary: i)
  case 0
  then have "i = MAX_GATE_DIST" by simp
  then show ?case
    by (simp add: gateDistanceLoop.simps [of map1 gridDepth dir MAX_GATE_DIST])
next
  case (Suc n)
  then have lt: "i < MAX_GATE_DIST" by simp
  have step: "gateDistanceLoop map1 gridDepth dir (i + 1)
                (fst p + (i + 1) * fst dir, snd p + (i + 1) * snd dir) = Inr MAX_GATE_DIST"
    using Suc.hyps(2) lt Suc.prems by (intro Suc.hyps(1)) auto
  have no: "isGateBlock map1 gridDepth (fst p + i * fst dir) (snd p + i * snd dir) = Inr False"
    using Suc.prems(2) lt by simp
  have pos: "(fst p + i * fst dir + fst dir, snd p + i * snd dir + snd dir)
             = (fst p + (i + 1) * fst dir, snd p + (i + 1) * snd dir)"
    by (simp add: algebra_simps)
  show ?case
    using lt no step
    by (simp add: gateDistanceLoop.simps [of map1 gridDepth dir i] pos)
qed

lemma index_inj:
  fixes x z x' z' gridDepth :: int
  assumes "0 \<le> z" "z < gridDepth" "0 \<le> z'" "z' < gridDepth"
    and "z + x * gridDepth = z' + x' * gridDepth"
  shows "x = x' \<and> z = z'"
proof -
  have "(z + x * gridDepth) div gridDepth = x" "(z + x * gridDepth) mod gridDepth = z"
    using assms(1,2) by simp_all
  moreover have "(z' + x' * gridDepth) div gridDepth = x'" "(z' + x' * gridDepth) mod gridDepth = z'"
    using assms(3,4) by simp_all
  ultimately show ?thesis using assms(5) by simp
qed

lemma searchPalace_north:
  assumes dims: "2 < gridWidth" "2 < gridDepth"
    and k: "1 \<le> k" "k \<le> gridDepth - 2"
    and palace: "isPalaceBlock map1 gridDepth 0 k = Inr True"
    and only: "\<forall>x z. 0 \<le> x \<and> x < gridWidth \<and> 0 \<le> z \<and> z < gridDepth \<and> (x, z) \<noteq> (0, k)
                 \<longrightarrow> isPalaceBlock map1 gridDepth x z = Inr False"
  shows "searchPalace map1 gridWidth gridDepth = Inr \<lparr>side = North, offset = k\<rparr>"
proof -
  have split: "[1..gridDepth - 2] = [1..k - 1] @ k # [k + 1..gridDepth - 2]"
    using k by (rule upto_split3)
  have "\<forall>z \<in> set [1..k - 1]. isPalaceBlock map1 gridDepth 0 z = Inr False
             \<and> isPalaceBlock map1 gridDepth (gridWidth - 1) z = Inr False"
    using only dims k by auto
  from searchNorthSouth_north [OF this palace]
  show ?thesis by (simp add: searchPalace_def split)
qed

lemma revise_north_gate:
  assumes dims: "2 < gridWidth" "2 < gridDepth" "length map1 = nat (gridWidth * gridDepth)"
    and k: "1 \<le> k" "k \<le> gridDepth - 2"
    and search: "searchPalace map1 gridWidth gridDepth = Inr \<lparr>side = North, offset = k\<rparr>"
    and d: "0 \<le> d" "d < 8" "d < gridWidth"
    and gate: "isGateBlock map1 gridDepth (gridWidth - 1 - d) k = Inr True"
    and nogate: "\<forall>j. 0 \<le> j \<and> j < d \<longrightarrow> isGateBlock map1 gridDepth (gridWidth - 1 - j) k = Inr False"
  shows "revisePalaceGraphics map1 gridWidth gridDepth =
           Inr (map1[nat (k + (gridWidth - 1) * gridDepth) := 0xA5B5,
                     nat (k - 1 + (gridWidth - 1) * gridDepth) := 0xA5B4,
                     nat (k + (gridWidth - 1 - d) * gridDepth) := 0xA1B3,
                     nat (k - 1 + (gridWidth - 1 - d) * gridDepth) := 0xA1B3])"
proof -
  let ?p = "(gridWidth - 1, k)"
  have "gateDistanceLoop map1 gridDepth (- 1, 0) 0 (fst ?p + 0 * fst (- 1, 0 :: int), snd ?p + 0 * snd (- 1 :: int, 0)) = Inr d"
    using d gate nogate by (intro gateDistanceLoop_found) (auto simp: MAX_GATE_DIST_def)
  then have dist: "getGateDistance map1 gridDepth (gridWidth - 1, k) (- 1, 0) = Inr d"
    using d by (simp add: getGateDistance_def MAX_GATE_DIST_def)
  have len: "length (map1[i := v]) = nat (gridWidth * gridDepth)" for i and v :: "16 word"
    using dims by simp
  have s1: "setMap1Voxel gridDepth (gridWidth - 1) k v l = Inr (l[nat (k + (gridWidth - 1) * gridDepth) := v])"
    if "length l = nat (gridWidth * gridDepth)" for v l
    using dims k that by (intro setMap1Voxel_in_grid) auto
  have s2: "setMap1Voxel gridDepth (gridWidth - 1) (k - 1) v l = Inr (l[nat (k - 1 + (gridWidth - 1) * gridDepth) := v])"
    if "length l = nat (gridWidth * gridDepth)" for v l
    using dims k that by (intro setMap1Voxel_in_grid) auto
  have s3: "setMap1Voxel gridDepth (gridWidth - 1 - d) k v l = Inr (l[nat (k + (gridWidth - 1 - d) * gridDepth) := v])"
    if "length l = nat (gridWidth * gridDepth)" for v l
    using dims k d that by (intro setMap1Voxel_in_grid) auto
  have s4: "setMap1Voxel gridDepth (gridWidth - 1 - d) (k - 1) v l = Inr (l[nat (k - 1 + (gridWidth - 1 - d) * gridDepth) := v])"
    if "length l = nat (gridWidth * gridDepth)" for v l
    using dims k d that by (intro setMap1Voxel_in_grid) auto
  have ng: "d \<noteq> NO_GATE" using d by (simp add: NO_GATE_def)
  show ?thesis
    using ng dims(3)
    by (simp add: revisePalaceGraphics_def search palaceRevision_def Let_def dist s1 s2 s3 s4
        cong: sum.case_cong)
qed

lemma revise_north_nogate:
  assumes dims: "2 < gridWidth" "2 < gridDepth" "length map1 = nat (gridWidth * gridDepth)"
    and k: "1 \<le> k" "k \<le> gridDepth - 2"
    and search: "searchPalace map1 gridWidth gridDepth = Inr \<lparr>side = North, offset = k\<rparr>"
    and nogate: "\<forall>j. 0 \<le> j \<and> j < 8 \<longrightarrow> isGateBlock map1 gridDepth (gridWidth - 1 - j) k = Inr False"
  shows "revisePalaceGraphics map1 gridWidth gridDepth =
           Inr (map1[nat (k + (gridWidth - 1) * gridDepth) := 0xA5B5,
                     nat (k - 1 + (gridWidth - 1) * gridDepth) := 0xA5B4])"
proof -
  let ?p = "(gridWidth - 1, k)"
  have "gateDistanceLoop map1 gridDepth (- 1, 0) 0 (fst ?p + 0 * fst (- 1, 0 :: int), snd ?p + 0 * snd (- 1 :: int, 0)) = Inr MAX_GATE_DIST"
    using nogate by (intro gateDistanceLoop_none) (auto simp: MAX_GATE_DIST_def)
  then have dist: "getGateDistance map1 gridDepth (gridWidth - 1, k) (- 1, 0) = Inr NO_GATE"
    by (simp add: getGateDistance_def)
  have s1: "setMap1Voxel gridDepth (gridWidth - 1) k v l = Inr (l[nat (k + (gridWidth - 1) * gridDepth) := v])"
    if "length l = nat (gridWidth * gridDepth)" for v l
    using dims k that by (intro setMap1Voxel_in_grid) auto
  have s2: "setMap1Voxel gridDepth (gridWidth - 1) (k - 1) v l = Inr (l[nat (k - 1 + (gridWidth - 1) * gridDepth) := v])"
    if "length l = nat (gridWidth * gridDepth)" for v l
    using dims k that by (intro setMap1Voxel_in_grid) auto
  show ?thesis
    using dims(3)
    by (simp add: revisePalaceGraphics_def search palaceRevision_def Let_def dist s1 s2
        cong: sum.case_cong)
qed

lemma getMap1Voxel_update:
  assumes len: "length map1 = nat (gridWidth * gridDepth)"
    and x: "0 \<le> x" "x < gridWidth" and z: "0 \<le> z" "z < gridDepth"
    and x': "0 \<le> x'" "x' < gridWidth" and z': "0 \<le> z'" "z' < gridDepth"
  shows "getMap1Voxel (map1[nat (z' + x' * gridDepth) := v]) gridDepth x z
           = (if (x, z) = (x', z') then Inr v else getMap1Voxel map1 gridDepth x z)"
proof -
  have len': "length (map1[nat (z' + x' * gridDepth) := v]) = nat (gridWidth * gridDepth)"
    using len by simp
  have in1: "0 \<le> z + x * gridDepth" "z + x * gridDepth < gridWidth * gridDepth"
    using index_in_grid [OF x z] by simp_all
  have in2: "0 \<le> z' + x' * gridDepth" "z' + x' * gridDepth < gridWidth * gridDepth"
    using index_in_grid [OF x' z'] by simp_all
  have eq: "nat (z' + x' * gridDepth) = nat (z + x * gridDepth) \<longleftrightarrow> (x, z) = (x', z')"
    using index_inj [OF z z', of x x'] in1 in2 by auto
  show ?thesis
    using in1 in2 len eq
    by (simp add: getMap1Voxel_in_grid [OF len' x z] getMap1Voxel_in_grid [OF len x z])
qed

text \<open>
  C1, as the code has it. Let the only voxel of the MAP1 layer with top nibble 0x9 be at
  \<open>(0, k)\<close>, on the edge that the search calls north, with \<open>1 \<le> k \<le> gridDepth - 2\<close>
  (the search leaves out the corners) and both dimensions above 2. The second palace
  voxel is one step along the edge from the first, at \<open>(gridWidth - 1, k - 1)\<close>, not at
  \<open>(gridWidth - 2, k)\<close>. If the nearest voxel with top nibble 0xA on the line from
  \<open>(gridWidth - 1, k)\<close> towards smaller \<open>x\<close> is at a distance \<open>d\<close> with \<open>1 \<le> d < 8\<close>, then
  revisePalaceGraphics returns, the voxels at \<open>(gridWidth - 1, k)\<close> and
  \<open>(gridWidth - 1, k - 1)\<close> hold 0xA5B5 and 0xA5B4, the gate voxels at
  \<open>(gridWidth - 1 - d, k)\<close> and \<open>(gridWidth - 1 - d, k - 1)\<close> hold 0xA1B3, and no other voxel
  changes. If there is no such voxel at the distances 0 .. 7 and the grid is at least 8
  wide, only the two palace voxels change.
\<close>

theorem palace_north_revision:
  assumes dims: "2 < gridWidth" "2 < gridDepth" "length map1 = nat (gridWidth * gridDepth)"
    and k: "1 \<le> k" "k \<le> gridDepth - 2"
    and palace: "isPalaceBlock map1 gridDepth 0 k = Inr True"
    and only: "\<forall>x z. 0 \<le> x \<and> x < gridWidth \<and> 0 \<le> z \<and> z < gridDepth \<and> (x, z) \<noteq> (0, k)
                 \<longrightarrow> isPalaceBlock map1 gridDepth x z = Inr False"
  shows "(\<forall>d. 1 \<le> d \<and> d < 8 \<and> d < gridWidth
             \<and> isGateBlock map1 gridDepth (gridWidth - 1 - d) k = Inr True
             \<and> (\<forall>j. 0 \<le> j \<and> j < d \<longrightarrow> isGateBlock map1 gridDepth (gridWidth - 1 - j) k = Inr False)
           \<longrightarrow> (\<exists>map1'. revisePalaceGraphics map1 gridWidth gridDepth = Inr map1'
                 \<and> getMap1Voxel map1' gridDepth (gridWidth - 1) k = Inr 0xA5B5
                 \<and> getMap1Voxel map1' gridDepth (gridWidth - 1) (k - 1) = Inr 0xA5B4
                 \<and> getMap1Voxel map1' gridDepth (gridWidth - 1 - d) k = Inr 0xA1B3
                 \<and> getMap1Voxel map1' gridDepth (gridWidth - 1 - d) (k - 1) = Inr 0xA1B3
                 \<and> (\<forall>x z. 0 \<le> x \<and> x < gridWidth \<and> 0 \<le> z \<and> z < gridDepth
                        \<and> (x, z) \<notin> {(gridWidth - 1, k), (gridWidth - 1, k - 1),
                                     (gridWidth - 1 - d, k), (gridWidth - 1 - d, k - 1)}
                      \<longrightarrow> getMap1Voxel map1' gridDepth x z = getMap1Voxel map1 gridDepth x z)))
       \<and> (8 \<le> gridWidth
             \<and> (\<forall>j. 0 \<le> j \<and> j < 8 \<longrightarrow> isGateBlock map1 gridDepth (gridWidth - 1 - j) k = Inr False)
           \<longrightarrow> (\<exists>map1'. revisePalaceGraphics map1 gridWidth gridDepth = Inr map1'
                 \<and> getMap1Voxel map1' gridDepth (gridWidth - 1) k = Inr 0xA5B5
                 \<and> getMap1Voxel map1' gridDepth (gridWidth - 1) (k - 1) = Inr 0xA5B4
                 \<and> (\<forall>x z. 0 \<le> x \<and> x < gridWidth \<and> 0 \<le> z \<and> z < gridDepth
                        \<and> (x, z) \<notin> {(gridWidth - 1, k), (gridWidth - 1, k - 1)}
                      \<longrightarrow> getMap1Voxel map1' gridDepth x z = getMap1Voxel map1 gridDepth x z)))"
proof -
  have search: "searchPalace map1 gridWidth gridDepth = Inr \<lparr>side = North, offset = k\<rparr>"
    using dims(1,2) k palace only by (rule searchPalace_north)
  have len: "length (l[i := v]) = nat (gridWidth * gridDepth)"
    if "length l = nat (gridWidth * gridDepth)" for l :: "16 word list" and i v
    using that by simp
  note upd = getMap1Voxel_update
  have gate_case: "\<exists>map1'. revisePalaceGraphics map1 gridWidth gridDepth = Inr map1'
                 \<and> getMap1Voxel map1' gridDepth (gridWidth - 1) k = Inr 0xA5B5
                 \<and> getMap1Voxel map1' gridDepth (gridWidth - 1) (k - 1) = Inr 0xA5B4
                 \<and> getMap1Voxel map1' gridDepth (gridWidth - 1 - d) k = Inr 0xA1B3
                 \<and> getMap1Voxel map1' gridDepth (gridWidth - 1 - d) (k - 1) = Inr 0xA1B3
                 \<and> (\<forall>x z. 0 \<le> x \<and> x < gridWidth \<and> 0 \<le> z \<and> z < gridDepth
                        \<and> (x, z) \<notin> {(gridWidth - 1, k), (gridWidth - 1, k - 1),
                                     (gridWidth - 1 - d, k), (gridWidth - 1 - d, k - 1)}
                      \<longrightarrow> getMap1Voxel map1' gridDepth x z = getMap1Voxel map1 gridDepth x z)"
    if d: "1 \<le> d" "d < 8" "d < gridWidth"
      and gate: "isGateBlock map1 gridDepth (gridWidth - 1 - d) k = Inr True"
      and nogate: "\<forall>j. 0 \<le> j \<and> j < d \<longrightarrow> isGateBlock map1 gridDepth (gridWidth - 1 - j) k = Inr False"
    for d
  proof -
    let ?m1 = "map1[nat (k + (gridWidth - 1) * gridDepth) := 0xA5B5]"
    let ?m2 = "?m1[nat (k - 1 + (gridWidth - 1) * gridDepth) := 0xA5B4]"
    let ?m3 = "?m2[nat (k + (gridWidth - 1 - d) * gridDepth) := 0xA1B3]"
    let ?m4 = "?m3[nat (k - 1 + (gridWidth - 1 - d) * gridDepth) := 0xA1B3]"
    have run: "revisePalaceGraphics map1 gridWidth gridDepth = Inr ?m4"
      using dims k search _ d(2,3) gate nogate by (rule revise_north_gate) (use d in simp)
    have l1: "length ?m1 = nat (gridWidth * gridDepth)" using dims(3) by simp
    have l2: "length ?m2 = nat (gridWidth * gridDepth)" using dims(3) by simp
    have l3: "length ?m3 = nat (gridWidth * gridDepth)" using dims(3) by simp
    have read: "getMap1Voxel ?m4 gridDepth x z =
        (if (x, z) = (gridWidth - 1 - d, k - 1) then Inr 0xA1B3
         else if (x, z) = (gridWidth - 1 - d, k) then Inr 0xA1B3
         else if (x, z) = (gridWidth - 1, k - 1) then Inr 0xA5B4
         else if (x, z) = (gridWidth - 1, k) then Inr 0xA5B5
         else getMap1Voxel map1 gridDepth x z)"
      if "0 \<le> x" "x < gridWidth" "0 \<le> z" "z < gridDepth" for x z
      using that dims k d
      by (simp add: upd [OF l3] upd [OF l2] upd [OF l1] upd [OF dims(3)])
    show ?thesis
      using run dims k d by (intro exI [of _ ?m4]) (auto simp: read)
  qed
  have nogate_case: "\<exists>map1'. revisePalaceGraphics map1 gridWidth gridDepth = Inr map1'
                 \<and> getMap1Voxel map1' gridDepth (gridWidth - 1) k = Inr 0xA5B5
                 \<and> getMap1Voxel map1' gridDepth (gridWidth - 1) (k - 1) = Inr 0xA5B4
                 \<and> (\<forall>x z. 0 \<le> x \<and> x < gridWidth \<and> 0 \<le> z \<and> z < gridDepth
                        \<and> (x, z) \<notin> {(gridWidth - 1, k), (gridWidth - 1, k - 1)}
                      \<longrightarrow> getMap1Voxel map1' gridDepth x z = getMap1Voxel map1 gridDepth x z)"
    if nogate: "\<forall>j. 0 \<le> j \<and> j < 8 \<longrightarrow> isGateBlock map1 gridDepth (gridWidth - 1 - j) k = Inr False"
  proof -
    let ?m1 = "map1[nat (k + (gridWidth - 1) * gridDepth) := 0xA5B5]"
    let ?m2 = "?m1[nat (k - 1 + (gridWidth - 1) * gridDepth) := 0xA5B4]"
    have run: "revisePalaceGraphics map1 gridWidth gridDepth = Inr ?m2"
      using dims k search nogate by (rule revise_north_nogate)
    have l1: "length ?m1 = nat (gridWidth * gridDepth)" using dims(3) by simp
    have read: "getMap1Voxel ?m2 gridDepth x z =
        (if (x, z) = (gridWidth - 1, k - 1) then Inr 0xA5B4
         else if (x, z) = (gridWidth - 1, k) then Inr 0xA5B5
         else getMap1Voxel map1 gridDepth x z)"
      if "0 \<le> x" "x < gridWidth" "0 \<le> z" "z < gridDepth" for x z
      using that dims k
      by (simp add: upd [OF l1] upd [OF dims(3)])
    show ?thesis
      using run dims k by (intro exI [of _ ?m2]) (auto simp: read)
  qed
  from gate_case nogate_case show ?thesis by blast
qed

text \<open>
  On a grid of 4 by 3 voxels with the palace marker at \<open>(0, 1)\<close> and a gate marker at
  \<open>(1, 1)\<close>, the voxel at \<open>(gridWidth - 2, k) = (2, 1)\<close> is left as it was, and 0xA5B4 is
  at \<open>(gridWidth - 1, k - 1) = (3, 0)\<close>.
\<close>

theorem palace_second_voxel_counterexample:
  "revisePalaceGraphics palaceGrid 4 3
     = Inr [0, 0x9000, 0,  0xA1B3, 0xA1B3, 0,  0, 0, 0,  0xA5B4, 0xA5B5, 0]
   \<and> getMap1Voxel [0, 0x9000, 0,  0xA1B3, 0xA1B3, 0,  0, 0, 0,  0xA5B4, 0xA5B5, 0] 3 (4 - 2) 1
       = Inr 0
   \<and> getMap1Voxel [0, 0x9000, 0,  0xA1B3, 0xA1B3, 0,  0, 0, 0,  0xA5B4, 0xA5B5, 0] 3 (4 - 1) (1 - 1)
       = Inr 0xA5B4"
  by code_simp

lemma palaceGrid_only:
  "\<forall>x z. 0 \<le> x \<and> x < 4 \<and> 0 \<le> z \<and> z < 3 \<and> (x, z) \<noteq> (0, 1)
     \<longrightarrow> isPalaceBlock palaceGrid 3 x z = Inr False"
proof -
  have "\<forall>x \<in> set [0..3]. \<forall>z \<in> set [0..2]. (x, z) \<noteq> (0, 1)
          \<longrightarrow> isPalaceBlock palaceGrid 3 x z = Inr False"
    by code_simp
  then show ?thesis by simp
qed

lemma palaceGridWide_only:
  "\<forall>x z. 0 \<le> x \<and> x < 8 \<and> 0 \<le> z \<and> z < 3 \<and> (x, z) \<noteq> (0, 1)
     \<longrightarrow> isPalaceBlock palaceGridWide 3 x z = Inr False"
proof -
  have "\<forall>x \<in> set [0..7]. \<forall>z \<in> set [0..2]. (x, z) \<noteq> (0, 1)
          \<longrightarrow> isPalaceBlock palaceGridWide 3 x z = Inr False"
    by code_simp
  then show ?thesis by simp
qed

theorem palace_north_revision_witness:
  "(\<exists>map1'. revisePalaceGraphics palaceGrid 4 3 = Inr map1'
       \<and> getMap1Voxel map1' 3 3 1 = Inr 0xA5B5 \<and> getMap1Voxel map1' 3 3 0 = Inr 0xA5B4
       \<and> getMap1Voxel map1' 3 1 1 = Inr 0xA1B3 \<and> getMap1Voxel map1' 3 1 0 = Inr 0xA1B3
       \<and> getMap1Voxel map1' 3 2 1 = Inr 0)
   \<and> (\<exists>map1'. revisePalaceGraphics palaceGridWide 8 3 = Inr map1'
       \<and> getMap1Voxel map1' 3 7 1 = Inr 0xA5B5 \<and> getMap1Voxel map1' 3 7 0 = Inr 0xA5B4
       \<and> getMap1Voxel map1' 3 6 1 = Inr 0)"
proof
  have palace: "isPalaceBlock palaceGrid 3 0 1 = Inr True" by code_simp
  have gate: "isGateBlock palaceGrid 3 (4 - 1 - 2) 1 = Inr True" by code_simp
  have nogate: "\<forall>j. 0 \<le> j \<and> j < 2 \<longrightarrow> isGateBlock palaceGrid 3 (4 - 1 - j) 1 = Inr False"
  proof -
    have "\<forall>j \<in> set [0..1]. isGateBlock palaceGrid 3 (4 - 1 - j) 1 = Inr False" by code_simp
    then show ?thesis by simp
  qed
  have old: "getMap1Voxel palaceGrid 3 2 1 = Inr 0" by code_simp
  from palace_north_revision [of 4 3 palaceGrid 1, OF _ _ _ _ _ palace palaceGrid_only]
  have "\<forall>d. 1 \<le> d \<and> d < 8 \<and> d < 4
             \<and> isGateBlock palaceGrid 3 (4 - 1 - d) 1 = Inr True
             \<and> (\<forall>j. 0 \<le> j \<and> j < d \<longrightarrow> isGateBlock palaceGrid 3 (4 - 1 - j) 1 = Inr False)
           \<longrightarrow> (\<exists>map1'. revisePalaceGraphics palaceGrid 4 3 = Inr map1'
                 \<and> getMap1Voxel map1' 3 (4 - 1) 1 = Inr 0xA5B5
                 \<and> getMap1Voxel map1' 3 (4 - 1) (1 - 1) = Inr 0xA5B4
                 \<and> getMap1Voxel map1' 3 (4 - 1 - d) 1 = Inr 0xA1B3
                 \<and> getMap1Voxel map1' 3 (4 - 1 - d) (1 - 1) = Inr 0xA1B3
                 \<and> (\<forall>x z. 0 \<le> x \<and> x < 4 \<and> 0 \<le> z \<and> z < 3
                        \<and> (x, z) \<notin> {(4 - 1, 1), (4 - 1, 1 - 1), (4 - 1 - d, 1), (4 - 1 - d, 1 - 1)}
                      \<longrightarrow> getMap1Voxel map1' 3 x z = getMap1Voxel palaceGrid 3 x z))"
    by (simp add: palaceGrid_def)
  from this [rule_format, of 2] gate nogate obtain map1' where
    "revisePalaceGraphics palaceGrid 4 3 = Inr map1'"
    "getMap1Voxel map1' 3 (4 - 1) 1 = Inr 0xA5B5"
    "getMap1Voxel map1' 3 (4 - 1) (1 - 1) = Inr 0xA5B4"
    "getMap1Voxel map1' 3 (4 - 1 - 2) 1 = Inr 0xA1B3"
    "getMap1Voxel map1' 3 (4 - 1 - 2) (1 - 1) = Inr 0xA1B3"
    "\<forall>x z. 0 \<le> x \<and> x < 4 \<and> 0 \<le> z \<and> z < 3
        \<and> (x, z) \<notin> {(4 - 1, 1), (4 - 1, 1 - 1), (4 - 1 - 2, 1), (4 - 1 - 2, 1 - 1)}
      \<longrightarrow> getMap1Voxel map1' 3 x z = getMap1Voxel palaceGrid 3 x z"
    by auto
  then show "\<exists>map1'. revisePalaceGraphics palaceGrid 4 3 = Inr map1'
       \<and> getMap1Voxel map1' 3 3 1 = Inr 0xA5B5 \<and> getMap1Voxel map1' 3 3 0 = Inr 0xA5B4
       \<and> getMap1Voxel map1' 3 1 1 = Inr 0xA1B3 \<and> getMap1Voxel map1' 3 1 0 = Inr 0xA1B3
       \<and> getMap1Voxel map1' 3 2 1 = Inr 0"
    using old by (intro exI [of _ map1']) simp
next
  have palace: "isPalaceBlock palaceGridWide 3 0 1 = Inr True" by code_simp
  have nogate: "\<forall>j. 0 \<le> j \<and> j < 8 \<longrightarrow> isGateBlock palaceGridWide 3 (8 - 1 - j) 1 = Inr False"
  proof -
    have "\<forall>j \<in> set [0..7]. isGateBlock palaceGridWide 3 (8 - 1 - j) 1 = Inr False" by code_simp
    then show ?thesis by simp
  qed
  have old: "getMap1Voxel palaceGridWide 3 6 1 = Inr 0" by code_simp
  from palace_north_revision [of 8 3 palaceGridWide 1, OF _ _ _ _ _ palace palaceGridWide_only]
  have "8 \<le> (8 :: int)
             \<and> (\<forall>j. 0 \<le> j \<and> j < 8 \<longrightarrow> isGateBlock palaceGridWide 3 (8 - 1 - j) 1 = Inr False)
           \<longrightarrow> (\<exists>map1'. revisePalaceGraphics palaceGridWide 8 3 = Inr map1'
                 \<and> getMap1Voxel map1' 3 (8 - 1) 1 = Inr 0xA5B5
                 \<and> getMap1Voxel map1' 3 (8 - 1) (1 - 1) = Inr 0xA5B4
                 \<and> (\<forall>x z. 0 \<le> x \<and> x < 8 \<and> 0 \<le> z \<and> z < 3
                        \<and> (x, z) \<notin> {(8 - 1, 1), (8 - 1, 1 - 1)}
                      \<longrightarrow> getMap1Voxel map1' 3 x z = getMap1Voxel palaceGridWide 3 x z))"
    by (simp add: palaceGridWide_def)
  with nogate obtain map1' where
    "revisePalaceGraphics palaceGridWide 8 3 = Inr map1'"
    "getMap1Voxel map1' 3 (8 - 1) 1 = Inr 0xA5B5"
    "getMap1Voxel map1' 3 (8 - 1) (1 - 1) = Inr 0xA5B4"
    "\<forall>x z. 0 \<le> x \<and> x < 8 \<and> 0 \<le> z \<and> z < 3 \<and> (x, z) \<notin> {(8 - 1, 1), (8 - 1, 1 - 1)}
      \<longrightarrow> getMap1Voxel map1' 3 x z = getMap1Voxel palaceGridWide 3 x z"
    by auto
  then show "\<exists>map1'. revisePalaceGraphics palaceGridWide 8 3 = Inr map1'
       \<and> getMap1Voxel map1' 3 7 1 = Inr 0xA5B5 \<and> getMap1Voxel map1' 3 7 0 = Inr 0xA5B4
       \<and> getMap1Voxel map1' 3 6 1 = Inr 0"
    using old by (intro exI [of _ map1']) simp
qed

section \<open>Properties of generateWildChunkBuildingNames\<close>

lemma forEach_rel:
  assumes step: "\<And>i s s'. i \<in> set xs \<Longrightarrow> body i s = Inr s' \<Longrightarrow> R s s'"
    and refl: "\<And>s. R s s"
    and trans: "\<And>a b c. R a b \<Longrightarrow> R b c \<Longrightarrow> R a c"
  shows "forEach body xs s = Inr s' \<Longrightarrow> R s s'"
  using step
proof (induction xs arbitrary: s)
  case Nil
  then show ?case using refl by simp
next
  case (Cons i xs)
  from Cons.prems(1) obtain s1 where 1: "body i s = Inr s1" and 2: "forEach body xs s1 = Inr s'"
    by (auto split: sum.splits)
  have "R s s1" using Cons.prems(2) [of i s s1] 1 by simp
  moreover have "R s1 s'" using Cons.IH [OF 2] Cons.prems(2) by auto
  ultimately show ?case by (rule trans)
qed

lemma addedNames_refl: "addedNames P names names"
  by (simp add: addedNames_def)

lemma addedNames_trans: "addedNames P a b \<Longrightarrow> addedNames P b c \<Longrightarrow> addedNames P a c"
  by (fastforce simp: addedNames_def)

lemma tryGenerateWildBlockName_added:
  assumes "tryGenerateWildBlockName env rnd level wildX wildY menuType x z names = Inr names'"
  shows "addedNames (\<lambda>name. wildBlockName env rnd menuType (srand rnd (wildChunkSeed wildX wildY)) = Inr name)
           names names'"
  using assms
  by (auto simp: tryGenerateWildBlockName_def addedNames_def Let_def split: sum.splits if_splits)

lemma generateWildNames_added:
  assumes "generateWildNames env rnd level wildX wildY menuType names = Inr names'"
  shows "addedNames (\<lambda>name. wildBlockName env rnd menuType (srand rnd (wildChunkSeed wildX wildY)) = Inr name)
           names names'"
  using assms unfolding generateWildNames_def
  by (rule forEach_rel [rotated 3])
     (erule forEach_rel [rotated 3], erule tryGenerateWildBlockName_added,
      rule addedNames_refl, erule (1) addedNames_trans, rule addedNames_refl,
      erule (1) addedNames_trans)

text \<open>
  C9. In the building-name pass of the wilderness the generator is made again from the
  seed of the chunk, \<open>(wildY << 16) + wildX\<close>, for every voxel looked at. So every name that
  one call of \<open>generateNames\<close> for a chunk and a menu type adds is the name computed from
  the first draws after that seed, and any two *MENU voxels of the same menu type in the
  same chunk get the same name.
\<close>

theorem wild_chunk_names_identical:
  assumes "generateWildNames env rnd level wildX wildY menuType names = Inr names'"
  shows "\<exists>added. names' = names @ added
           \<and> (\<forall>entry \<in> set added.
                 wildBlockName env rnd menuType (srand rnd (wildChunkSeed wildX wildY))
                   = Inr (snd entry))
           \<and> (\<forall>entry1 \<in> set added. \<forall>entry2 \<in> set added. snd entry1 = snd entry2)"
proof -
  from generateWildNames_added [OF assms] obtain added where
    a: "names' = names @ added"
    and b: "\<forall>entry \<in> set added.
                 wildBlockName env rnd menuType (srand rnd (wildChunkSeed wildX wildY))
                   = Inr (snd entry)"
    by (auto simp: addedNames_def)
  from b have "\<forall>entry1 \<in> set added. \<forall>entry2 \<in> set added. snd entry1 = snd entry2"
    by (metis sum.inject(2))
  with a b show ?thesis by blast
qed

theorem wild_chunk_names_identical_witness:
  "generateWildNames exampleNameEnv (replayRandom (\<lambda>seed. [24, 25])) wildLevel 0 0 MenuType.Tavern []
     = Inr [((4095, 4095), ''The Red Dragon''), ((4090, 4093), ''The Red Dragon'')]
   \<and> wildBlockName exampleNameEnv (replayRandom (\<lambda>seed. [24, 25])) MenuType.Tavern
        (srand (replayRandom (\<lambda>seed. [24, 25])) (wildChunkSeed 0 0)) = Inr ''The Red Dragon''"
proof -
  have run: "generateWildNames exampleNameEnv (replayRandom (\<lambda>seed. [24, 25])) wildLevel 0 0 MenuType.Tavern []
     = Inr [((4095, 4095), ''The Red Dragon''), ((4090, 4093), ''The Red Dragon'')]"
    by code_simp
  from wild_chunk_names_identical [OF run] show ?thesis
    using run by simp
qed

section \<open>Properties of generateBuildingNames\<close>

lemma forEachP_rel:
  assumes step: "\<And>i s s'. i \<in> set xs \<Longrightarrow> body i s = Some (Inr s') \<Longrightarrow> R s s'"
    and refl: "\<And>s. R s s"
    and trans: "\<And>a b c. R a b \<Longrightarrow> R b c \<Longrightarrow> R a c"
  shows "forEachP body xs s = Some (Inr s') \<Longrightarrow> R s s'"
  using step
proof (induction xs arbitrary: s)
  case Nil
  then show ?case using refl by simp
next
  case (Cons i xs)
  from Cons.prems(1) obtain s1 where 1: "body i s = Some (Inr s1)"
    and 2: "forEachP body xs s1 = Some (Inr s')"
    by (auto split: option.splits sum.splits)
  have "R s s1" using Cons.prems(2) [of i s s1] 1 by simp
  moreover have "R s1 s'" using Cons.IH [OF 2] Cons.prems(2) by auto
  ultimately show ?case by (rule trans)
qed









section \<open>Properties of generateCity\<close>

lemma truncMod_nonneg: "0 \<le> v \<Longrightarrow> 0 < c \<Longrightarrow> truncMod v c = v mod c"
  by (simp add: truncMod_def sgn_if)

text \<open>
  C5, as the code has it. The variation of a stamped block is
  \<open>std::max(random.next() % variationCount, 1)\<close>: it is at least 1, and for a draw that is
  not negative and a count above 1 it is at most the count minus 1; the remainders 0 and 1
  both give the variation 1 and each remainder from 2 on gives itself, so the variations
  are not drawn with equal probability. The name of the template is made of the code of
  the block, this variation and the rotation drawn before it.
\<close>

theorem city_block_variation_clamped:
  "(cityBlockVariation v variationCount = Inr variation
      \<longrightarrow> variationCount \<noteq> 0 \<and> variation = max (truncMod v variationCount) 1 \<and> 1 \<le> variation)
   \<and> (cityBlockVariation v variationCount = Inr variation \<and> 0 \<le> v \<and> 1 < variationCount
      \<longrightarrow> variation \<le> variationCount - 1
          \<and> (variation = 1 \<longleftrightarrow> v mod variationCount \<le> 1)
          \<and> (2 \<le> v mod variationCount \<longrightarrow> variation = v mod variationCount))
   \<and> (cityBlockMifName utils rnd block r = Inr (blockMifName, r')
      \<longrightarrow> (\<exists>v1 r1 v2 rotationIndex variation'.
             next rnd r = (v1, r1) \<and> next rnd r1 = (v2, r')
           \<and> remainder v1 (getCityBlockRotationCount utils) = Inr rotationIndex
           \<and> cityBlockVariation v2 (getCityBlockVariations utils (blockTypeToInt block - 2))
                = Inr variation'
           \<and> 1 \<le> variation'
           \<and> blockMifName = makeCityBlockMifName utils
                (getCityBlockCode utils (blockTypeToInt block - 2)) variation'
                (getCityBlockRotation utils rotationIndex)))"
proof -
  have a: "variationCount \<noteq> 0 \<and> variation = max (truncMod v variationCount) 1 \<and> 1 \<le> variation"
    if "cityBlockVariation v variationCount = Inr variation" for v variationCount variation
    using that by (auto simp: cityBlockVariation_def remainder_def split: if_splits)
  have b: "variation \<le> variationCount - 1
          \<and> (variation = 1 \<longleftrightarrow> v mod variationCount \<le> 1)
          \<and> (2 \<le> v mod variationCount \<longrightarrow> variation = v mod variationCount)"
    if "cityBlockVariation v variationCount = Inr variation \<and> 0 \<le> v \<and> 1 < variationCount"
  proof -
    from that have v: "variation = max (v mod variationCount) 1"
      using a [of v variationCount variation] by (simp add: truncMod_nonneg)
    have "0 \<le> v mod variationCount" "v mod variationCount < variationCount"
      using that by simp_all
    with v that show ?thesis by auto
  qed
  have c: "\<exists>v1 r1 v2 rotationIndex variation'.
             next rnd r = (v1, r1) \<and> next rnd r1 = (v2, r')
           \<and> remainder v1 (getCityBlockRotationCount utils) = Inr rotationIndex
           \<and> cityBlockVariation v2 (getCityBlockVariations utils (blockTypeToInt block - 2))
                = Inr variation'
           \<and> 1 \<le> variation'
           \<and> blockMifName = makeCityBlockMifName utils
                (getCityBlockCode utils (blockTypeToInt block - 2)) variation'
                (getCityBlockRotation utils rotationIndex)"
    if run: "cityBlockMifName utils rnd block r = Inr (blockMifName, r')"
  proof -
    obtain v1 r1 where 1: "next rnd r = (v1, r1)" by (cases "next rnd r")
    obtain v2 r2 where 2: "next rnd r1 = (v2, r2)" by (cases "next rnd r1")
    from run 1 2 obtain rotationIndex variation' where
      rot: "remainder v1 (getCityBlockRotationCount utils) = Inr rotationIndex"
      and var: "cityBlockVariation v2 (getCityBlockVariations utils (blockTypeToInt block - 2))
                = Inr variation'"
      and res: "blockMifName = makeCityBlockMifName utils
                (getCityBlockCode utils (blockTypeToInt block - 2)) variation'
                (getCityBlockRotation utils rotationIndex)" "r' = r2"
      by (auto simp: cityBlockMifName_def Let_def split: sum.splits)
    from a [OF var] have "1 \<le> variation'" by simp
    with 1 2 rot var res show ?thesis by blast
  qed
  from a b c show ?thesis by blast
qed

text \<open>
  With a count of 3, of the six draws 0 .. 5 four give the variation 1, two give the
  variation 2, and none gives 3.
\<close>

theorem city_block_variation_not_uniform_counterexample:
  "map (\<lambda>v. cityBlockVariation v 3) [0, 1, 2, 3, 4, 5]
     = [Inr 1, Inr 1, Inr 2, Inr 1, Inr 1, Inr 2]
   \<and> length (filter (\<lambda>v. cityBlockVariation v 3 = Inr 1) [0, 1, 2, 3, 4, 5]) = 4
   \<and> length (filter (\<lambda>v. cityBlockVariation v 3 = Inr 2) [0, 1, 2, 3, 4, 5]) = 2
   \<and> length (filter (\<lambda>v. cityBlockVariation v 3 = Inr 3) [0, 1, 2, 3, 4, 5]) = 0"
  by code_simp

theorem city_block_variation_clamped_witness:
  "cityBlockVariation 30 15 = Inr 1 \<and> cityBlockVariation 31 15 = Inr 1
   \<and> cityBlockVariation 42 15 = Inr 12
   \<and> cityBlockMifName exampleUtils (replayRandom (\<lambda>seed. [])) BlockType.Tavern [6, 42]
       = Inr (''TVBD12C.MIF'', [])
   \<and> (\<exists>rotationIndex variation'.
         remainder 6 (getCityBlockRotationCount exampleUtils) = Inr rotationIndex
       \<and> cityBlockVariation 42 (getCityBlockVariations exampleUtils (blockTypeToInt BlockType.Tavern - 2))
           = Inr variation'
       \<and> 1 \<le> variation')"
proof -
  let ?rnd = "replayRandom (\<lambda>seed. [])"
  have v: "cityBlockVariation 30 15 = Inr 1" "cityBlockVariation 31 15 = Inr 1"
    "cityBlockVariation 42 15 = Inr 12"
    by code_simp+
  have name: "cityBlockMifName exampleUtils ?rnd BlockType.Tavern [6, 42]
       = Inr (''TVBD12C.MIF'', [])"
    by code_simp
  have n1: "next ?rnd [6, 42] = (6, [42])" and n2: "next ?rnd [42] = (42, [])"
    by (simp_all add: replayRandom_def)
  note inst = city_block_variation_clamped
    [where v = 42 and variationCount = 15 and variation = 12 and utils = exampleUtils
       and rnd = "?rnd" and block = BlockType.Tavern and r = "[6, 42]"
       and blockMifName = "''TVBD12C.MIF''" and r' = "[]"]
  from inst v(3) have "(12 :: int) \<le> 15 - 1" by simp
  from inst name n1 n2 have "\<exists>rotationIndex variation'.
         remainder 6 (getCityBlockRotationCount exampleUtils) = Inr rotationIndex
       \<and> cityBlockVariation 42 (getCityBlockVariations exampleUtils (blockTypeToInt BlockType.Tavern - 2))
           = Inr variation'
       \<and> 1 \<le> variation'"
    by auto
  with v name show ?thesis by simp
qed

section \<open>Reserved blocks of generateCity\<close>

lemma setReservedBlocks_length: "length (setReservedBlocks blocks plan) = length plan"
  by (induction blocks arbitrary: plan) auto

lemma setReservedBlocks_nth:
  "i < length plan \<Longrightarrow>
     setReservedBlocks blocks plan ! i
       = (if \<exists>block \<in> set blocks. unat block = i then Reserved else plan ! i)"
proof (induction blocks arbitrary: plan)
  case Nil
  then show ?case by simp
next
  case (Cons block blocks)
  show ?case
  proof (cases "unat block < length plan")
    case True
    then show ?thesis
      using Cons.prems Cons.IH [of "plan[unat block := Reserved]"]
      by (auto simp: nth_list_update)
  next
    case False
    then show ?thesis
      using Cons.prems Cons.IH [of plan] by auto
  qed
qed

lemma sameReserved_refl: "sameReserved plan plan"
  by (simp add: sameReserved_def)

lemma sameReserved_trans: "sameReserved a b \<Longrightarrow> sameReserved b c \<Longrightarrow> sameReserved a c"
  by (auto simp: sameReserved_def)

lemma placeBlock_result:
  assumes "placeBlock rnd citySize blockType (plan, r) = Some (Inr (plan', r'))"
  shows "\<exists>i < length plan. plan ! i = Empty \<and> plan' = plan[i := blockType]"
proof -
  have "\<forall>plan r plan' r'. st = (plan, r) \<and> y = Inr (plan', r')
          \<longrightarrow> (\<exists>i < length plan. plan ! i = Empty \<and> plan' = plan[i := blockType])"
    if "placeBlock rnd citySize blockType st = Some y" for st y
    using that
  proof (rule placeBlock.raw_induct
      [where P = "\<lambda>rnd citySize blockType st y. \<forall>plan r plan' r'. st = (plan, r) \<and> y = Inr (plan', r')
          \<longrightarrow> (\<exists>i < length plan. plan ! i = Empty \<and> plan' = plan[i := blockType])", rotated])
    fix f :: "'a ArenaRandom \<Rightarrow> int \<Rightarrow> BlockType \<Rightarrow> BlockType list \<times> 'a
                \<Rightarrow> (error + BlockType list \<times> 'a) option"
      and rnd citySize blockType st y
    assume IH: "\<And>rnd citySize blockType st y. f rnd citySize blockType st = Some y
        \<Longrightarrow> \<forall>plan r plan' r'. st = (plan, r) \<and> y = Inr (plan', r')
          \<longrightarrow> (\<exists>i < length plan. plan ! i = Empty \<and> plan' = plan[i := blockType])"
      and step: "(let (plan, r) = st; (v, r') = next rnd r in
          case remainder v citySize of
            Inl e \<Rightarrow> Some (Inl e)
          | Inr planIndex \<Rightarrow>
              (case at plan planIndex of
                 Inl e \<Rightarrow> Some (Inl e)
               | Inr b \<Rightarrow>
                   if b \<noteq> Empty then f rnd citySize blockType (plan, r')
                   else Some (Inr (plan[nat planIndex := blockType], r')))) = Some y"
    show "\<forall>plan r plan' r'. st = (plan, r) \<and> y = Inr (plan', r')
          \<longrightarrow> (\<exists>i < length plan. plan ! i = Empty \<and> plan' = plan[i := blockType])"
    proof (intro allI impI, elim conjE)
      fix plan r plan' r'
      assume st: "st = (plan, r)" and y: "y = Inr (plan', r')"
      obtain v r1 where n: "next rnd r = (v, r1)" by (cases "next rnd r")
      from step st n y obtain planIndex b where
        idx: "at plan planIndex = Inr b"
        and rest: "(if b \<noteq> Empty then f rnd citySize blockType (plan, r1)
                    else Some (Inr (plan[nat planIndex := blockType], r1))) = Some (Inr (plan', r'))"
        by (auto split: sum.splits)
      from idx have in_range: "0 \<le> planIndex" "nat planIndex < length plan"
        and b: "b = plan ! nat planIndex"
        by (auto simp: at_def split: if_splits)
      show "\<exists>i < length plan. plan ! i = Empty \<and> plan' = plan[i := blockType]"
      proof (cases "b = Empty")
        case True
        with rest b in_range show ?thesis by auto
      next
        case False
        with rest have "f rnd citySize blockType (plan, r1) = Some (Inr (plan', r'))" by simp
        from IH [OF this] show ?thesis by simp
      qed
    qed
  qed
  with assms show ?thesis by blast
qed

lemma placeBlock_sameReserved:
  assumes "placeBlock rnd citySize blockType st = Some (Inr st')" "blockType \<noteq> Reserved"
  shows "sameReserved (fst st) (fst st')"
proof -
  obtain plan r plan' r' where st: "st = (plan, r)" "st' = (plan', r')"
    by (cases st; cases st')
  from placeBlock_result [of rnd citySize blockType plan r plan' r'] assms st
  obtain i where "i < length plan" "plan ! i = Empty" "plan' = plan[i := blockType]" by auto
  with assms(2) st show ?thesis
    by (auto simp: sameReserved_def nth_list_update)
qed

lemma randomBlockType_not_Reserved: "randomBlockType v \<noteq> Reserved"
  by (simp add: randomBlockType_def Let_def)

lemma fillPlan_sameReserved:
  "fillPlan rnd citySize n st = Some (Inr st') \<Longrightarrow> sameReserved (fst st) (fst st')"
proof (induction n arbitrary: st)
  case 0
  then show ?case by (simp add: sameReserved_refl)
next
  case (Suc n)
  obtain plan r where st: "st = (plan, r)" by (cases st)
  obtain v r1 where n: "next rnd r = (v, r1)" by (cases "next rnd r")
  from Suc.prems st n obtain st1 where
    1: "placeBlock rnd citySize (randomBlockType v) (plan, r1) = Some (Inr st1)"
    and 2: "fillPlan rnd citySize n st1 = Some (Inr st')"
    by (auto split: option.splits sum.splits)
  from placeBlock_sameReserved [OF 1 randomBlockType_not_Reserved]
  have "sameReserved plan (fst st1)" by simp
  with Suc.IH [OF 2] st show ?case by (auto intro: sameReserved_trans)
qed

lemma cityPlan_sameReserved:
  assumes "cityPlan rnd cityDim reservedBlocks r = Some (Inr (plan, r'))"
  shows "sameReserved (setReservedBlocks reservedBlocks (replicate (nat (cityDim * cityDim)) Empty)) plan"
proof -
  let ?plan0 = "setReservedBlocks reservedBlocks (replicate (nat (cityDim * cityDim)) Empty)"
  from assms obtain st1 where
    1: "forEachP (placeBlock rnd (cityDim * cityDim))
          [BlockType.Equipment, MagesGuild, NobleHouse, BlockType.Temple, BlockType.Tavern, Spacer]
          (?plan0, r) = Some (Inr st1)"
    and 2: "fillPlan rnd (cityDim * cityDim) (count_list (fst st1) Empty) st1 = Some (Inr (plan, r'))"
    by (auto simp: cityPlan_def Let_def split: option.splits sum.splits)
  have "sameReserved (fst (?plan0, r)) (fst st1)"
    using 1
    by (rule forEachP_rel [where R = "\<lambda>s s'. sameReserved (fst s) (fst s')", rotated 3])
       (auto intro: placeBlock_sameReserved sameReserved_refl sameReserved_trans)
  moreover from fillPlan_sameReserved [OF 2] have "sameReserved (fst st1) plan" by simp
  ultimately show ?thesis by (auto intro: sameReserved_trans)
qed

lemma unchangedAt_refl: "unchangedAt j dst dst"
  by (simp add: unchangedAt_def)

lemma unchangedAt_trans: "unchangedAt j a b \<Longrightarrow> unchangedAt j b c \<Longrightarrow> unchangedAt j a c"
  by (simp add: unchangedAt_def)

lemma writeRow_outside:
  assumes "writeRow width srcIndex dstIndex src dst = Inr dst'"
  shows "length dst' = length dst"
    and "int j < dstIndex \<or> dstIndex + width \<le> int j \<Longrightarrow> j < length dst \<Longrightarrow> dst' ! j = dst ! j"
proof -
  define A where "A = take (nat dstIndex) dst"
  define B where "B = take (nat width) (drop (nat srcIndex) src)"
  define C where "C = drop (nat (dstIndex + width)) dst"
  from assms have c: "0 \<le> width" "0 \<le> srcIndex" "srcIndex + width \<le> int (length src)"
    "0 \<le> dstIndex" "dstIndex + width \<le> int (length dst)"
    and dst': "dst' = A @ B @ C"
    by (auto simp: writeRow_def A_def B_def C_def split: if_splits)
  have lA: "length A = nat dstIndex" using c by (simp add: A_def)
  have lB: "length B = nat width" using c by (simp add: B_def)
  have lC: "length C = length dst - nat (dstIndex + width)" by (simp add: C_def)
  show len: "length dst' = length dst"
    unfolding dst' length_append lA lB lC using c by linarith
  assume out: "int j < dstIndex \<or> dstIndex + width \<le> int j" and j: "j < length dst"
  show "dst' ! j = dst ! j"
  proof (cases "int j < dstIndex")
    case True
    then have "j < length A" using lA by simp
    then have "dst' ! j = A ! j" unfolding dst' by (simp add: nth_append)
    also have "\<dots> = dst ! j" using True unfolding A_def by simp
    finally show ?thesis .
  next
    case False
    with out have ge: "dstIndex + width \<le> int j" by simp
    then have ge': "length A + length B \<le> j" using c lA lB by linarith
    have "dst' ! j = ((A @ B) @ C) ! j" unfolding dst' by simp
    also have "\<dots> = C ! (j - length (A @ B))"
      using ge' by (subst nth_append) simp
    also have "\<dots> = dst ! (nat (dstIndex + width) + (j - length (A @ B)))"
      unfolding C_def using c by simp
    also have "nat (dstIndex + width) + (j - length (A @ B)) = j"
      using ge c lA lB by simp
    finally show ?thesis .
  qed
qed

lemma copyBlockRow_outside:
  assumes "copyBlockRow blockMif xOffset zOffset gridDepth z dst = Inr dst'"
    and "int j < xOffset + ((z + zOffset) * gridDepth)
         \<or> xOffset + ((z + zOffset) * gridDepth) + mifWidth blockMif \<le> int j"
  shows "unchangedAt j dst dst'"
proof -
  obtain f m1 m2 where dst: "dst = (f, m1, m2)" by (cases dst)
  from assms(1) dst obtain f' m1' m2' where
    w: "writeRow (mifWidth blockMif) (z * mifWidth blockMif) (xOffset + ((z + zOffset) * gridDepth))
          (mifFlor blockMif) f = Inr f'"
       "writeRow (mifWidth blockMif) (z * mifWidth blockMif) (xOffset + ((z + zOffset) * gridDepth))
          (mifMap1 blockMif) m1 = Inr m1'"
       "writeRow (mifWidth blockMif) (z * mifWidth blockMif) (xOffset + ((z + zOffset) * gridDepth))
          (mifMap2 blockMif) m2 = Inr m2'"
    and dst': "dst' = (f', m1', m2')"
    by (auto simp: copyBlockRow_def Let_def split: sum.splits)
  show ?thesis
    unfolding unchangedAt_def dst dst'
    using writeRow_outside [OF w(1)] writeRow_outside [OF w(2)] writeRow_outside [OF w(3)] assms(2)
    by simp
qed

lemma copyBlock_outside:
  assumes "copyBlock blockMif xOffset zOffset gridDepth dst = Inr dst'"
    and "\<forall>z. 0 \<le> z \<and> z < mifDepth blockMif \<longrightarrow>
           int j < xOffset + ((z + zOffset) * gridDepth)
           \<or> xOffset + ((z + zOffset) * gridDepth) + mifWidth blockMif \<le> int j"
  shows "unchangedAt j dst dst'"
  using assms(1) unfolding copyBlock_def
proof (rule forEach_rel [where R = "unchangedAt j", rotated 3])
  fix z s s'
  assume "z \<in> set [0..mifDepth blockMif - 1]"
    and "copyBlockRow blockMif xOffset zOffset gridDepth z s = Inr s'"
  then show "unchangedAt j s s'"
    using assms(2) by (intro copyBlockRow_outside) auto
qed (auto intro: unchangedAt_refl unchangedAt_trans)

lemma row_in_footprint:
  assumes "0 \<le> z" "z < d" "d \<le> 20" "w \<le> 20"
    and "fst startPosition + (xd * 20) + ((z + (snd startPosition + (yd * 20))) * gridDepth) \<le> j"
    and "j < fst startPosition + (xd * 20) + ((z + (snd startPosition + (yd * 20))) * gridDepth) + w"
  shows "j \<in> footprint startPosition gridDepth xd yd"
proof -
  let ?base = "fst startPosition + (xd * 20) + ((z + (snd startPosition + (yd * 20))) * gridDepth)"
  have "j = fst startPosition + (xd * 20) + (j - ?base)
              + ((z + (snd startPosition + (yd * 20))) * gridDepth)"
    by simp
  moreover have "0 \<le> j - ?base" "j - ?base < 20" using assms by simp_all
  ultimately show ?thesis
    unfolding footprint_def using assms(1-3) by (intro CollectI exI [of _ "j - ?base"] exI [of _ z]) simp
qed

lemma buildBlock_step:
  assumes run: "buildBlock utils rnd cityBlockMifs cityDim gridDepth startPosition block st = Inr st'"
    and small: "\<forall>name mif. cityBlockMifs name = Some mif \<longrightarrow> mifWidth mif \<le> 20 \<and> mifDepth mif \<le> 20"
    and out: "block \<noteq> Reserved \<longrightarrow> int j \<notin> footprint startPosition gridDepth (xDim st) (yDim st)"
  shows "unchangedAt j (layers st) (layers st')"
    and "xDim st' = (if xDim st + 1 = cityDim then 0 else xDim st + 1)"
    and "yDim st' = (if xDim st + 1 = cityDim then yDim st + 1 else yDim st)"
    and "block = Reserved \<longrightarrow> layers st' = layers st \<and> random st' = random st"
proof -
  have "unchangedAt j (layers st) (layers st')
      \<and> xDim st' = (if xDim st + 1 = cityDim then 0 else xDim st + 1)
      \<and> yDim st' = (if xDim st + 1 = cityDim then yDim st + 1 else yDim st)
      \<and> (block = Reserved \<longrightarrow> layers st' = layers st \<and> random st' = random st)"
  proof (cases "block = Reserved")
    case True
    with run show ?thesis
      by (auto simp: buildBlock_def Let_def unchangedAt_refl)
  next
    case False
    from run False obtain blockMifName r' blockMif dst where
      mif: "cityBlockMifs blockMifName = Some blockMif"
      and copy: "copyBlock blockMif (fst startPosition + (xDim st * 20))
                   (snd startPosition + (yDim st * 20)) gridDepth (layers st) = Inr dst"
      and st': "st' = (let st1 = st\<lparr>random := r', layers := dst\<rparr>; x = xDim st1 + 1
                       in if x = cityDim then st1\<lparr>xDim := 0, yDim := yDim st1 + 1\<rparr>
                          else st1\<lparr>xDim := x\<rparr>)"
      by (auto simp: buildBlock_def Let_def split: sum.splits option.splits)
    from small mif have wd: "mifWidth blockMif \<le> 20" "mifDepth blockMif \<le> 20" by auto
    have "unchangedAt j (layers st) dst"
      using copy
    proof (rule copyBlock_outside, intro allI impI)
      fix z
      assume z: "0 \<le> z \<and> z < mifDepth blockMif"
      show "int j < fst startPosition + xDim st * 20 + (z + (snd startPosition + yDim st * 20)) * gridDepth
            \<or> fst startPosition + xDim st * 20 + (z + (snd startPosition + yDim st * 20)) * gridDepth
                 + mifWidth blockMif \<le> int j"
      proof (rule ccontr)
        assume "\<not> ?thesis"
        then have "fst startPosition + xDim st * 20 + (z + (snd startPosition + yDim st * 20)) * gridDepth
                     \<le> int j"
          and "int j < fst startPosition + xDim st * 20
                 + (z + (snd startPosition + yDim st * 20)) * gridDepth + mifWidth blockMif"
          by simp_all
        with z wd have "int j \<in> footprint startPosition gridDepth (xDim st) (yDim st)"
          by (intro row_in_footprint [of z "mifDepth blockMif" "mifWidth blockMif"]) simp_all
        with out False show False by simp
      qed
    qed
    with st' False show ?thesis by (auto simp: Let_def)
  qed
  then show "unchangedAt j (layers st) (layers st')"
    and "xDim st' = (if xDim st + 1 = cityDim then 0 else xDim st + 1)"
    and "yDim st' = (if xDim st + 1 = cityDim then yDim st + 1 else yDim st)"
    and "block = Reserved \<longrightarrow> layers st' = layers st \<and> random st' = random st"
    by simp_all
qed

lemma counters_step:
  fixes c :: nat
  assumes "0 < c"
  shows "(if int (n mod c) + 1 = int c then 0 else int (n mod c) + 1) = int (Suc n mod c)"
    and "(if int (n mod c) + 1 = int c then int (n div c) + 1 else int (n div c)) = int (Suc n div c)"
proof -
  have eq: "(int (n mod c) + 1 = int c) = (Suc (n mod c) = c)" by linarith
  show "(if int (n mod c) + 1 = int c then 0 else int (n mod c) + 1) = int (Suc n mod c)"
    unfolding eq by (simp add: mod_Suc)
  show "(if int (n mod c) + 1 = int c then int (n div c) + 1 else int (n div c)) = int (Suc n div c)"
    unfolding eq using assms by (auto simp: div_Suc mod_Suc)
qed

lemma buildLoop_unchanged:
  assumes c: "0 < cityDim"
    and small: "\<forall>name mif. cityBlockMifs name = Some mif \<longrightarrow> mifWidth mif \<le> 20 \<and> mifDepth mif \<le> 20"
  shows "forEach (buildBlock utils rnd cityBlockMifs cityDim gridDepth startPosition) blocks st = Inr st'
    \<Longrightarrow> xDim st = int (n mod nat cityDim) \<Longrightarrow> yDim st = int (n div nat cityDim)
    \<Longrightarrow> \<forall>k < length blocks. blocks ! k \<noteq> Reserved \<longrightarrow>
          int j \<notin> footprint startPosition gridDepth (int ((n + k) mod nat cityDim))
                    (int ((n + k) div nat cityDim))
    \<Longrightarrow> unchangedAt j (layers st) (layers st')"
proof (induction blocks arbitrary: st n)
  case Nil
  then show ?case by (simp add: unchangedAt_refl)
next
  case (Cons block blocks)
  from Cons.prems(1) obtain st1 where
    1: "buildBlock utils rnd cityBlockMifs cityDim gridDepth startPosition block st = Inr st1"
    and 2: "forEach (buildBlock utils rnd cityBlockMifs cityDim gridDepth startPosition) blocks st1
              = Inr st'"
    by (auto split: sum.splits)
  have out: "block \<noteq> Reserved \<longrightarrow> int j \<notin> footprint startPosition gridDepth (xDim st) (yDim st)"
    using Cons.prems(4) [rule_format, of 0] Cons.prems(2,3) by simp
  note step = buildBlock_step [OF 1 small out]
  define cn where "cn = nat cityDim"
  have cn: "0 < cn" "cityDim = int cn" using c by (simp_all add: cn_def)
  have xs: "xDim st = int (n mod cn)" and ys: "yDim st = int (n div cn)"
    using Cons.prems(2,3) by (simp_all add: cn_def)
  have "xDim st1 = (if int (n mod cn) + 1 = int cn then 0 else int (n mod cn) + 1)"
    using step(2) unfolding xs cn(2) .
  also have "\<dots> = int (Suc n mod cn)" by (rule counters_step(1) [OF cn(1)])
  finally have x1: "xDim st1 = int (Suc n mod nat cityDim)" by (simp add: cn_def)
  have "yDim st1 = (if int (n mod cn) + 1 = int cn then int (n div cn) + 1 else int (n div cn))"
    using step(3) unfolding xs ys cn(2) .
  also have "\<dots> = int (Suc n div cn)" by (rule counters_step(2) [OF cn(1)])
  finally have y1: "yDim st1 = int (Suc n div nat cityDim)" by (simp add: cn_def)
  have rest: "\<forall>k < length blocks. blocks ! k \<noteq> Reserved \<longrightarrow>
          int j \<notin> footprint startPosition gridDepth (int ((Suc n + k) mod nat cityDim))
                    (int ((Suc n + k) div nat cityDim))"
  proof (intro allI impI)
    fix k
    assume "k < length blocks" "blocks ! k \<noteq> Reserved"
    then show "int j \<notin> footprint startPosition gridDepth (int ((Suc n + k) mod nat cityDim))
                    (int ((Suc n + k) div nat cityDim))"
      using Cons.prems(4) [rule_format, of "Suc k"] by simp
  qed
  from Cons.IH [OF 2 x1 y1 rest] step(1) show ?case by (rule unchangedAt_trans [rotated])
qed

lemma footprint_disjoint:
  assumes geo: "0 \<le> fst startPosition" "fst startPosition + (cityDim * 20) \<le> gridDepth"
    and x: "0 \<le> xd" "xd < cityDim" "0 \<le> xd'" "xd' < cityDim"
    and j: "j \<in> footprint startPosition gridDepth xd yd" "j \<in> footprint startPosition gridDepth xd' yd'"
  shows "xd = xd' \<and> yd = yd'"
proof -
  from j(1) obtain i z where a: "0 \<le> i" "i < 20" "0 \<le> z" "z < 20"
    "j = fst startPosition + (xd * 20) + i + ((z + (snd startPosition + (yd * 20))) * gridDepth)"
    by (auto simp: footprint_def)
  from j(2) obtain i' z' where b: "0 \<le> i'" "i' < 20" "0 \<le> z'" "z' < 20"
    "j = fst startPosition + (xd' * 20) + i' + ((z' + (snd startPosition + (yd' * 20))) * gridDepth)"
    by (auto simp: footprint_def)
  have "fst startPosition + (xd * 20) + i < gridDepth" "0 \<le> fst startPosition + (xd * 20) + i"
    "fst startPosition + (xd' * 20) + i' < gridDepth" "0 \<le> fst startPosition + (xd' * 20) + i'"
    using geo x a b by auto
  from index_inj [OF this(2,1,4,3), of "z + (snd startPosition + (yd * 20))"
      "z' + (snd startPosition + (yd' * 20))"] a(5) b(5)
  have "z + (snd startPosition + (yd * 20)) = z' + (snd startPosition + (yd' * 20))"
    "fst startPosition + (xd * 20) + i = fst startPosition + (xd' * 20) + i'"
    by auto
  with a b show ?thesis by auto
qed

lemma forEach_returns:
  assumes step: "\<And>i s. i \<in> set xs \<Longrightarrow> I s \<Longrightarrow> \<exists>s'. body i s = Inr s' \<and> I s'"
    and init: "I s"
  shows "\<exists>s'. forEach body xs s = Inr s' \<and> I s'"
  using assms
proof (induction xs arbitrary: s)
  case Nil
  then show ?case by simp
next
  case (Cons i xs)
  from Cons.prems(1) [of i s] Cons.prems(2) obtain s1 where 1: "body i s = Inr s1" "I s1"
    by auto
  from Cons.IH [of s1] Cons.prems(1) 1(2) obtain s' where "forEach body xs s1 = Inr s'" "I s'"
    by auto
  with 1 show ?case by simp
qed

lemma writeRow_returns:
  assumes "0 \<le> width" "0 \<le> srcIndex" "srcIndex + width \<le> int (length src)"
    "0 \<le> dstIndex" "dstIndex + width \<le> int (length dst)"
  shows "\<exists>dst'. writeRow width srcIndex dstIndex src dst = Inr dst' \<and> length dst' = length dst"
proof -
  from assms obtain dst' where w: "writeRow width srcIndex dstIndex src dst = Inr dst'"
    by (simp add: writeRow_def)
  with writeRow_outside(1) [OF w] show ?thesis by simp
qed

lemma copyBlockRow_returns:
  assumes mif: "wellFormedMif blockMif"
    and z: "0 \<le> z" "z < mifDepth blockMif"
    and lo: "0 \<le> xOffset + ((z + zOffset) * gridDepth)"
    and hi: "xOffset + ((z + zOffset) * gridDepth) + mifWidth blockMif \<le> n"
    and size: "layersOfSize n dst"
  shows "\<exists>dst'. copyBlockRow blockMif xOffset zOffset gridDepth z dst = Inr dst' \<and> layersOfSize n dst'"
proof -
  obtain f m1 m2 where dst: "dst = (f, m1, m2)" by (cases dst)
  let ?w = "mifWidth blockMif"
  have "z * ?w + ?w = (z + 1) * ?w" by (simp add: algebra_simps)
  also have "\<dots> \<le> mifDepth blockMif * ?w"
    using z mif by (intro mult_right_mono) (auto simp: wellFormedMif_def)
  finally have src: "z * ?w + ?w \<le> ?w * mifDepth blockMif" by (simp add: mult.commute)
  have s0: "0 \<le> z * ?w" using z mif by (simp add: wellFormedMif_def)
  have w0: "0 \<le> ?w" using mif by (simp add: wellFormedMif_def)
  from size dst hi have sz: "xOffset + ((z + zOffset) * gridDepth) + ?w \<le> int (length f)"
    "xOffset + ((z + zOffset) * gridDepth) + ?w \<le> int (length m1)"
    "xOffset + ((z + zOffset) * gridDepth) + ?w \<le> int (length m2)"
    by (auto simp: layersOfSize_def)
  from mif src have srcs: "z * ?w + ?w \<le> int (length (mifFlor blockMif))"
    "z * ?w + ?w \<le> int (length (mifMap1 blockMif))"
    "z * ?w + ?w \<le> int (length (mifMap2 blockMif))"
    by (auto simp: wellFormedMif_def)
  from writeRow_returns [OF w0 s0 srcs(1) lo sz(1)] obtain f' where
    1: "writeRow ?w (z * ?w) (xOffset + ((z + zOffset) * gridDepth)) (mifFlor blockMif) f = Inr f'"
       "length f' = length f" by blast
  from writeRow_returns [OF w0 s0 srcs(2) lo sz(2)] obtain m1' where
    2: "writeRow ?w (z * ?w) (xOffset + ((z + zOffset) * gridDepth)) (mifMap1 blockMif) m1 = Inr m1'"
       "length m1' = length m1" by blast
  from writeRow_returns [OF w0 s0 srcs(3) lo sz(3)] obtain m2' where
    3: "writeRow ?w (z * ?w) (xOffset + ((z + zOffset) * gridDepth)) (mifMap2 blockMif) m2 = Inr m2'"
       "length m2' = length m2" by blast
  show ?thesis
    using 1 2 3 size dst by (simp add: copyBlockRow_def Let_def layersOfSize_def)
qed

lemma copyBlock_returns:
  assumes mif: "wellFormedMif blockMif"
    and geo: "0 < gridDepth" "0 \<le> xOffset" "0 \<le> zOffset" "xOffset + 20 \<le> gridDepth"
    and hi: "(zOffset + 20) * gridDepth \<le> n"
    and size: "layersOfSize n dst"
  shows "\<exists>dst'. copyBlock blockMif xOffset zOffset gridDepth dst = Inr dst' \<and> layersOfSize n dst'"
  unfolding copyBlock_def
proof (rule forEach_returns [where I = "layersOfSize n"])
  fix z s
  assume z: "z \<in> set [0..mifDepth blockMif - 1]" and s: "layersOfSize n s"
  then have z': "0 \<le> z" "z < mifDepth blockMif" by auto
  have d: "mifDepth blockMif \<le> 20" "mifWidth blockMif \<le> 20" using mif by (auto simp: wellFormedMif_def)
  have lo: "0 \<le> xOffset + ((z + zOffset) * gridDepth)" using geo z' by simp
  have "xOffset + ((z + zOffset) * gridDepth) + mifWidth blockMif
          \<le> gridDepth + (z + zOffset) * gridDepth"
    using geo d by simp
  also have "\<dots> = (z + zOffset + 1) * gridDepth" by (simp add: algebra_simps)
  also have "\<dots> \<le> (zOffset + 20) * gridDepth"
    using z' d geo by (intro mult_right_mono) auto
  finally have hi': "xOffset + ((z + zOffset) * gridDepth) + mifWidth blockMif \<le> n"
    using hi by simp
  show "\<exists>s'. copyBlockRow blockMif xOffset zOffset gridDepth z s = Inr s' \<and> layersOfSize n s'"
    using mif z' lo hi' s by (rule copyBlockRow_returns)
qed (rule size)

lemma buildBlock_counters:
  assumes run: "buildBlock utils rnd cityBlockMifs cityDim gridDepth startPosition block st = Inr st'"
  shows "xDim st' = (if xDim st + 1 = cityDim then 0 else xDim st + 1)"
    and "yDim st' = (if xDim st + 1 = cityDim then yDim st + 1 else yDim st)"
proof -
  from run obtain st1 where
    st1: "xDim st1 = xDim st" "yDim st1 = yDim st"
    and st': "st' = (if xDim st1 + 1 = cityDim then st1\<lparr>xDim := 0, yDim := yDim st1 + 1\<rparr>
                     else st1\<lparr>xDim := xDim st1 + 1\<rparr>)"
  proof (cases "block = Reserved")
    case True
    with run that [of st] show ?thesis by (simp add: buildBlock_def Let_def)
  next
    case False
    from run False obtain r' dst where
      "st' = (let st1 = st\<lparr>random := r', layers := dst\<rparr>; x = xDim st1 + 1
              in if x = cityDim then st1\<lparr>xDim := 0, yDim := yDim st1 + 1\<rparr>
                 else st1\<lparr>xDim := x\<rparr>)"
      by (auto simp: buildBlock_def Let_def split: sum.splits option.splits)
    with that [of "st\<lparr>random := r', layers := dst\<rparr>"] show ?thesis by (simp add: Let_def)
  qed
  from st' st1 show "xDim st' = (if xDim st + 1 = cityDim then 0 else xDim st + 1)"
    and "yDim st' = (if xDim st + 1 = cityDim then yDim st + 1 else yDim st)"
    by simp_all
qed

lemma cityBlockMifName_returns:
  assumes "getCityBlockRotationCount utils \<noteq> 0"
    and "getCityBlockVariations utils (blockTypeToInt block - 2) \<noteq> 0"
  shows "\<exists>name r'. cityBlockMifName utils rnd block r = Inr (name, r')"
proof -
  obtain v1 r1 where 1: "next rnd r = (v1, r1)" by (cases "next rnd r")
  obtain v2 r2 where 2: "next rnd r1 = (v2, r2)" by (cases "next rnd r1")
  show ?thesis
    using assms 1 2
    by (simp add: cityBlockMifName_def Let_def remainder_def cityBlockVariation_def)
qed

lemma buildBlock_returns:
  assumes utils: "getCityBlockRotationCount utils \<noteq> 0"
      "block \<noteq> Reserved \<longrightarrow> getCityBlockVariations utils (blockTypeToInt block - 2) \<noteq> 0"
    and mifs: "\<forall>name. \<exists>mif. cityBlockMifs name = Some mif \<and> wellFormedMif mif"
    and geo: "0 < gridDepth" "0 \<le> fst startPosition" "0 \<le> snd startPosition"
      "0 \<le> xDim st" "0 \<le> yDim st"
      "fst startPosition + (xDim st * 20) + 20 \<le> gridDepth"
      "(snd startPosition + (yDim st * 20) + 20) * gridDepth \<le> n"
    and size: "layersOfSize n (layers st)"
  shows "\<exists>st'. buildBlock utils rnd cityBlockMifs cityDim gridDepth startPosition block st = Inr st'
           \<and> layersOfSize n (layers st')"
proof (cases "block = Reserved")
  case True
  with size show ?thesis by (simp add: buildBlock_def Let_def)
next
  case False
  with utils obtain name r' where
    name: "cityBlockMifName utils rnd block (random st) = Inr (name, r')"
    using cityBlockMifName_returns [of utils block rnd "random st"] by auto
  from mifs obtain mif where mif: "cityBlockMifs name = Some mif" "wellFormedMif mif" by blast
  have "\<exists>dst'. copyBlock mif (fst startPosition + (xDim st * 20))
          (snd startPosition + (yDim st * 20)) gridDepth (layers st) = Inr dst'
          \<and> layersOfSize n dst'"
    using mif(2) geo size by (intro copyBlock_returns) auto
  then obtain dst' where copy: "copyBlock mif (fst startPosition + (xDim st * 20))
          (snd startPosition + (yDim st * 20)) gridDepth (layers st) = Inr dst'"
    and size': "layersOfSize n dst'" by blast
  show ?thesis
    using False name mif(1) copy size' by (simp add: buildBlock_def Let_def)
qed

lemma buildLoop_returns:
  assumes c: "0 < cityDim"
    and utils: "getCityBlockRotationCount utils \<noteq> 0"
    and mifs: "\<forall>name. \<exists>mif. cityBlockMifs name = Some mif \<and> wellFormedMif mif"
    and geo: "0 \<le> fst startPosition" "0 \<le> snd startPosition"
      "fst startPosition + (cityDim * 20) \<le> gridDepth"
  shows "\<forall>block \<in> set blocks. block \<noteq> Reserved
            \<longrightarrow> getCityBlockVariations utils (blockTypeToInt block - 2) \<noteq> 0
    \<Longrightarrow> xDim st = int (n mod nat cityDim) \<Longrightarrow> yDim st = int (n div nat cityDim)
    \<Longrightarrow> n + length blocks \<le> nat cityDim * nat cityDim
    \<Longrightarrow> layersOfSize ((snd startPosition + (cityDim * 20)) * gridDepth) (layers st)
    \<Longrightarrow> \<exists>st'. forEach (buildBlock utils rnd cityBlockMifs cityDim gridDepth startPosition) blocks st
                 = Inr st'"
proof (induction blocks arbitrary: st n)
  case Nil
  then show ?case by simp
next
  case (Cons block blocks)
  define cn where "cn = nat cityDim"
  have cn: "0 < cn" "cityDim = int cn" using c by (simp_all add: cn_def)
  have xs: "xDim st = int (n mod cn)" and ys: "yDim st = int (n div cn)"
    using Cons.prems(2,3) by (simp_all add: cn_def)
  have gd: "0 < gridDepth" using geo c by simp
  have "n < cn * cn" using Cons.prems(4) by (simp add: cn_def)
  then have "n div cn < cn" using cn(1) by (simp add: less_mult_imp_div_less)
  then have y: "yDim st + 1 \<le> cityDim" unfolding ys cn(2) by simp
  have "n mod cn < cn" using cn(1) by simp
  then have x: "xDim st + 1 \<le> cityDim" unfolding xs cn(2) by simp
  have gx: "fst startPosition + (xDim st * 20) + 20 \<le> gridDepth"
    using geo(3) x by simp
  have "snd startPosition + (yDim st * 20) + 20 \<le> snd startPosition + (cityDim * 20)"
    using y by simp
  then have gy: "(snd startPosition + (yDim st * 20) + 20) * gridDepth
                   \<le> (snd startPosition + (cityDim * 20)) * gridDepth"
    using gd by (intro mult_right_mono) simp_all
  have x0: "0 \<le> xDim st" "0 \<le> yDim st" using xs ys by simp_all
  from buildBlock_returns [OF utils _ mifs gd geo(1,2) x0 gx gy Cons.prems(5), of block rnd cityDim]
    Cons.prems(1)
  obtain st1 where
    1: "buildBlock utils rnd cityBlockMifs cityDim gridDepth startPosition block st = Inr st1"
    and size1: "layersOfSize ((snd startPosition + (cityDim * 20)) * gridDepth) (layers st1)"
    by auto
  note step2 = buildBlock_counters(1) [OF 1] and step3 = buildBlock_counters(2) [OF 1]
  have "xDim st1 = (if int (n mod cn) + 1 = int cn then 0 else int (n mod cn) + 1)"
    using step2 unfolding xs cn(2) .
  also have "\<dots> = int (Suc n mod cn)" by (rule counters_step(1) [OF cn(1)])
  finally have x1: "xDim st1 = int (Suc n mod nat cityDim)" by (simp add: cn_def)
  have "yDim st1 = (if int (n mod cn) + 1 = int cn then int (n div cn) + 1 else int (n div cn))"
    using step3 unfolding xs ys cn(2) .
  also have "\<dots> = int (Suc n div cn)" by (rule counters_step(2) [OF cn(1)])
  finally have y1: "yDim st1 = int (Suc n div nat cityDim)" by (simp add: cn_def)
  have v: "\<forall>block \<in> set blocks. block \<noteq> Reserved
            \<longrightarrow> getCityBlockVariations utils (blockTypeToInt block - 2) \<noteq> 0"
    using Cons.prems(1) by simp
  have n: "Suc n + length blocks \<le> nat cityDim * nat cityDim" using Cons.prems(4) by simp
  from Cons.IH [OF v x1 y1 n size1] 1 show ?case by simp
qed

lemma generateCity_reserved_untouched:
  assumes run: "generateCity utils rnd cityBlockMifs citySeed cityDim gridDepth reservedBlocks
                  startPosition r dst = Some (Inr (plan', r', dst'))"
    and c: "0 < cityDim"
    and small: "\<forall>name mif. cityBlockMifs name = Some mif \<longrightarrow> mifWidth mif \<le> 20 \<and> mifDepth mif \<le> 20"
    and geo: "0 \<le> fst startPosition" "fst startPosition + (cityDim * 20) \<le> gridDepth"
    and res: "reserved \<in> set reservedBlocks" "unat reserved < nat (cityDim * cityDim)"
    and j: "int j \<in> footprint startPosition gridDepth (int (unat reserved mod nat cityDim))
                      (int (unat reserved div nat cityDim))"
  shows "plan' ! unat reserved = Reserved \<and> unchangedAt j dst dst'"
proof -
  from run obtain r1 st where
    plan: "cityPlan rnd cityDim reservedBlocks r = Some (Inr (plan', r1))"
    and loop: "forEach (buildBlock utils rnd cityBlockMifs cityDim gridDepth startPosition) plan'
                 \<lparr>xDim = 0, yDim = 0, random = r1, layers = dst\<rparr> = Inr st"
    and dst': "dst' = layers st"
    by (auto simp: generateCity_def split: option.splits sum.splits)
  let ?plan0 = "setReservedBlocks reservedBlocks (replicate (nat (cityDim * cityDim)) Empty)"
  from cityPlan_sameReserved [OF plan] have same: "sameReserved ?plan0 plan'" .
  have len0: "length ?plan0 = nat (cityDim * cityDim)" by (simp add: setReservedBlocks_length)
  have "?plan0 ! unat reserved = Reserved"
    using res by (subst setReservedBlocks_nth) auto
  with same res len0 have marked: "plan' ! unat reserved = Reserved"
    by (simp add: sameReserved_def)
  define cn where "cn = nat cityDim"
  have cn: "0 < cn" "cityDim = int cn" using c by (simp_all add: cn_def)
  have out: "\<forall>k < length plan'. plan' ! k \<noteq> Reserved \<longrightarrow>
          int j \<notin> footprint startPosition gridDepth (int ((0 + k) mod nat cityDim))
                    (int ((0 + k) div nat cityDim))"
  proof (intro allI impI notI)
    fix k
    assume k: "k < length plan'" "plan' ! k \<noteq> Reserved"
      and jk: "int j \<in> footprint startPosition gridDepth (int ((0 + k) mod nat cityDim))
                    (int ((0 + k) div nat cityDim))"
    have b: "0 \<le> int (unat reserved mod cn)" "int (unat reserved mod cn) < cityDim"
      "0 \<le> int (k mod cn)" "int (k mod cn) < cityDim"
      using cn by simp_all
    have j1: "int j \<in> footprint startPosition gridDepth (int (unat reserved mod cn))
                      (int (unat reserved div cn))"
      using j by (simp add: cn_def)
    have j2: "int j \<in> footprint startPosition gridDepth (int (k mod cn)) (int (k div cn))"
      using jk by (simp add: cn_def)
    have "int (unat reserved mod cn) = int (k mod cn) \<and> int (unat reserved div cn) = int (k div cn)"
      using geo b j1 j2 by (rule footprint_disjoint)
    then have "unat reserved mod cn = k mod cn" "unat reserved div cn = k div cn" by simp_all
    then have "unat reserved = k" by (metis div_mult_mod_eq)
    with marked k show False by simp
  qed
  have "unchangedAt j (layers \<lparr>xDim = 0, yDim = 0, random = r1, layers = dst\<rparr>) (layers st)"
    using c small loop _ _ out by (rule buildLoop_unchanged) simp_all
  with marked dst' show ?thesis by simp
qed

text \<open>
  C8. The loop over the reserved-block list cannot fail: it keeps the length of the plan,
  marks the cell of every entry that is inside the plan and leaves the plan as it is for
  an entry outside (its index at least the size of the plan). In the plan that
  \<open>generateCity\<close> builds, the reserved cells are those of the list: \<open>placeBlock\<close> only fills
  empty cells. The loop body does nothing for a reserved cell but advance its counters, no
  draw and no copy; and when the templates are at most 20 by 20 and the blocks fit in a
  row of the grid, every voxel of the three layers in the 20 by 20 area of a reserved cell
  is after \<open>generateCity\<close> what it was before.
\<close>

theorem reserved_blocks_marked_never_stamped:
  "length (setReservedBlocks blocks plan0) = length plan0
   \<and> (\<forall>i < length plan0. setReservedBlocks blocks plan0 ! i
          = (if \<exists>block \<in> set blocks. unat block = i then Reserved else plan0 ! i))
   \<and> (length plan0 \<le> unat block
        \<longrightarrow> setReservedBlocks (block # blocks) plan0 = setReservedBlocks blocks plan0)
   \<and> (cityPlan rnd cityDim reservedBlocks r = Some (Inr (plan, r1))
        \<longrightarrow> length plan = nat (cityDim * cityDim)
            \<and> (\<forall>i < length plan. (plan ! i = Reserved) = (\<exists>block \<in> set reservedBlocks. unat block = i)))
   \<and> (\<exists>st'. buildBlock utils rnd cityBlockMifs cityDim gridDepth startPosition Reserved st = Inr st'
          \<and> layers st' = layers st \<and> random st' = random st)
   \<and> (generateCity utils rnd cityBlockMifs citySeed cityDim gridDepth reservedBlocks startPosition
          r dst = Some (Inr (plan', r', dst'))
        \<and> 0 < cityDim
        \<and> (\<forall>name mif. cityBlockMifs name = Some mif \<longrightarrow> mifWidth mif \<le> 20 \<and> mifDepth mif \<le> 20)
        \<and> 0 \<le> fst startPosition \<and> fst startPosition + (cityDim * 20) \<le> gridDepth
        \<and> reserved \<in> set reservedBlocks \<and> unat reserved < nat (cityDim * cityDim)
        \<and> int j \<in> footprint startPosition gridDepth (int (unat reserved mod nat cityDim))
                      (int (unat reserved div nat cityDim))
        \<longrightarrow> plan' ! unat reserved = Reserved \<and> unchangedAt j dst dst')"
proof -
  have 1: "length (setReservedBlocks blocks plan0) = length plan0"
    by (rule setReservedBlocks_length)
  have 2: "\<forall>i < length plan0. setReservedBlocks blocks plan0 ! i
          = (if \<exists>block \<in> set blocks. unat block = i then Reserved else plan0 ! i)"
    by (simp add: setReservedBlocks_nth)
  have 3: "length plan0 \<le> unat block
        \<longrightarrow> setReservedBlocks (block # blocks) plan0 = setReservedBlocks blocks plan0"
    by simp
  have 4: "length plan = nat (cityDim * cityDim)
            \<and> (\<forall>i < length plan. (plan ! i = Reserved) = (\<exists>block \<in> set reservedBlocks. unat block = i))"
    if run: "cityPlan rnd cityDim reservedBlocks r = Some (Inr (plan, r1))"
  proof -
    let ?plan0 = "setReservedBlocks reservedBlocks (replicate (nat (cityDim * cityDim)) Empty)"
    from cityPlan_sameReserved [OF run] have same: "sameReserved ?plan0 plan" .
    have len0: "length ?plan0 = nat (cityDim * cityDim)" by (simp add: setReservedBlocks_length)
    have "(?plan0 ! i = Reserved) = (\<exists>block \<in> set reservedBlocks. unat block = i)"
      if "i < nat (cityDim * cityDim)" for i
      using that by (subst setReservedBlocks_nth) auto
    with same len0 show ?thesis by (auto simp: sameReserved_def)
  qed
  have 5: "\<exists>st'. buildBlock utils rnd cityBlockMifs cityDim gridDepth startPosition Reserved st = Inr st'
          \<and> layers st' = layers st \<and> random st' = random st"
    by (simp add: buildBlock_def Let_def)
  from 1 2 3 4 5 generateCity_reserved_untouched [of utils rnd cityBlockMifs citySeed cityDim
      gridDepth reservedBlocks startPosition r dst plan' r' dst' reserved j]
  show ?thesis by blast
qed

theorem reserved_blocks_marked_never_stamped_witness:
  "setReservedBlocks [4, 200] (replicate 9 Empty)
     = [Empty, Empty, Empty, Empty, Reserved, Empty, Empty, Empty, Empty]
   \<and> cityPlan (replayRandom (\<lambda>seed. [])) 3 [4, 200] cityScript
       = Some (Inr ([BlockType.Equipment, MagesGuild, NobleHouse, BlockType.Temple, Reserved,
                     BlockType.Tavern, Spacer, Houses, BlockType.Tavern], []))
   \<and> (\<exists>plan' r' dst'.
         generateCity exampleUtils (replayRandom (\<lambda>seed. [])) (\<lambda>name. Some tinyMif) 0x12345678
           3 60 [4, 200] (0, 0) cityScript cityLayers = Some (Inr (plan', r', dst'))
       \<and> plan' ! 4 = Reserved \<and> unchangedAt 1220 cityLayers dst'
       \<and> fst dst' ! 1220 = 0)"
proof -
  let ?rnd = "replayRandom (\<lambda>seed. [])"
  let ?plan = "[BlockType.Equipment, MagesGuild, NobleHouse, BlockType.Temple, Reserved,
                BlockType.Tavern, Spacer, Houses, BlockType.Tavern]"
  have marked: "setReservedBlocks [4, 200] (replicate 9 Empty)
     = [Empty, Empty, Empty, Empty, Reserved, Empty, Empty, Empty, Empty]"
    by code_simp
  have plan: "cityPlan ?rnd 3 [4, 200] cityScript = Some (Inr (?plan, []))"
    by code_simp
  have "\<exists>st'. forEach (buildBlock exampleUtils ?rnd (\<lambda>name. Some tinyMif) 3 60 (0, 0)) ?plan
          \<lparr>xDim = 0, yDim = 0, random = [], layers = cityLayers\<rparr> = Inr st'"
  proof (rule buildLoop_returns [where n = 0])
    show "\<forall>block \<in> set ?plan. block \<noteq> Reserved
            \<longrightarrow> getCityBlockVariations exampleUtils (blockTypeToInt block - 2) \<noteq> 0"
      by (simp add: exampleUtils_def)
    show "\<forall>name. \<exists>mif. (\<lambda>name. Some tinyMif) name = Some mif \<and> wellFormedMif mif"
      by (simp add: wellFormedMif_def tinyMif_def)
    show "layersOfSize ((snd (0 :: int, 0 :: int) + (3 * 20)) * 60)
            (layers \<lparr>xDim = 0, yDim = 0, random = [] :: int list, layers = cityLayers\<rparr>)"
      by (simp add: layersOfSize_def cityLayers_def)
  qed (simp_all add: exampleUtils_def)
  then obtain st' where loop: "forEach (buildBlock exampleUtils ?rnd (\<lambda>name. Some tinyMif) 3 60 (0, 0))
          ?plan \<lparr>xDim = 0, yDim = 0, random = [], layers = cityLayers\<rparr> = Inr st'" ..
  have run: "generateCity exampleUtils ?rnd (\<lambda>name. Some tinyMif) 0x12345678 3 60 [4, 200] (0, 0)
               cityScript cityLayers = Some (Inr (?plan, random st', layers st'))"
    by (simp add: generateCity_def plan loop del: forEach.simps)
  have foot: "int 1220 \<in> footprint (0, 0) 60 (int (unat (4 :: 8 word) mod nat 3))
                (int (unat (4 :: 8 word) div nat 3))"
    unfolding footprint_def by (intro CollectI exI [of _ 0]) simp
  from reserved_blocks_marked_never_stamped
    [where utils = exampleUtils and rnd = "?rnd" and cityBlockMifs = "\<lambda>name. Some tinyMif"
       and citySeed = "0x12345678" and cityDim = 3 and gridDepth = 60
       and reservedBlocks = "[4, 200]" and startPosition = "(0, 0)" and r = cityScript
       and dst = cityLayers and plan' = "?plan" and r' = "random st'" and dst' = "layers st'"
       and reserved = 4 and j = 1220]
    run foot
  have res: "?plan ! unat (4 :: 8 word) = Reserved \<and> unchangedAt 1220 cityLayers (layers st')"
    by (simp add: tinyMif_def)
  then have "fst (layers st') ! 1220 = 0"
    by (simp add: unchangedAt_def cityLayers_def)
  with res run marked plan show ?thesis by auto
qed

section \<open>Properties of the voxel data mappings\<close>

lemma find_snoc:
  "find P (xs @ [x]) = (case find P xs of Some y \<Rightarrow> Some y | None \<Rightarrow> if P x then Some x else None)"
  by (induction xs) auto

lemma cachedIndex_cases:
  "(\<And>k. P (FloorKey k)) \<Longrightarrow> (\<And>k f. P (ChasmKey k f)) \<Longrightarrow> (\<And>k. P (WallKey k))
     \<Longrightarrow> (\<And>k. P (Map2Key k)) \<Longrightarrow> P key"
  by (cases key) auto

lemma getFlorDataIndex_insert:
  "getFlorDataIndex florVoxel floorTextureID s = (index, s')
     \<Longrightarrow> insertIfAbsent (FloorKey florVoxel) (Floor floorTextureID) s index s'"
proof (cases "find (\<lambda>pair. fst pair = florVoxel) (floorDataMappings s)")
  case None
  assume "getFlorDataIndex florVoxel floorTextureID s = (index, s')"
  with None have s': "s' = s\<lparr>voxelData := voxelData s @ [Floor floorTextureID],
                        floorDataMappings := floorDataMappings s @ [(florVoxel, index)]\<rparr>"
    and i: "index = int (length (voxelData s))"
    by (auto simp: getFlorDataIndex_def addVoxelData_def)
  have "cachedIndex s' key = ((cachedIndex s)(FloorKey florVoxel \<mapsto> index)) key" for key
    using None by (cases key) (auto simp: s' find_snoc findWallMapping_def split: option.splits)
  then show ?thesis
    using None i by (auto simp: insertIfAbsent_def s')
next
  case (Some pair)
  assume "getFlorDataIndex florVoxel floorTextureID s = (index, s')"
  with Some show ?thesis by (auto simp: getFlorDataIndex_def insertIfAbsent_def)
qed

lemma getMap2DataIndex_insert:
  "getMap2DataIndex map2Voxel s = (index, s')
     \<Longrightarrow> insertIfAbsent (Map2Key map2Voxel)
           (Wall (uint (map2Voxel AND 0x007F) - 1) (uint (map2Voxel AND 0x007F) - 1)
              (uint (map2Voxel AND 0x007F) - 1) None Solid) s index s'"
proof (cases "find (\<lambda>pair. fst pair = map2Voxel) (map2DataMappings s)")
  case None
  let ?d = "Wall (uint (map2Voxel AND 0x007F) - 1) (uint (map2Voxel AND 0x007F) - 1)
              (uint (map2Voxel AND 0x007F) - 1) None Solid"
  assume "getMap2DataIndex map2Voxel s = (index, s')"
  with None have s': "s' = s\<lparr>voxelData := voxelData s @ [?d],
                        map2DataMappings := map2DataMappings s @ [(map2Voxel, index)]\<rparr>"
    and i: "index = int (length (voxelData s))"
    by (auto simp: getMap2DataIndex_def addVoxelData_def Let_def)
  have "cachedIndex s' key = ((cachedIndex s)(Map2Key map2Voxel \<mapsto> index)) key" for key
    using None by (cases key) (auto simp: s' find_snoc findWallMapping_def split: option.splits)
  then show ?thesis
    using None i by (auto simp: insertIfAbsent_def s')
next
  case (Some pair)
  assume "getMap2DataIndex map2Voxel s = (index, s')"
  with Some show ?thesis by (auto simp: getMap2DataIndex_def insertIfAbsent_def)
qed

lemma getChasmDataIndex_insert:
  "getChasmDataIndex florVoxel chasmFunc env adjacentFaces s = (index, s')
     \<Longrightarrow> insertIfAbsent (ChasmKey florVoxel adjacentFaces) (chasmFunc (inf env) adjacentFaces)
           s index s'"
proof (cases "find (\<lambda>tuple. fst tuple = florVoxel \<and> fst (snd tuple) = adjacentFaces)
                (chasmDataMappings s)")
  case None
  assume "getChasmDataIndex florVoxel chasmFunc env adjacentFaces s = (index, s')"
  with None have s': "s' = s\<lparr>voxelData := voxelData s @ [chasmFunc (inf env) adjacentFaces],
                        chasmDataMappings := chasmDataMappings s @ [(florVoxel, adjacentFaces, index)]\<rparr>"
    and i: "index = int (length (voxelData s))"
    by (auto simp: getChasmDataIndex_def addVoxelData_def)
  have "cachedIndex s' key = ((cachedIndex s)(ChasmKey florVoxel adjacentFaces \<mapsto> index)) key" for key
    using None by (cases key) (auto simp: s' find_snoc findWallMapping_def split: option.splits)
  then show ?thesis
    using None i by (auto simp: insertIfAbsent_def s')
next
  case (Some tuple)
  assume "getChasmDataIndex florVoxel chasmFunc env adjacentFaces s = (index, s')"
  with Some show ?thesis by (auto simp: getChasmDataIndex_def insertIfAbsent_def)
qed

lemma wall_insert:
  assumes "findWallMapping map1Voxel s = None"
    and "s' = s\<lparr>voxelData := voxelData s @ [d],
                 wallDataMappings := wallDataMappings s @ [(map1Voxel, int (length (voxelData s)))]\<rparr>"
    and "index = int (length (voxelData s))"
  shows "insertIfAbsent (WallKey map1Voxel) d s index s'"
proof -
  have "cachedIndex s' key = ((cachedIndex s)(WallKey map1Voxel \<mapsto> index)) key" for key
    using assms by (cases key) (auto simp: find_snoc findWallMapping_def split: option.splits)
  then show ?thesis
    using assms by (auto simp: insertIfAbsent_def)
qed

lemma wall_hit:
  "findWallMapping map1Voxel s = Some wallIter \<Longrightarrow>
     insertIfAbsent (WallKey map1Voxel) d s (snd wallIter) s"
  by (simp add: insertIfAbsent_def)

lemma getWallDataIndex_insert:
  "getWallDataIndex env map1Voxel mostSigByte s = (index, s')
     \<Longrightarrow> insertIfAbsent (WallKey map1Voxel) (makeWallVoxelData (inf env) mostSigByte) s index s'"
  by (cases "findWallMapping map1Voxel s")
     (auto simp: getWallDataIndex_def addVoxelData_def intro!: wall_insert wall_hit)

lemma getRaisedDataIndex_insert:
  "getRaisedDataIndex env map1Voxel mostSigByte s = (index, s')
     \<Longrightarrow> insertIfAbsent (WallKey map1Voxel) (makeRaisedVoxelData env map1Voxel mostSigByte) s index s'"
  by (cases "findWallMapping map1Voxel s")
     (auto simp: getRaisedDataIndex_def addVoxelData_def intro!: wall_insert wall_hit)

lemma getTypeADataIndex_insert:
  "getTypeADataIndex env worldType map1Voxel textureIndex s = (index, s')
     \<Longrightarrow> insertIfAbsent (WallKey map1Voxel)
           (makeTypeAVoxelData env worldType map1Voxel textureIndex) s index s'"
  by (cases "findWallMapping map1Voxel s")
     (auto simp: getTypeADataIndex_def addVoxelData_def intro!: wall_insert wall_hit)

lemma getDataIndex_insert:
  "getDataIndex map1Voxel func s = Inr (index, s') \<Longrightarrow> func map1Voxel = Inr d
     \<Longrightarrow> insertIfAbsent (WallKey map1Voxel) d s index s'"
  by (cases "findWallMapping map1Voxel s")
     (auto simp: getDataIndex_def addVoxelData_def intro!: wall_insert wall_hit)

lemma insertIfAbsent_hit_def:
  assumes "cachesValid env worldType s" "insertIfAbsent key d s index s'"
    and "cachedIndex s key \<noteq> None"
  shows "keyDef env worldType key \<noteq> None"
  using assms by (auto simp: cachesValid_def)

lemma chasm_step:
  assumes "isChasm env (getFloorTextureID florVoxel)"
    and "chasmDataIndex env florVoxel adjacentFaces s = (r, s')"
  shows "\<exists>index d. r = Some index \<and> keyDef env worldType (ChasmKey florVoxel adjacentFaces) = Some d
           \<and> insertIfAbsent (ChasmKey florVoxel adjacentFaces) d s index s'"
proof -
  consider (dry) "getFloorTextureID florVoxel = DRY_CHASM env"
    | (lava) "getFloorTextureID florVoxel \<noteq> DRY_CHASM env"
        "getFloorTextureID florVoxel = LAVA_CHASM env"
    | (wet) "getFloorTextureID florVoxel \<noteq> DRY_CHASM env"
        "getFloorTextureID florVoxel \<noteq> LAVA_CHASM env"
        "getFloorTextureID florVoxel = WET_CHASM env"
    using assms(1) unfolding isChasm_def by blast
  then show ?thesis
  proof cases
    case dry
    obtain i s1 where g: "getChasmDataIndex florVoxel makeDryChasmVoxelData env adjacentFaces s = (i, s1)"
      by (cases "getChasmDataIndex florVoxel makeDryChasmVoxelData env adjacentFaces s")
    with assms(2) dry have "r = Some i" "s' = s1" by (simp_all add: chasmDataIndex_def Let_def)
    with getChasmDataIndex_insert [OF g] dry show ?thesis by simp
  next
    case lava
    obtain i s1 where g: "getChasmDataIndex florVoxel makeLavaChasmVoxelData env adjacentFaces s = (i, s1)"
      by (cases "getChasmDataIndex florVoxel makeLavaChasmVoxelData env adjacentFaces s")
    with assms(2) lava have "r = Some i" "s' = s1" by (simp_all add: chasmDataIndex_def Let_def)
    with getChasmDataIndex_insert [OF g] lava show ?thesis by simp
  next
    case wet
    obtain i s1 where g: "getChasmDataIndex florVoxel makeWetChasmVoxelData env adjacentFaces s = (i, s1)"
      by (cases "getChasmDataIndex florVoxel makeWetChasmVoxelData env adjacentFaces s")
    with assms(2) wet have "r = Some i" "s' = s1" by (simp_all add: chasmDataIndex_def Let_def)
    with getChasmDataIndex_insert [OF g] wet show ?thesis by simp
  qed
qed

lemma getDataIndex_step:
  assumes valid: "cachesValid env worldType s"
    and run: "getDataIndex map1Voxel func s = Inr (index, s')"
    and d: "map1VoxelData env worldType map1Voxel
              = (case func map1Voxel of Inl e \<Rightarrow> None | Inr d \<Rightarrow> Some d)"
  shows "\<exists>d. map1VoxelData env worldType map1Voxel = Some d
           \<and> insertIfAbsent (WallKey map1Voxel) d s index s'"
proof (cases "func map1Voxel")
  case (Inr d')
  with getDataIndex_insert [OF run Inr] d show ?thesis by simp
next
  case (Inl e)
  with run obtain wallIter where hit: "findWallMapping map1Voxel s = Some wallIter"
    by (auto simp: getDataIndex_def split: option.splits)
  then have "cachedIndex s (WallKey map1Voxel) = Some (snd wallIter)" by simp
  with valid have "keyDef env worldType (WallKey map1Voxel) \<noteq> None"
    unfolding cachesValid_def by blast
  with d Inl show ?thesis by simp
qed

lemma map1_step:
  assumes valid: "cachesValid env worldType s"
    and run: "map1DataIndex env worldType map1Voxel s = Inr (r, s')"
  shows "stepResult env worldType (WallKey map1Voxel) s r s'"
proof (cases "map1Voxel AND 0x8000 = 0")
  case True
  show ?thesis
  proof (cases "map1Voxel = 0")
    case z: True
    with True run show ?thesis
      by (simp add: map1DataIndex_def map1VoxelData_def stepResult_def)
  next
    case nz: False
    let ?msb = "(ucast (drop_bit 8 (map1Voxel AND 0x7F00)) :: 8 word)"
    let ?lsb = "(ucast (map1Voxel AND 0x007F) :: 8 word)"
    show ?thesis
    proof (cases "?msb = ?lsb")
      case solid: True
      obtain i s1 where g: "getWallDataIndex env map1Voxel ?msb s = (i, s1)"
        by (cases "getWallDataIndex env map1Voxel ?msb s")
      with True nz solid run have "r = Some i" "s' = s1"
        by (simp_all add: map1DataIndex_def Let_def)
      with getWallDataIndex_insert [OF g] True nz solid show ?thesis
        by (simp add: map1VoxelData_def stepResult_def Let_def)
    next
      case raised: False
      obtain i s1 where g: "getRaisedDataIndex env map1Voxel ?msb s = (i, s1)"
        by (cases "getRaisedDataIndex env map1Voxel ?msb s")
      with True nz raised run have "r = Some i" "s' = s1"
        by (simp_all add: map1DataIndex_def Let_def)
      with getRaisedDataIndex_insert [OF g] True nz raised show ?thesis
        by (simp add: map1VoxelData_def stepResult_def Let_def)
    qed
  qed
next
  case False
  let ?n = "(ucast (drop_bit 12 (map1Voxel AND 0xF000)) :: 8 word)"
  consider (t8) "?n = 0x8" | (t9) "?n = 0x9" | (tA) "?n = 0xA" | (tB) "?n = 0xB"
    | (tC) "?n = 0xC" | (tD) "?n = 0xD"
    | (other) "?n \<noteq> 0x8" "?n \<noteq> 0x9" "?n \<noteq> 0xA" "?n \<noteq> 0xB" "?n \<noteq> 0xC" "?n \<noteq> 0xD"
    by blast
  then show ?thesis
  proof cases
    case t8
    with False run show ?thesis
      by (simp add: map1DataIndex_def map1VoxelData_def stepResult_def Let_def)
  next
    case t9
    from False t9 run obtain i where r: "r = Some i"
      and g: "getDataIndex map1Voxel makeType9VoxelData s = Inr (i, s')"
      by (auto simp: map1DataIndex_def Let_def split: sum.splits)
    have "map1VoxelData env worldType map1Voxel
            = (case makeType9VoxelData map1Voxel of Inl e \<Rightarrow> None | Inr d \<Rightarrow> Some d)"
      using False t9 by (simp add: map1VoxelData_def Let_def)
    from getDataIndex_step [OF valid g this] r show ?thesis
      by (auto simp: stepResult_def)
  next
    case tA
    show ?thesis
    proof (cases "uint (map1Voxel AND 0x003F) - 1 \<ge> 0")
      case tex: True
      obtain i s1 where g: "getTypeADataIndex env worldType map1Voxel
                              (uint (map1Voxel AND 0x003F) - 1) s = (i, s1)"
        by (cases "getTypeADataIndex env worldType map1Voxel (uint (map1Voxel AND 0x003F) - 1) s")
      with False tA tex run have "r = Some i" "s' = s1"
        by (simp_all add: map1DataIndex_def Let_def)
      with getTypeADataIndex_insert [OF g] False tA tex show ?thesis
        by (simp add: map1VoxelData_def stepResult_def Let_def)
    next
      case notex: False
      with False tA run show ?thesis
        by (simp add: map1DataIndex_def map1VoxelData_def stepResult_def Let_def)
    qed
  next
    case tB
    from False tB run obtain i where r: "r = Some i"
      and g: "getDataIndex map1Voxel makeTypeBVoxelData s = Inr (i, s')"
      by (auto simp: map1DataIndex_def Let_def split: sum.splits)
    have "map1VoxelData env worldType map1Voxel
            = (case makeTypeBVoxelData map1Voxel of Inl e \<Rightarrow> None | Inr d \<Rightarrow> Some d)"
      using False tB by (simp add: map1VoxelData_def Let_def)
    from getDataIndex_step [OF valid g this] r show ?thesis
      by (auto simp: stepResult_def)
  next
    case tC
    with False run show ?thesis
      by (simp add: map1DataIndex_def map1VoxelData_def stepResult_def Let_def)
  next
    case tD
    from False tD run obtain i where r: "r = Some i"
      and g: "getDataIndex map1Voxel makeTypeDVoxelData s = Inr (i, s')"
      by (auto simp: map1DataIndex_def Let_def split: sum.splits)
    have "map1VoxelData env worldType map1Voxel
            = (case makeTypeDVoxelData map1Voxel of Inl e \<Rightarrow> None | Inr d \<Rightarrow> Some d)"
      using False tD by (simp add: map1VoxelData_def Let_def)
    from getDataIndex_step [OF valid g this] r show ?thesis
      by (auto simp: stepResult_def)
  next
    case other
    with False run show ?thesis
      by (simp add: map1DataIndex_def map1VoxelData_def stepResult_def Let_def)
  qed
qed

lemma lookup_step:
  assumes valid: "cachesValid env worldType s"
    and run: "lookup env worldType request s = Inr (r, s')"
  shows "stepResult env worldType (keyOf env request) s r s'"
proof (cases request)
  case (FlorLookup florVoxel adjacentFaces)
  show ?thesis
  proof (cases "isChasm env (getFloorTextureID florVoxel)")
    case True
    with run FlorLookup have "chasmDataIndex env florVoxel adjacentFaces s = (r, s')" by simp
    from chasm_step [OF True this, of worldType] True FlorLookup show ?thesis
      by (auto simp: stepResult_def)
  next
    case False
    obtain i s1 where g: "getFlorDataIndex florVoxel (getFloorTextureID florVoxel) s = (i, s1)"
      by (cases "getFlorDataIndex florVoxel (getFloorTextureID florVoxel) s")
    with run FlorLookup False have "r = Some i" "s' = s1" by simp_all
    with getFlorDataIndex_insert [OF g] False FlorLookup show ?thesis
      by (simp add: stepResult_def)
  qed
next
  case (Map1Lookup map1Voxel)
  with map1_step [OF valid, of map1Voxel r s'] run show ?thesis by simp
next
  case (Map2Lookup map2Voxel)
  obtain i s1 where g: "getMap2DataIndex map2Voxel s = (i, s1)"
    by (cases "getMap2DataIndex map2Voxel s")
  with run Map2Lookup have "r = Some i" "s' = s1" by simp_all
  with getMap2DataIndex_insert [OF g] Map2Lookup show ?thesis
    by (simp add: stepResult_def)
qed

lemma extends_refl: "extends s s"
  by (simp add: extends_def)

lemma extends_trans: "extends a b \<Longrightarrow> extends b c \<Longrightarrow> extends a c"
  by (auto simp: extends_def)

lemma step_preserves:
  assumes valid: "cachesValid env worldType s"
    and step: "stepResult env worldType key s r s'"
  shows "cachesValid env worldType s'" and "extends s s'"
    and "r = None \<longrightarrow> keyDef env worldType key = None"
    and "\<forall>index. r = Some index \<longrightarrow> cachedIndex s' key = Some index"
proof -
  have "cachesValid env worldType s' \<and> extends s s'
      \<and> (r = None \<longrightarrow> keyDef env worldType key = None)
      \<and> (\<forall>index. r = Some index \<longrightarrow> cachedIndex s' key = Some index)"
  proof (cases "keyDef env worldType key")
    case None
    with step valid show ?thesis by (simp add: stepResult_def extends_refl)
  next
    case (Some d)
    with step obtain index where r: "r = Some index" and ins: "insertIfAbsent key d s index s'"
      by (auto simp: stepResult_def)
    show ?thesis
    proof (cases "cachedIndex s key")
      case hit: (Some cached)
      with ins have "index = cached" "s' = s" by (simp_all add: insertIfAbsent_def)
      with valid r hit show ?thesis by (simp add: extends_refl)
    next
      case miss: None
      with ins have i: "index = int (length (voxelData s))"
        and vd: "voxelData s' = voxelData s @ [d]"
        and ci: "cachedIndex s' = (cachedIndex s)(key \<mapsto> index)"
        by (simp_all add: insertIfAbsent_def)
      have "cachesValid env worldType s'"
        unfolding cachesValid_def
      proof (intro allI impI)
        fix key' index'
        assume c: "cachedIndex s' key' = Some index'"
        show "0 \<le> index' \<and> nat index' < length (voxelData s')
                \<and> keyDef env worldType key' = Some (voxelData s' ! nat index')"
        proof (cases "key' = key")
          case True
          with c ci i have "index' = int (length (voxelData s))" by simp
          with True Some vd show ?thesis by simp
        next
          case False
          with c ci have "cachedIndex s key' = Some index'" by simp
          with valid have "0 \<le> index'" "nat index' < length (voxelData s)"
            "keyDef env worldType key' = Some (voxelData s ! nat index')"
            unfolding cachesValid_def by blast+
          then show ?thesis by (simp add: vd nth_append)
        qed
      qed
      moreover have "extends s s'"
        using vd ci miss by (auto simp: extends_def)
      ultimately show ?thesis using r ci by simp
    qed
  qed
  then show "cachesValid env worldType s'" and "extends s s'"
    and "r = None \<longrightarrow> keyDef env worldType key = None"
    and "\<forall>index. r = Some index \<longrightarrow> cachedIndex s' key = Some index"
    by simp_all
qed

lemma lookups_run:
  "lookups env worldType requests s = Inr (indices, s') \<Longrightarrow> cachesValid env worldType s
   \<Longrightarrow> cachesValid env worldType s' \<and> extends s s' \<and> length indices = length requests
       \<and> (\<forall>a < length requests.
             (indices ! a = None \<longrightarrow> keyDef env worldType (keyOf env (requests ! a)) = None)
           \<and> (\<forall>index. indices ! a = Some index
                  \<longrightarrow> cachedIndex s' (keyOf env (requests ! a)) = Some index))"
proof (induction requests arbitrary: s indices)
  case Nil
  then show ?case by (simp add: extends_refl)
next
  case (Cons request requests)
  from Cons.prems(1) obtain r s1 rest where
    1: "lookup env worldType request s = Inr (r, s1)"
    and 2: "lookups env worldType requests s1 = Inr (rest, s')"
    and ind: "indices = r # rest"
    by (auto split: sum.splits)
  note step = step_preserves [OF Cons.prems(2) lookup_step [OF Cons.prems(2) 1]]
  from Cons.IH [OF 2 step(1)] have
    IH: "cachesValid env worldType s'" "extends s1 s'" "length rest = length requests"
      "\<forall>a < length requests.
             (rest ! a = None \<longrightarrow> keyDef env worldType (keyOf env (requests ! a)) = None)
           \<and> (\<forall>index. rest ! a = Some index
                  \<longrightarrow> cachedIndex s' (keyOf env (requests ! a)) = Some index)"
    by simp_all
  have first: "\<forall>index. r = Some index \<longrightarrow> cachedIndex s' (keyOf env request) = Some index"
    using step(4) IH(2) by (auto simp: extends_def)
  have all: "\<forall>a < length (request # requests).
             ((r # rest) ! a = None
                \<longrightarrow> keyDef env worldType (keyOf env ((request # requests) ! a)) = None)
           \<and> (\<forall>index. (r # rest) ! a = Some index
                  \<longrightarrow> cachedIndex s' (keyOf env ((request # requests) ! a)) = Some index)"
  proof (intro allI impI)
    fix a
    assume "a < length (request # requests)"
    then show "((r # rest) ! a = None
                \<longrightarrow> keyDef env worldType (keyOf env ((request # requests) ! a)) = None)
           \<and> (\<forall>index. (r # rest) ! a = Some index
                  \<longrightarrow> cachedIndex s' (keyOf env ((request # requests) ! a)) = Some index)"
      using step(3) first IH(4) by (cases a) auto
  qed
  show ?case
    using IH(1,3) extends_trans [OF step(2) IH(2)] all ind by simp
qed

lemma lookup_hit:
  assumes hit: "cachedIndex s (keyOf env request) = Some index"
    and d: "keyDef env worldType (keyOf env request) \<noteq> None"
  shows "lookup env worldType request s = Inr (Some index, s)"
proof (cases request)
  case (FlorLookup florVoxel adjacentFaces)
  show ?thesis
  proof (cases "isChasm env (getFloorTextureID florVoxel)")
    case False
    with hit FlorLookup show ?thesis
      by (auto simp: getFlorDataIndex_def)
  next
    case True
    with hit FlorLookup obtain tuple where
      "find (\<lambda>tuple. fst tuple = florVoxel \<and> fst (snd tuple) = adjacentFaces)
         (chasmDataMappings s) = Some tuple" "snd (snd tuple) = index"
      by auto
    then have "getChasmDataIndex florVoxel chasmFunc env adjacentFaces s = (index, s)" for chasmFunc
      by (simp add: getChasmDataIndex_def)
    then have "chasmDataIndex env florVoxel adjacentFaces s = (Some index, s)"
      using True unfolding chasmDataIndex_def isChasm_def Let_def by auto
    with True FlorLookup show ?thesis
      by simp
  qed
next
  case (Map1Lookup map1Voxel)
  with hit obtain wallIter where f: "findWallMapping map1Voxel s = Some wallIter"
    and i: "snd wallIter = index"
    by auto
  from d Map1Lookup have "map1VoxelData env worldType map1Voxel \<noteq> None" by simp
  then have "map1DataIndex env worldType map1Voxel s = Inr (Some index, s)"
    using f i
    by (auto simp: map1VoxelData_def map1DataIndex_def Let_def getWallDataIndex_def
        getRaisedDataIndex_def getTypeADataIndex_def getDataIndex_def split: if_splits)
  with Map1Lookup show ?thesis by simp
next
  case (Map2Lookup map2Voxel)
  with hit show ?thesis by (auto simp: getMap2DataIndex_def)
qed

lemma lookup_again:
  assumes valid: "cachesValid env worldType s"
    and run: "lookup env worldType request s = Inr (r, s')"
  shows "lookup env worldType request s' = Inr (r, s')"
proof (cases r)
  case None
  with lookup_step [OF valid run] step_preserves(3) [OF valid lookup_step [OF valid run]]
  have "s' = s" by (simp add: stepResult_def)
  with run show ?thesis by simp
next
  case (Some index)
  note step = step_preserves [OF valid lookup_step [OF valid run]]
  from step(4) Some have hit: "cachedIndex s' (keyOf env request) = Some index" by simp
  with step(1) have "keyDef env worldType (keyOf env request) \<noteq> None"
    unfolding cachesValid_def by fastforce
  from lookup_hit [OF hit this] Some show ?thesis by simp
qed


lemma cachedIndex_emptyLevel: "cachedIndex emptyLevel key = None"
  by (cases key) (simp_all add: emptyLevel_def findWallMapping_def)

lemma cachesValid_emptyLevel: "cachesValid env worldType emptyLevel"
  by (simp add: cachesValid_def cachedIndex_emptyLevel)

lemma cacheRequests_run:
  "\<exists>s'. lookups exampleEnv City cacheRequests emptyLevel
          = Inr ([Some 0, Some 1, Some 0, Some 2, Some 1, Some 3, Some 4, Some 3, Some 4, None], s')
        \<and> voxelData s' = [Floor 3, Chasm 5 True False False False Dry,
             Chasm 5 False False False False Dry, Wall 2 2 2 None Solid, Wall 0 0 0 None Solid]"
  by (simp add: cacheRequests_def exampleEnv_def emptyLevel_def isChasm_def getFloorTextureID_def
      getFlorDataIndex_def chasmDataIndex_def getChasmDataIndex_def getMap2DataIndex_def
      map1DataIndex_def getWallDataIndex_def getDataIndex_def findWallMapping_def
      makeWallVoxelData_def makeDryChasmVoxelData_def addVoxelData_def matchesIndex_def Let_def)

text \<open>
  C2. Every cache of the level (floor, chasm, wall, MAP2) is an exact-match, insert-if-absent
  mapping: on a level whose caches are valid, a lookup returns the cached index of its key
  and changes nothing, or appends the definition of the key and records its position under
  that key, and the same lookup repeated on the result returns the same index and leaves the
  level as it is. In a sequence of lookups on one level, two lookups with the same key
  (the raw voxel, for a chasm the raw voxel and the same adjacent faces) get the same index,
  every index is the position of the definition decoded for its key, and two lookups whose
  decoded definitions differ never get the same index.
\<close>

theorem cache_lookups_consistent:
  assumes valid: "cachesValid env worldType s"
  shows "(lookup env worldType request s = Inr (r, s1)
            \<longrightarrow> lookup env worldType request s1 = Inr (r, s1)
                \<and> stepResult env worldType (keyOf env request) s r s1)
       \<and> (lookups env worldType requests s = Inr (indices, s')
            \<longrightarrow> cachesValid env worldType s' \<and> length indices = length requests
              \<and> (\<forall>a < length requests. \<forall>b < length requests.
                     keyOf env (requests ! a) = keyOf env (requests ! b)
                       \<longrightarrow> indices ! a = indices ! b)
              \<and> (\<forall>a < length requests. \<forall>index. indices ! a = Some index
                     \<longrightarrow> 0 \<le> index \<and> nat index < length (voxelData s')
                         \<and> keyDef env worldType (keyOf env (requests ! a))
                             = Some (voxelData s' ! nat index))
              \<and> (\<forall>a < length requests. \<forall>b < length requests.
                     keyDef env worldType (keyOf env (requests ! a))
                       \<noteq> keyDef env worldType (keyOf env (requests ! b))
                       \<longrightarrow> indices ! a \<noteq> indices ! b))"
proof -
  have one: "lookup env worldType request s1 = Inr (r, s1)
                \<and> stepResult env worldType (keyOf env request) s r s1"
    if "lookup env worldType request s = Inr (r, s1)"
    using lookup_again [OF valid that] lookup_step [OF valid that] by simp
  have many: "cachesValid env worldType s' \<and> length indices = length requests
              \<and> (\<forall>a < length requests. \<forall>b < length requests.
                     keyOf env (requests ! a) = keyOf env (requests ! b)
                       \<longrightarrow> indices ! a = indices ! b)
              \<and> (\<forall>a < length requests. \<forall>index. indices ! a = Some index
                     \<longrightarrow> 0 \<le> index \<and> nat index < length (voxelData s')
                         \<and> keyDef env worldType (keyOf env (requests ! a))
                             = Some (voxelData s' ! nat index))
              \<and> (\<forall>a < length requests. \<forall>b < length requests.
                     keyDef env worldType (keyOf env (requests ! a))
                       \<noteq> keyDef env worldType (keyOf env (requests ! b))
                       \<longrightarrow> indices ! a \<noteq> indices ! b)"
    if run: "lookups env worldType requests s = Inr (indices, s')"
  proof -
    from lookups_run [OF run valid] have
      v': "cachesValid env worldType s'" and len: "length indices = length requests"
      and res: "\<And>a. a < length requests \<Longrightarrow>
                 indices ! a = None \<Longrightarrow> keyDef env worldType (keyOf env (requests ! a)) = None"
      and hit: "\<And>a index. a < length requests \<Longrightarrow> indices ! a = Some index
                 \<Longrightarrow> cachedIndex s' (keyOf env (requests ! a)) = Some index"
      by simp_all
    have def: "0 \<le> index \<and> nat index < length (voxelData s')
                 \<and> keyDef env worldType (keyOf env (requests ! a)) = Some (voxelData s' ! nat index)"
      if "a < length requests" "indices ! a = Some index" for a index
      using hit [OF that] v' unfolding cachesValid_def by blast
    have same: "indices ! a = indices ! b"
      if a: "a < length requests" and b: "b < length requests"
        and k: "keyOf env (requests ! a) = keyOf env (requests ! b)" for a b
    proof (cases "indices ! a")
      case None
      from res [OF a None] k have "keyDef env worldType (keyOf env (requests ! b)) = None" by simp
      with def [OF b] None show ?thesis by (cases "indices ! b") auto
    next
      case (Some i)
      from def [OF a Some] k have "keyDef env worldType (keyOf env (requests ! b)) \<noteq> None" by simp
      with res [OF b] obtain j where j: "indices ! b = Some j" by (cases "indices ! b") auto
      from hit [OF a Some] hit [OF b j] k Some j show ?thesis by simp
    qed
    have distinct: "indices ! a \<noteq> indices ! b"
      if a: "a < length requests" and b: "b < length requests"
        and k: "keyDef env worldType (keyOf env (requests ! a))
                  \<noteq> keyDef env worldType (keyOf env (requests ! b))" for a b
    proof
      assume eq: "indices ! a = indices ! b"
      show False
      proof (cases "indices ! a")
        case None
        with res [OF a] res [OF b] eq k show False by simp
      next
        case (Some i)
        with def [OF a Some] def [OF b, of i] eq k show False by simp
      qed
    qed
    from v' len same def distinct show ?thesis by blast
  qed
  from one many show ?thesis by blast
qed

theorem cache_lookups_consistent_witness:
  "cachesValid exampleEnv City emptyLevel
   \<and> (\<exists>s1. lookup exampleEnv City (Map2Lookup 0x0003) emptyLevel = Inr (Some 0, s1)
          \<and> lookup exampleEnv City (Map2Lookup 0x0003) s1 = Inr (Some 0, s1))
   \<and> (\<exists>s'. lookups exampleEnv City cacheRequests emptyLevel
          = Inr ([Some 0, Some 1, Some 0, Some 2, Some 1, Some 3, Some 4, Some 3, Some 4, None], s')
        \<and> voxelData s' = [Floor 3, Chasm 5 True False False False Dry,
             Chasm 5 False False False False Dry, Wall 2 2 2 None Solid, Wall 0 0 0 None Solid]
        \<and> cachesValid exampleEnv City s'
        \<and> keyDef exampleEnv City (keyOf exampleEnv (cacheRequests ! 4))
             = Some (voxelData s' ! 1))"
proof -
  have valid: "cachesValid exampleEnv City emptyLevel"
    by (rule cachesValid_emptyLevel)
  obtain s1 where one: "lookup exampleEnv City (Map2Lookup 0x0003) emptyLevel = Inr (Some 0, s1)"
    by (simp add: getMap2DataIndex_def emptyLevel_def addVoxelData_def Let_def)
  from cacheRequests_run obtain s' where
    run: "lookups exampleEnv City cacheRequests emptyLevel
            = Inr ([Some 0, Some 1, Some 0, Some 2, Some 1, Some 3, Some 4, Some 3, Some 4, None], s')"
    and data: "voxelData s' = [Floor 3, Chasm 5 True False False False Dry,
             Chasm 5 False False False False Dry, Wall 2 2 2 None Solid, Wall 0 0 0 None Solid]"
    by blast
  note inst = cache_lookups_consistent [OF valid, of "Map2Lookup 0x0003" "Some 0" s1 cacheRequests
      "[Some 0, Some 1, Some 0, Some 2, Some 1, Some 3, Some 4, Some 3, Some 4, None]" s']
  from inst [THEN conjunct1] one
  have again: "lookup exampleEnv City (Map2Lookup 0x0003) s1 = Inr (Some 0, s1)"
    by blast
  note many = inst [THEN conjunct2, THEN mp, OF run]
  note v' = many [THEN conjunct1]
  note defs = many [THEN conjunct2, THEN conjunct2, THEN conjunct2, THEN conjunct1]
  have l: "(4::nat) < length cacheRequests" by (simp add: cacheRequests_def)
  have "[Some 0, Some 1, Some 0, Some 2, Some 1, Some 3, Some 4, Some 3, Some 4, None] ! 4
          = Some (1::int)"
    by simp
  from defs [rule_format, OF l this]
  have k: "keyDef exampleEnv City (keyOf exampleEnv (cacheRequests ! 4))
             = Some (voxelData s' ! 1)"
    by simp
  from one again
  have p2: "\<exists>s1. lookup exampleEnv City (Map2Lookup 0x0003) emptyLevel = Inr (Some 0, s1)
          \<and> lookup exampleEnv City (Map2Lookup 0x0003) s1 = Inr (Some 0, s1)"
    by blast
  from run data v' k
  have p3: "\<exists>s'. lookups exampleEnv City cacheRequests emptyLevel
          = Inr ([Some 0, Some 1, Some 0, Some 2, Some 1, Some 3, Some 4, Some 3, Some 4, None], s')
        \<and> voxelData s' = [Floor 3, Chasm 5 True False False False Dry,
             Chasm 5 False False False False Dry, Wall 2 2 2 None Solid, Wall 0 0 0 None Solid]
        \<and> cachesValid exampleEnv City s'
        \<and> keyDef exampleEnv City (keyOf exampleEnv (cacheRequests ! 4))
             = Some (voxelData s' ! 1)"
    by blast
  from valid p2 p3 show ?thesis by (intro conjI)
qed

section \<open>Properties of readFLOR\<close>



























end
